theory Spec2Isabelle
  imports Complex_Main "HOL-Library.Sublist" "HOL-Library.Char_ord" "HOL-Library.List_Lexorder"
begin

section \<open>Exceptions and results\<close>

text \<open>
  The exception classes of \<^verbatim>\<open>downloader.py\<close> (\<^verbatim>\<open>DownloadError\<close>, \<^verbatim>\<open>DownloadCancelled\<close>), the
  built-in classes the adapters raise themselves, and one constructor for whatever the
  external libraries (pytube, yt-dlp) raise.  All of them are subclasses of Python's
  \<^verbatim>\<open>Exception\<close>; \<^verbatim>\<open>DownloadCancelled\<close> is always raised without arguments.
\<close>

datatype exn =
    DownloadCancelled
  | DownloadError string
  | ValueError string
  | RuntimeError string
  | ZeroDivisionError string
  | OSError string
  | LibraryError string

text \<open>\<^verbatim>\<open>str(exc)\<close>\<close>

fun str_exn :: "exn \<Rightarrow> string" where
  "str_exn DownloadCancelled = []"
| "str_exn (DownloadError m) = m"
| "str_exn (ValueError m) = m"
| "str_exn (RuntimeError m) = m"
| "str_exn (ZeroDivisionError m) = m"
| "str_exn (OSError m) = m"
| "str_exn (LibraryError m) = m"

text \<open>
  The outcome of a call: it returns a value, raises, or never returns (\<open>Hang\<close>: the worker
  thread spins in \<^verbatim>\<open>wait_if_paused\<close> for ever).
\<close>

datatype 'a res = Ok 'a | Err exn | Hang

section \<open>\<^verbatim>\<open>WorkerControl\<close> (gui.py)\<close>

text \<open>
  The two \<^verbatim>\<open>threading.Event\<close> objects of a \<^verbatim>\<open>WorkerControl\<close>.  The spec's flag \<open>paused\<close> is
  the negation of \<open>resume_event\<close>, its flag \<open>cancelled\<close> is \<open>cancel_event\<close>.
\<close>

record worker_control =
  resume_event :: bool
  cancel_event :: bool

definition WorkerControl_init :: worker_control where
  "WorkerControl_init = \<lparr>resume_event = True, cancel_event = False\<rparr>"

definition pause :: "worker_control \<Rightarrow> worker_control" where
  "pause c = c\<lparr>resume_event := False\<rparr>"

definition resume :: "worker_control \<Rightarrow> worker_control" where
  "resume c = c\<lparr>resume_event := True\<rparr>"

definition cancel :: "worker_control \<Rightarrow> worker_control" where
  "cancel c = (c\<lparr>cancel_event := True\<rparr>)\<lparr>resume_event := True\<rparr>"

definition is_paused :: "worker_control \<Rightarrow> bool" where
  "is_paused c = (\<not> resume_event c)"

definition raise_if_cancelled :: "worker_control \<Rightarrow> exn + unit" where
  "raise_if_cancelled c = (if cancel_event c then Inl DownloadCancelled else Inr ())"

text \<open>The controller's methods, to run sequences of them.\<close>

datatype control_op = Pause | Resume | Cancel

fun apply_op :: "control_op \<Rightarrow> worker_control \<Rightarrow> worker_control" where
  "apply_op Pause c = pause c"
| "apply_op Resume c = resume c"
| "apply_op Cancel c = cancel c"

definition apply_ops :: "control_op list \<Rightarrow> worker_control \<Rightarrow> worker_control" where
  "apply_ops ops c = fold apply_op ops c"

subsection \<open>The worker polling a control that another thread changes\<close>

text \<open>
  The control is written by the controller thread and read by the worker thread.  Each
  \<^verbatim>\<open>Event.set\<close>, \<^verbatim>\<open>Event.clear\<close> and \<^verbatim>\<open>Event.is_set\<close> is atomic.  The controller's future
  activity is a \<open>schedule\<close>: a list of batches of atomic event writes; the worker lets the
  next batch happen before each of its reads.  \<^verbatim>\<open>pause()\<close> is \<open>[ResumeClear]\<close>, \<^verbatim>\<open>resume()\<close> is
  \<open>[ResumeSet]\<close>, \<^verbatim>\<open>cancel()\<close> is \<open>[CancelSet, ResumeSet]\<close>, possibly split over two batches
  (the worker reading in between).  When the schedule is used up the controller stays
  silent for ever.
\<close>

datatype event_write = ResumeClear | ResumeSet | CancelSet

fun apply_write :: "event_write \<Rightarrow> worker_control \<Rightarrow> worker_control" where
  "apply_write ResumeClear c = c\<lparr>resume_event := False\<rparr>"
| "apply_write ResumeSet c = c\<lparr>resume_event := True\<rparr>"
| "apply_write CancelSet c = c\<lparr>cancel_event := True\<rparr>"

type_synonym schedule = "event_write list list"

type_synonym control = "worker_control \<times> schedule"

fun controller_turn :: "control \<Rightarrow> control" where
  "controller_turn (c, []) = (c, [])"
| "controller_turn (c, b # bs) = (fold apply_write b c, bs)"

text \<open>
  \<^verbatim>\<open>raise_if_cancelled\<close> as the worker calls it: one read of \<open>cancel_event\<close>.  The control
  is returned as the read left it.
\<close>

definition raise_if_cancelled_w :: "control \<Rightarrow> unit res \<times> control" where
  "raise_if_cancelled_w k =
     (let k1 = controller_turn k
      in (if cancel_event (fst k1) then Err DownloadCancelled else Ok (), k1))"

text \<open>
  \<^verbatim>\<open>wait_if_paused\<close>: the loop test reads \<open>resume_event\<close>, the body calls
  \<^verbatim>\<open>raise_if_cancelled\<close> and sleeps one interval; the controller's writes during the sleep
  are the batch of the next read.  With the controller silent (empty schedule), paused
  and not cancelled, the loop never ends: the result is \<open>Hang\<close>.
\<close>

function wait_if_paused :: "control \<Rightarrow> unit res \<times> control" where
  "wait_if_paused k =
     (let k1 = controller_turn k
      in if resume_event (fst k1) then (Ok (), k1)
         else (case raise_if_cancelled_w k1 of
                 (Err e, k2) \<Rightarrow> (Err e, k2)
               | (Hang, k2) \<Rightarrow> (Hang, k2)
               | (Ok u, k2) \<Rightarrow> if snd k = [] then (Hang, k2) else wait_if_paused k2))"
  by pat_completeness auto
termination
  apply (relation "measure (\<lambda>k. length (snd k))")
   apply simp
  subgoal for k
    by (cases k; cases "snd k"; cases "tl (snd k)")
       (auto simp: raise_if_cancelled_w_def Let_def split: if_splits)
  done

declare wait_if_paused.simps [simp del]

section \<open>Strings and paths (Python built-ins the code relies on)\<close>

text \<open>
  A \<open>char\<close> stands for a code point below 256; strings with other code points are outside
  the model.  \<^verbatim>\<open>if s:\<close> on a \<^verbatim>\<open>str | None\<close> is \<open>truthy\<close>.
\<close>

definition truthy :: "string option \<Rightarrow> bool" where
  "truthy s = (case s of None \<Rightarrow> False | Some t \<Rightarrow> t \<noteq> [])"

text \<open>\<^verbatim>\<open>str.isspace\<close> on one character, and \<^verbatim>\<open>str.strip()\<close>.\<close>

definition isspace :: "char \<Rightarrow> bool" where
  "isspace c = (let n = (of_char c :: nat)
                in (9 \<le> n \<and> n \<le> 13) \<or> (28 \<le> n \<and> n \<le> 32) \<or> n = 133 \<or> n = 160)"

definition strip :: "string \<Rightarrow> string" where
  "strip s = rev (dropWhile isspace (rev (dropWhile isspace s)))"

text \<open>
  The decimal digits \<^verbatim>\<open>0\<close> to \<^verbatim>\<open>9\<close> (what a regular expression's digit class matches and
  \<^verbatim>\<open>int\<close> accepts, below code point 256), and \<^verbatim>\<open>str.isdigit\<close>, which is also true of the superscripts U+00B2, U+00B3 and
  U+00B9.
\<close>

definition isdecimal :: "char \<Rightarrow> bool" where
  "isdecimal c = (let n = (of_char c :: nat) in 48 \<le> n \<and> n \<le> 57)"

definition isdigit :: "char \<Rightarrow> bool" where
  "isdigit c = (let n = (of_char c :: nat) in isdecimal c \<or> n = 178 \<or> n = 179 \<or> n = 185)"

text \<open>
  \<^verbatim>\<open>int(s)\<close> on a string of digits: the empty string and a string with a character that
  is not a decimal digit raise \<^verbatim>\<open>ValueError\<close> (\<open>None\<close>).  Strings of more than 4300 digits,
  which \<^verbatim>\<open>int\<close> refuses from Python 3.11 on, are outside the model.
\<close>

definition int_of_digits :: "string \<Rightarrow> nat option" where
  "int_of_digits ds =
     (if ds = [] \<or> \<not> list_all isdecimal ds then None
      else Some (foldl (\<lambda>a c. 10 * a + ((of_char c :: nat) - 48)) 0 ds))"

text \<open>\<^verbatim>\<open>str(n)\<close> for a natural number.\<close>

fun str_nat :: "nat \<Rightarrow> string" where
  "str_nat n =
     (if n < 10 then [char_of (48 + n)]
      else str_nat (n div 10) @ [char_of (48 + n mod 10)])"

declare str_nat.simps [simp del]

text \<open>\<^verbatim>\<open>s.replace(old, new)\<close>\<close>

function replace :: "string \<Rightarrow> string \<Rightarrow> string \<Rightarrow> string" where
  "replace old new s =
     (if old = [] then new @ concat (map (\<lambda>c. c # new) s)
      else if s = [] then []
      else if prefix old s then new @ replace old new (drop (length old) s)
      else hd s # replace old new (tl s))"
  by pat_completeness auto
termination
  by (relation "measure (\<lambda>(old, new, s). length s)") auto

declare replace.simps [simp del]

text \<open>\<^verbatim>\<open>s.rfind(c)\<close>; \<open>None\<close> is Python's \<open>-1\<close>.\<close>

fun rfind :: "char \<Rightarrow> string \<Rightarrow> nat option" where
  "rfind c [] = None"
| "rfind c (x # xs) =
     (case rfind c xs of
        Some i \<Rightarrow> Some (Suc i)
      | None \<Rightarrow> if x = c then Some 0 else None)"

text \<open>\<^verbatim>\<open>s.split("/")\<close>\<close>

fun split_slash :: "string \<Rightarrow> string list" where
  "split_slash [] = [[]]"
| "split_slash (c # cs) =
     (if c = CHR ''/'' then [] # split_slash cs
      else (case split_slash cs of
              [] \<Rightarrow> [[c]]
            | p # ps \<Rightarrow> (c # p) # ps))"

text \<open>
  \<^verbatim>\<open>pathlib\<close> paths of the POSIX flavour, in parsed form: the root (empty, one slash or
  two slashes) and the components, empty and single-dot components dropped.  \<open>suffix\<close> is
  the one of Python up to 3.13 (a name ending in a dot has no suffix).
\<close>

datatype pure_path = PurePath (path_root: string) (path_parts: "string list")

definition Path :: "string \<Rightarrow> pure_path" where
  "Path s =
     PurePath
       (if prefix ''//'' s \<and> \<not> prefix ''///'' s then ''//''
        else if prefix ''/'' s then ''/'' else [])
       (filter (\<lambda>p. p \<noteq> [] \<and> p \<noteq> ''.'') (split_slash s))"

fun join_slash :: "string list \<Rightarrow> string" where
  "join_slash [] = []"
| "join_slash [p] = p"
| "join_slash (p # q # ps) = p @ ''/'' @ join_slash (q # ps)"

definition str_path :: "pure_path \<Rightarrow> string" where
  "str_path p =
     (if path_root p = [] \<and> path_parts p = [] then ''.''
      else path_root p @ join_slash (path_parts p))"

definition name :: "pure_path \<Rightarrow> string" where
  "name p = (if path_parts p = [] then [] else last (path_parts p))"

definition suffix_of :: "pure_path \<Rightarrow> string" where
  "suffix_of p =
     (let n = name p
      in case rfind CHR ''.'' n of
           None \<Rightarrow> []
         | Some i \<Rightarrow> if 0 < i \<and> i + 1 < length n then drop i n else [])"

definition with_suffix :: "pure_path \<Rightarrow> string \<Rightarrow> exn + pure_path" where
  "with_suffix p suf =
     (if CHR ''/'' \<in> set suf then Inl (ValueError (''Invalid suffix '' @ suf))
      else if (suf \<noteq> [] \<and> \<not> prefix ''.'' suf) \<or> suf = ''.''
        then Inl (ValueError (''Invalid suffix '' @ suf))
      else if name p = [] then Inl (ValueError (str_path p @ '' has an empty name''))
      else
        (let old_suffix = suffix_of p;
             n = (if old_suffix = [] then name p @ suf
                  else take (length (name p) - length old_suffix) (name p) @ suf)
         in Inr (PurePath (path_root p) (butlast (path_parts p) @ [n]))))"

text \<open>\<^verbatim>\<open>p / s\<close>\<close>

definition joinpath :: "pure_path \<Rightarrow> string \<Rightarrow> pure_path" where
  "joinpath p s =
     (let q = Path s
      in if path_root q \<noteq> [] then q
         else PurePath (path_root p) (path_parts p @ path_parts q))"

section \<open>The world around the downloader\<close>

text \<open>
  A pytube \<^verbatim>\<open>Stream\<close>, with the attributes the code and \<^verbatim>\<open>StreamQuery\<close> read.
\<close>

record stream =
  itag :: nat
  is_progressive :: bool
  includes_audio_track :: bool
  includes_video_track :: bool
  subtype :: string
  s_resolution :: "string option"
  s_abr :: "string option"
  filesize :: nat
  filesize_approx :: nat
  default_filename :: string

text \<open>The status dictionary yt-dlp hands to a progress hook (missing keys are \<open>None\<close>).\<close>

record status =
  st_status :: "string option"
  downloaded_bytes :: "real option"
  total_bytes :: "real option"
  total_bytes_estimate :: "real option"
  st_filename :: "string option"

text \<open>The option dictionary \<^verbatim>\<open>ydl_opts\<close> (the hook list left out).\<close>

record ydl_opts =
  outtmpl :: string
  format :: string
  noprogress :: bool
  quiet :: bool
  overwrites :: bool
  ffmpeg_location :: "string option"
  merge_output_format :: "string option"
  postprocessors :: "(string \<times> string \<times> string) list option"
  postprocessor_args :: "string list option"
  paths :: "(string \<times> string) option"
  cookiefile :: "string option"
  http_headers :: "(string \<times> string) list option"

text \<open>
  What the libraries and the operating system do is not in the repository; it is a
  parameter \<open>env\<close> of the model, and every theorem holds for every \<open>env\<close>:
  \<^item> \<open>mkdir_error\<close>: \<^verbatim>\<open>output_dir.mkdir\<close> raises \<^verbatim>\<open>OSError\<close> with this message;
  \<^item> \<open>yt_error\<close>: \<^verbatim>\<open>YouTube(url)\<close> or \<^verbatim>\<open>yt.streams\<close> raises; \<open>yt_streams\<close>: the streams of the video;
  \<^item> \<open>dl_chunks\<close>: the \<^verbatim>\<open>bytes_remaining\<close> of each call of the progress handler during
    \<^verbatim>\<open>stream.download\<close>; \<open>dl_error\<close>: the download raises after them; \<open>dl_destination\<close>: the
    path it returns, from the output directory and the file name;
  \<^item> \<open>bundled_ffmpeg\<close>: the \<^verbatim>\<open>ffmpeg.exe\<close> beside the script, if it exists; \<open>which_ffmpeg\<close>: the
    result of \<^verbatim>\<open>shutil.which\<close>;
  \<^item> \<open>mkdtemp\<close>: the directory \<^verbatim>\<open>TemporaryDirectory\<close> creates; \<open>write_error\<close>: \<^verbatim>\<open>write_text\<close>
    raises;
  \<^item> \<open>ydl_init_error\<close>: \<^verbatim>\<open>YoutubeDL(ydl_opts)\<close> raises; \<open>ydl_files\<close>: the files yt-dlp puts on
    disk; \<open>ydl_statuses\<close>: the status dictionaries it passes to the hook, in order;
    \<open>ydl_error\<close>: \<^verbatim>\<open>ydl.download\<close> raises after them;
  \<^item> \<open>resolve\<close>: \<^verbatim>\<open>Path.resolve\<close>; \<open>unlink_error\<close>, \<open>rename_error\<close>: \<^verbatim>\<open>unlink\<close>, \<^verbatim>\<open>rename\<close> raise
    \<^verbatim>\<open>OSError\<close>.

  An exception raised by a handler or hook leaves the library call unchanged, and the
  context managers (\<^verbatim>\<open>TemporaryDirectory\<close>, \<^verbatim>\<open>YoutubeDL\<close>) do not raise on exit.
\<close>

record env =
  mkdir_error :: "string option"
  yt_error :: "string option"
  yt_streams :: "stream list"
  dl_chunks :: "nat list"
  dl_error :: "string option"
  dl_destination :: "string \<Rightarrow> string \<Rightarrow> string"
  bundled_ffmpeg :: "string option"
  which_ffmpeg :: "string option"
  mkdtemp :: string
  write_error :: "string option"
  ydl_init_error :: "string option"
  ydl_files :: "pure_path list"
  ydl_statuses :: "status list"
  ydl_error :: "string option"
  resolve :: "pure_path \<Rightarrow> pure_path"
  unlink_error :: bool
  rename_error :: bool

text \<open>What \<^verbatim>\<open>_safe_write\<close> is asked to print (number formatting left out).\<close>

datatype console_msg =
    ProgressLine int nat
  | DownloadComplete string
  | PytubeFailed string

text \<open>
  The state the program changes: the paths that exist, the texts written with
  \<^verbatim>\<open>write_text\<close>, the events delivered to \<^verbatim>\<open>progress_callback\<close>, the console, the options
  of every \<^verbatim>\<open>YoutubeDL\<close> constructed, the calls of pytube's \<^verbatim>\<open>stream.download\<close> (the stream,
  the output path and the file name of each), and the control object with the
  controller's schedule (read only when a control is passed).
\<close>

record world =
  files :: "pure_path set"
  written :: "(pure_path \<times> string) list"
  sink :: "(real option \<times> string) list"
  console :: "console_msg list"
  ydl_log :: "ydl_opts list"
  dl_log :: "(stream \<times> string \<times> string) list"
  ctl :: control

text \<open>\<^verbatim>\<open>progress_callback(percent, message)\<close>\<close>

definition emit :: "real option \<Rightarrow> string \<Rightarrow> world \<Rightarrow> world" where
  "emit percent message w = w\<lparr>sink := sink w @ [(percent, message)]\<rparr>"

text \<open>\<^verbatim>\<open>control.raise_if_cancelled()\<close> on the control of the world.\<close>

definition raise_if_cancelled_c :: "world \<Rightarrow> unit res \<times> world" where
  "raise_if_cancelled_c w =
     (case raise_if_cancelled_w (ctl w) of (r, k) \<Rightarrow> (r, w\<lparr>ctl := k\<rparr>))"

text \<open>
  \<^verbatim>\<open>if control: control.raise_if_cancelled(); control.wait_if_paused()\<close>, the checkpoint of
  both adapters.
\<close>

definition checkpoint :: "bool \<Rightarrow> world \<Rightarrow> unit res \<times> world" where
  "checkpoint control w =
     (if \<not> control then (Ok (), w)
      else (case raise_if_cancelled_c w of
              (Ok u, w1) \<Rightarrow> (case wait_if_paused (ctl w1) of (r, k) \<Rightarrow> (r, w1\<lparr>ctl := k\<rparr>))
            | (Err e, w1) \<Rightarrow> (Err e, w1)
            | (Hang, w1) \<Rightarrow> (Hang, w1)))"

text \<open>\<^verbatim>\<open>output_dir.mkdir(parents=True, exist_ok=True)\<close>\<close>

definition mkdir :: "env \<Rightarrow> string \<Rightarrow> world \<Rightarrow> unit res \<times> world" where
  "mkdir env output_dir w =
     (case mkdir_error env of
        Some m \<Rightarrow> (Err (OSError m), w)
      | None \<Rightarrow> (Ok (), w\<lparr>files := insert (Path output_dir) (files w)\<rparr>))"

section \<open>The primary adapter (pytube)\<close>

subsection \<open>pytube's \<^verbatim>\<open>StreamQuery\<close>\<close>

text \<open>
  \<^verbatim>\<open>filter\<close> keeps the streams that pass, in order; \<^verbatim>\<open>order_by\<close> drops the streams without
  the attribute and sorts the others (stably, ascending) by \<^verbatim>\<open>int\<close> of the characters of the
  attribute that \<^verbatim>\<open>str.isdigit\<close> keeps, or by the attribute itself when \<^verbatim>\<open>int\<close> raises on
  some attribute (no digit in it, or a superscript digit);
  \<^verbatim>\<open>desc\<close> reverses; \<^verbatim>\<open>first\<close> is the first stream or \<^verbatim>\<open>None\<close>.
\<close>

definition filter_only_audio :: "stream list \<Rightarrow> stream list" where
  "filter_only_audio ss = filter (\<lambda>s. includes_audio_track s \<and> \<not> includes_video_track s) ss"

definition filter_progressive_mp4 :: "stream list \<Rightarrow> stream list" where
  "filter_progressive_mp4 ss = filter (\<lambda>s. is_progressive s \<and> subtype s = ''mp4'') ss"

definition filter_res :: "string \<Rightarrow> stream list \<Rightarrow> stream list" where
  "filter_res r ss = filter (\<lambda>s. s_resolution s = Some r) ss"

definition digits_key :: "(stream \<Rightarrow> string option) \<Rightarrow> stream \<Rightarrow> nat option" where
  "digits_key attr s =
     (case attr s of None \<Rightarrow> None | Some a \<Rightarrow> int_of_digits (filter isdigit a))"

definition order_by :: "(stream \<Rightarrow> string option) \<Rightarrow> stream list \<Rightarrow> stream list" where
  "order_by attr ss =
     (let has_attribute = filter (\<lambda>s. attr s \<noteq> None) ss
      in if list_all (\<lambda>s. digits_key attr s \<noteq> None) has_attribute
         then sort_key (\<lambda>s. case digits_key attr s of Some n \<Rightarrow> n | None \<Rightarrow> 0) has_attribute
         else sort_key (\<lambda>s. case attr s of Some a \<Rightarrow> a | None \<Rightarrow> []) has_attribute)"

definition desc :: "stream list \<Rightarrow> stream list" where
  "desc ss = rev ss"

definition first :: "stream list \<Rightarrow> stream option" where
  "first ss = (case ss of [] \<Rightarrow> None | s # _ \<Rightarrow> Some s)"

subsection \<open>Progress handlers\<close>

text \<open>\<^verbatim>\<open>_progress_callback\<close>, the handler of the command line.\<close>

definition progress_callback_cli :: "stream \<Rightarrow> nat \<Rightarrow> world \<Rightarrow> unit res \<times> world" where
  "progress_callback_cli s bytes_remaining w =
     (let total_size = filesize s;
          bytes_downloaded = int total_size - int bytes_remaining
      in if total_size = 0 then (Err (ZeroDivisionError ''division by zero''), w)
         else (Ok (), w\<lparr>console := console w @ [ProgressLine bytes_downloaded total_size]\<rparr>))"

text \<open>\<^verbatim>\<open>_make_pytube_progress_handler\<close>\<close>

definition make_pytube_progress_handler ::
  "bool \<Rightarrow> bool \<Rightarrow> stream \<Rightarrow> nat \<Rightarrow> world \<Rightarrow> unit res \<times> world" where
  "make_pytube_progress_handler progress_callback control =
     (if \<not> progress_callback then progress_callback_cli
      else (\<lambda>s bytes_remaining w.
        (case checkpoint control w of
           (Ok u, w1) \<Rightarrow>
             (let total_size = (if filesize s \<noteq> 0 then filesize s else filesize_approx s);
                  downloaded = (if total_size \<noteq> 0 then int total_size - int bytes_remaining
                                else 0);
                  percent = (if total_size \<noteq> 0
                             then Some (real_of_int downloaded / real total_size * 100)
                             else None)
              in (Ok (), emit percent [] w1))
         | (Err e, w1) \<Rightarrow> (Err e, w1)
         | (Hang, w1) \<Rightarrow> (Hang, w1))))"

subsection \<open>\<^verbatim>\<open>stream.download\<close>\<close>

fun run_chunks ::
  "(nat \<Rightarrow> world \<Rightarrow> unit res \<times> world) \<Rightarrow> nat list \<Rightarrow> world \<Rightarrow> unit res \<times> world" where
  "run_chunks on_progress [] w = (Ok (), w)"
| "run_chunks on_progress (bytes_remaining # rest) w =
     (case on_progress bytes_remaining w of
        (Ok u, w1) \<Rightarrow> run_chunks on_progress rest w1
      | (Err e, w1) \<Rightarrow> (Err e, w1)
      | (Hang, w1) \<Rightarrow> (Hang, w1))"

definition stream_download ::
  "env \<Rightarrow> (stream \<Rightarrow> nat \<Rightarrow> world \<Rightarrow> unit res \<times> world) \<Rightarrow> stream \<Rightarrow> string \<Rightarrow> string
     \<Rightarrow> world \<Rightarrow> string res \<times> world" where
  "stream_download env on_progress s output_path fname w =
     (case run_chunks (on_progress s) (dl_chunks env)
             (w\<lparr>dl_log := dl_log w @ [(s, output_path, fname)]\<rparr>) of
        (Ok u, w1) \<Rightarrow>
          (case dl_error env of
             Some m \<Rightarrow> (Err (LibraryError m), w1)
           | None \<Rightarrow>
               (let destination = dl_destination env output_path fname
                in (Ok destination, w1\<lparr>files := insert (Path destination) (files w1)\<rparr>)))
      | (Err e, w1) \<Rightarrow> (Err e, w1)
      | (Hang, w1) \<Rightarrow> (Hang, w1))"

subsection \<open>\<^verbatim>\<open>_download_with_pytube\<close>\<close>

text \<open>The choice of the stream (the \<^verbatim>\<open>if audio_only: ... else: ...\<close> of the function).\<close>

definition select_stream :: "stream list \<Rightarrow> bool \<Rightarrow> string option \<Rightarrow> exn + stream" where
  "select_stream streams audio_only resolution =
     (if audio_only then
        (case first (desc (order_by s_abr (filter_only_audio streams))) of
           None \<Rightarrow> Inl (ValueError ''No audio streams available for this video.'')
         | Some s \<Rightarrow> Inr s)
      else
        (let filtered_streams = filter_progressive_mp4 streams
         in case (if truthy resolution then resolution else None) of
              Some r \<Rightarrow>
                (case first (filter_res r filtered_streams) of
                   None \<Rightarrow> Inl (ValueError (''Resolution '' @ r
                              @ '' not available. Use --resolution to pick another.''))
                 | Some s \<Rightarrow> Inr s)
            | None \<Rightarrow>
                (case first (desc (order_by s_resolution filtered_streams)) of
                   None \<Rightarrow> Inl (ValueError
                              ''No progressive MP4 streams available for this video.'')
                 | Some s \<Rightarrow> Inr s)))"

definition download_with_pytube ::
  "env \<Rightarrow> string \<Rightarrow> string \<Rightarrow> string option \<Rightarrow> bool \<Rightarrow> string option \<Rightarrow> bool \<Rightarrow> bool
     \<Rightarrow> world \<Rightarrow> pure_path res \<times> world" where
  "download_with_pytube env url output_dir filename audio_only resolution
       progress_callback control w =
     (case mkdir env output_dir w of
        (Err e, w0) \<Rightarrow> (Err e, w0)
      | (Hang, w0) \<Rightarrow> (Hang, w0)
      | (Ok u, w0) \<Rightarrow>
     (case (if control then raise_if_cancelled_c w0 else (Ok (), w0)) of
        (Err e, w1) \<Rightarrow> (Err e, w1)
      | (Hang, w1) \<Rightarrow> (Hang, w1)
      | (Ok u, w1) \<Rightarrow>
     (case yt_error env of
        Some m \<Rightarrow> (Err (LibraryError m), w1)
      | None \<Rightarrow>
     (case select_stream (yt_streams env) audio_only resolution of
        Inl e \<Rightarrow> (Err e, w1)
      | Inr s \<Rightarrow>
     (case checkpoint control w1 of
        (Err e, w2) \<Rightarrow> (Err e, w2)
      | (Hang, w2) \<Rightarrow> (Hang, w2)
      | (Ok u, w2) \<Rightarrow>
     (let fname = (case filename of
                     None \<Rightarrow> default_filename s
                   | Some f \<Rightarrow> if f \<noteq> [] then f else default_filename s)
      in case stream_download env
                (make_pytube_progress_handler progress_callback control) s output_dir fname w2 of
           (Err e, w3) \<Rightarrow> (Err e, w3)
         | (Hang, w3) \<Rightarrow> (Hang, w3)
         | (Ok destination, w3) \<Rightarrow>
             (Ok (Path destination),
              if progress_callback then emit (Some 100) [] w3
              else w3\<lparr>console := console w3 @ [DownloadComplete destination]\<rparr>)))))))"

section \<open>The fallback adapter (yt-dlp)\<close>

text \<open>\<^verbatim>\<open>_determine_template\<close>\<close>

definition determine_template ::
  "string option \<Rightarrow> bool \<Rightarrow> exn + string \<times> string option" where
  "determine_template filename audio_only =
     (let ext = (if audio_only then Some ''mp3'' else None)
      in case (if truthy filename then filename else None) of
           Some f \<Rightarrow>
             (let nm = Path f
              in if suffix_of nm \<noteq> [] then
                   (if audio_only then
                      (case with_suffix nm ''.mp3'' of
                         Inl e \<Rightarrow> Inl e
                       | Inr p \<Rightarrow> Inr (str_path p, Some ''mp3''))
                    else Inr (str_path nm,
                              Some (dropWhile (\<lambda>c. c = CHR ''.'') (suffix_of nm))))
                 else Inr (name nm @ ''.%(ext)s'', ext))
         | None \<Rightarrow> Inr (''%(title)s.%(ext)s'', ext))"

text \<open>\<^verbatim>\<open>_parse_resolution\<close>: the leading digits of the stripped string, as a number.\<close>

definition parse_resolution :: "string \<Rightarrow> nat option" where
  "parse_resolution resolution = int_of_digits (takeWhile isdecimal (strip resolution))"

text \<open>The format selector (the \<^verbatim>\<open>if audio_only: ... else: ...\<close> at the head of the adapter).\<close>

definition format_selector :: "bool \<Rightarrow> string option \<Rightarrow> string" where
  "format_selector audio_only resolution =
     (if audio_only then ''bestaudio/best''
      else
        (let height = (case resolution of
                         None \<Rightarrow> None
                       | Some r \<Rightarrow> if r \<noteq> [] then parse_resolution r else None);
             height_filter = (case height of
                                None \<Rightarrow> []
                              | Some h \<Rightarrow> if h \<noteq> 0 then ''[height<='' @ str_nat h @ '']''
                                          else []);
             progressive_fallback = ''best'' @ height_filter @ ''[ext=mp4][acodec!=none]''
         in ''bestvideo'' @ height_filter @ ''[ext=mp4]+bestaudio[ext=m4a]/''
            @ ''bestvideo'' @ height_filter @ ''+bestaudio/''
            @ progressive_fallback @ ''/''
            @ ''best''))"

text \<open>The options as they are before the temporary directory is entered.\<close>

definition initial_ydl_opts ::
  "env \<Rightarrow> string \<Rightarrow> string option \<Rightarrow> bool \<Rightarrow> string option \<Rightarrow> ydl_opts" where
  "initial_ydl_opts env template_name final_extension audio_only resolution =
     \<lparr>outtmpl = (if audio_only \<and> truthy final_extension
                 then replace ''%(ext)s'' (case final_extension of Some x \<Rightarrow> x | None \<Rightarrow> [])
                        template_name
                 else template_name),
      format = format_selector audio_only resolution,
      noprogress = False,
      quiet = False,
      overwrites = True,
      ffmpeg_location = (case bundled_ffmpeg env of
                           Some p \<Rightarrow> Some p
                         | None \<Rightarrow> if truthy (which_ffmpeg env) then which_ffmpeg env
                                   else None),
      merge_output_format = (if audio_only then None else Some ''mp4''),
      postprocessors = (if audio_only then Some [(''FFmpegExtractAudio'', ''mp3'', ''192'')]
                        else None),
      postprocessor_args = (if audio_only \<and> truthy final_extension then Some [''-vn'']
                            else None),
      paths = None,
      cookiefile = None,
      http_headers = None\<rparr>"

text \<open>\<^verbatim>\<open>_hook\<close>; \<open>download_info\<close> is the \<^verbatim>\<open>"filepath"\<close> entry of the dictionary.\<close>

definition or_num :: "real option \<Rightarrow> real \<Rightarrow> real" where
  "or_num x d = (case x of None \<Rightarrow> d | Some v \<Rightarrow> if v \<noteq> 0 then v else d)"

definition hook ::
  "env \<Rightarrow> bool \<Rightarrow> bool \<Rightarrow> status \<Rightarrow> pure_path option \<times> world
     \<Rightarrow> unit res \<times> pure_path option \<times> world" where
  "hook env progress_callback control st s =
     (case s of (download_info, w) \<Rightarrow>
      (case checkpoint control w of
         (Err e, w1) \<Rightarrow> (Err e, download_info, w1)
       | (Hang, w1) \<Rightarrow> (Hang, download_info, w1)
       | (Ok u, w1) \<Rightarrow>
           (let status_type = st_status st
            in if status_type = Some ''downloading'' \<and> progress_callback then
                 (let downloaded = or_num (downloaded_bytes st) 0;
                      total = or_num (total_bytes st) (or_num (total_bytes_estimate st) 0);
                      percent = (if total \<noteq> 0 then Some (downloaded / total * 100) else None)
                  in (Ok (), download_info, emit percent [] w1))
               else if status_type = Some ''postprocessing'' \<and> progress_callback then
                 (Ok (), download_info, emit None [] w1)
               else if status_type = Some ''finished'' then
                 (Ok (),
                  (case st_filename st of
                     None \<Rightarrow> download_info
                   | Some f \<Rightarrow> if f \<noteq> [] then Some (resolve env (Path f)) else download_info),
                  (if progress_callback then emit (Some 100) [] w1
                   else w1\<lparr>console := console w1 @
                          [DownloadComplete (case st_filename st of None \<Rightarrow> [] | Some f \<Rightarrow> f)]\<rparr>))
               else (Ok (), download_info, w1))))"

text \<open>\<^verbatim>\<open>ydl.download([url])\<close>: the library calls the hook on each status in turn.\<close>

fun run_hooks ::
  "env \<Rightarrow> bool \<Rightarrow> bool \<Rightarrow> status list \<Rightarrow> pure_path option \<times> world
     \<Rightarrow> unit res \<times> pure_path option \<times> world" where
  "run_hooks env progress_callback control [] s = (Ok (), s)"
| "run_hooks env progress_callback control (st # sts) s =
     (case hook env progress_callback control st s of
        (Ok u, s1) \<Rightarrow> run_hooks env progress_callback control sts s1
      | (Err e, s1) \<Rightarrow> (Err e, s1)
      | (Hang, s1) \<Rightarrow> (Hang, s1))"

definition ydl_download ::
  "env \<Rightarrow> bool \<Rightarrow> bool \<Rightarrow> pure_path option \<times> world \<Rightarrow> unit res \<times> pure_path option \<times> world" where
  "ydl_download env progress_callback control s =
     (case s of (download_info, w) \<Rightarrow>
      (case run_hooks env progress_callback control (ydl_statuses env)
              (download_info, w\<lparr>files := files w \<union> set (ydl_files env)\<rparr>) of
         (Ok u, s1) \<Rightarrow>
           (case ydl_error env of
              Some m \<Rightarrow> (Err (LibraryError m), s1)
            | None \<Rightarrow> (Ok (), s1))
       | (Err e, s1) \<Rightarrow> (Err e, s1)
       | (Hang, s1) \<Rightarrow> (Hang, s1)))"

text \<open>
  The cookie part of the body of \<^verbatim>\<open>with tempfile.TemporaryDirectory(...) as temp_dir\<close>:
  the options with \<^verbatim>\<open>cookiefile\<close> or the \<^verbatim>\<open>Cookie\<close> header, and the cookie file written.
\<close>

definition install_cookies ::
  "env \<Rightarrow> string \<Rightarrow> string option \<Rightarrow> ydl_opts \<Rightarrow> world \<Rightarrow> ydl_opts res \<times> world" where
  "install_cookies env temp_dir cookies opts w =
     (case (if truthy cookies then cookies else None) of
        None \<Rightarrow> (Ok opts, w)
      | Some raw \<Rightarrow>
          (let c = strip raw
           in if CHR 0x0A \<in> set c \<or> CHR 0x09 \<in> set c then
                (let cookie_path = joinpath (Path temp_dir) ''cookies.txt''
                 in case write_error env of
                      Some m \<Rightarrow> (Err (OSError m), w)
                    | None \<Rightarrow>
                        (Ok (opts\<lparr>cookiefile := Some (str_path cookie_path)\<rparr>),
                         w\<lparr>files := insert cookie_path (files w),
                           written := written w @ [(cookie_path, c)]\<rparr>))
              else (Ok (opts\<lparr>http_headers := Some [(''Cookie'', c)]\<rparr>), w)))"

text \<open>The body of the \<^verbatim>\<open>with tempfile.TemporaryDirectory(...)\<close> block.\<close>

definition ytdlp_session ::
  "env \<Rightarrow> string \<Rightarrow> string \<Rightarrow> bool \<Rightarrow> bool \<Rightarrow> string option \<Rightarrow> ydl_opts \<Rightarrow> world
     \<Rightarrow> unit res \<times> pure_path option \<times> world" where
  "ytdlp_session env output_dir temp_dir progress_callback control cookies opts w =
     (case install_cookies env temp_dir cookies
             (opts\<lparr>paths := Some (output_dir, temp_dir)\<rparr>) w of
        (Err e, w1) \<Rightarrow> (Err e, None, w1)
      | (Hang, w1) \<Rightarrow> (Hang, None, w1)
      | (Ok opts1, w1) \<Rightarrow>
     (case ydl_init_error env of
        Some m \<Rightarrow> (Err (LibraryError m), None, w1)
      | None \<Rightarrow>
     (let w2 = w1\<lparr>ydl_log := ydl_log w1 @ [opts1]\<rparr>
      in case (if control then raise_if_cancelled_c w2 else (Ok (), w2)) of
           (Err e, w3) \<Rightarrow> (Err e, None, w3)
         | (Hang, w3) \<Rightarrow> (Hang, None, w3)
         | (Ok u, w3) \<Rightarrow> ydl_download env progress_callback control (None, w3))))"

text \<open>Leaving the \<^verbatim>\<open>with\<close> block removes the temporary directory and all below it.\<close>

definition under :: "pure_path \<Rightarrow> pure_path \<Rightarrow> bool" where
  "under d p = (path_root p = path_root d \<and> prefix (path_parts d) (path_parts p))"

definition cleanup :: "string \<Rightarrow> world \<Rightarrow> world" where
  "cleanup temp_dir w = w\<lparr>files := Set.filter (\<lambda>p. \<not> under (Path temp_dir) p) (files w)\<rparr>"

text \<open>The end of the adapter, from \<^verbatim>\<open>final_path = download_info.get("filepath")\<close> on.\<close>

definition finalize ::
  "env \<Rightarrow> bool \<Rightarrow> string option \<Rightarrow> pure_path option \<Rightarrow> world \<Rightarrow> pure_path res \<times> world" where
  "finalize env audio_only final_extension download_info w =
     (case download_info of
        None \<Rightarrow>
          (Err (RuntimeError ''yt-dlp completed without reporting a destination file.''), w)
      | Some final_path \<Rightarrow>
          (case (if audio_only \<and> truthy final_extension then final_extension else None) of
             None \<Rightarrow> (Ok final_path, w)
           | Some x \<Rightarrow>
               if suffix_of final_path \<noteq> ''.'' @ x then
                 (case with_suffix final_path (''.'' @ x) of
                    Inl e \<Rightarrow> (Err e, w)
                  | Inr target \<Rightarrow>
                      if final_path \<in> files w then
                        (if target \<in> files w \<and> unlink_error env then (Ok final_path, w)
                         else
                           (let w1 = w\<lparr>files := files w - {target}\<rparr>
                            in if rename_error env then (Ok final_path, w1)
                               else (Ok target,
                                     w1\<lparr>files := insert target (files w1 - {final_path})\<rparr>)))
                      else (Ok final_path, w))
               else (Ok final_path, w)))"

text \<open>\<^verbatim>\<open>_download_with_ytdlp\<close>\<close>

definition download_with_ytdlp ::
  "env \<Rightarrow> string \<Rightarrow> string \<Rightarrow> string option \<Rightarrow> bool \<Rightarrow> string option \<Rightarrow> bool \<Rightarrow> bool
     \<Rightarrow> string option \<Rightarrow> world \<Rightarrow> pure_path res \<times> world" where
  "download_with_ytdlp env url output_dir filename audio_only resolution
       progress_callback control cookies w =
     (case mkdir env output_dir w of
        (Err e, w0) \<Rightarrow> (Err e, w0)
      | (Hang, w0) \<Rightarrow> (Hang, w0)
      | (Ok u, w0) \<Rightarrow>
     (case determine_template filename audio_only of
        Inl e \<Rightarrow> (Err e, w0)
      | Inr (template_name, final_extension) \<Rightarrow>
     (let ydl_opts = initial_ydl_opts env template_name final_extension audio_only resolution;
          temp_dir = mkdtemp env;
          w1 = w0\<lparr>files := insert (Path temp_dir) (files w0)\<rparr>
      in case ytdlp_session env output_dir temp_dir progress_callback control cookies
                ydl_opts w1 of
           (Err e, download_info, w2) \<Rightarrow> (Err e, cleanup temp_dir w2)
         | (Hang, download_info, w2) \<Rightarrow> (Hang, w2)
         | (Ok u, download_info, w2) \<Rightarrow>
             finalize env audio_only final_extension download_info (cleanup temp_dir w2))))"

section \<open>The orchestrator\<close>

datatype adapter = Pytube | Ytdlp

text \<open>
  The second \<^verbatim>\<open>try\<close> of \<^verbatim>\<open>download_video\<close>: pytube, and yt-dlp when pytube fails.  The third
  component of the result lists the adapters that were called, in order.
\<close>

definition pytube_then_ytdlp ::
  "env \<Rightarrow> string \<Rightarrow> string \<Rightarrow> string option \<Rightarrow> bool \<Rightarrow> string option \<Rightarrow> bool \<Rightarrow> bool
     \<Rightarrow> string option \<Rightarrow> world \<Rightarrow> pure_path res \<times> world \<times> adapter list" where
  "pytube_then_ytdlp env url output_dir filename audio_only resolution
       progress_callback control cookies w =
     (case download_with_pytube env url output_dir filename audio_only resolution
             progress_callback control w of
        (Ok p, w1) \<Rightarrow> (Ok p, w1, [Pytube])
      | (Hang, w1) \<Rightarrow> (Hang, w1, [Pytube])
      | (Err exc, w1) \<Rightarrow>
          if exc = DownloadCancelled then (Err DownloadCancelled, w1, [Pytube])
          else
            (let w2 = w1\<lparr>console := console w1 @ [PytubeFailed (str_exn exc)]\<rparr>
             in case download_with_ytdlp env url output_dir filename audio_only resolution
                       progress_callback control cookies w2 of
                  (Ok p, w3) \<Rightarrow> (Ok p, w3, [Pytube, Ytdlp])
                | (Hang, w3) \<Rightarrow> (Hang, w3, [Pytube, Ytdlp])
                | (Err fallback_exc, w3) \<Rightarrow>
                    if fallback_exc = DownloadCancelled
                    then (Err DownloadCancelled, w3, [Pytube, Ytdlp])
                    else (Err (DownloadError (str_exn fallback_exc)), w3, [Pytube, Ytdlp])))"

text \<open>\<^verbatim>\<open>download_video\<close>\<close>

definition download_video ::
  "env \<Rightarrow> string \<Rightarrow> string \<Rightarrow> string option \<Rightarrow> bool \<Rightarrow> string option \<Rightarrow> bool \<Rightarrow> bool
     \<Rightarrow> string option \<Rightarrow> world \<Rightarrow> pure_path res \<times> world \<times> adapter list" where
  "download_video env url output_dir filename audio_only resolution
       progress_callback control cookies w =
     (let prefer_ytdlp = (audio_only \<or> truthy cookies)
      in if prefer_ytdlp then
           (case download_with_ytdlp env url output_dir filename audio_only resolution
                   progress_callback control cookies w of
              (Ok p, w1) \<Rightarrow> (Ok p, w1, [Ytdlp])
            | (Hang, w1) \<Rightarrow> (Hang, w1, [Ytdlp])
            | (Err exc, w1) \<Rightarrow>
                if exc = DownloadCancelled then (Err DownloadCancelled, w1, [Ytdlp])
                else if audio_only \<or> truthy cookies
                  then (Err (DownloadError (str_exn exc)), w1, [Ytdlp])
                else
                  (case pytube_then_ytdlp env url output_dir filename audio_only resolution
                          progress_callback control cookies w1 of
                     (r, w2, tried) \<Rightarrow> (r, w2, Ytdlp # tried)))
         else pytube_then_ytdlp env url output_dir filename audio_only resolution
                progress_callback control cookies w)"

section \<open>Sample inputs\<close>

text \<open>
  A world with nothing in it and a fresh control, and an environment in which every
  library call succeeds and reports nothing.  The examples below change single fields.
\<close>

definition sample_world :: world where
  "sample_world =
     \<lparr>files = {}, written = [], sink = [], console = [], ydl_log = [], dl_log = [],
      ctl = (WorkerControl_init, [])\<rparr>"

definition sample_env :: env where
  "sample_env =
     \<lparr>mkdir_error = None, yt_error = None, yt_streams = [], dl_chunks = [],
      dl_error = None, dl_destination = (\<lambda>d f. d @ ''/'' @ f),
      bundled_ffmpeg = None, which_ffmpeg = None, mkdtemp = ''/tmp/yt-dlp-frag-x'',
      write_error = None, ydl_init_error = None, ydl_files = [], ydl_statuses = [],
      ydl_error = None, resolve = (\<lambda>p. p), unlink_error = False, rename_error = False\<rparr>"

text \<open>A progressive MP4 stream with a given itag and resolution.\<close>

definition sample_stream :: "nat \<Rightarrow> string \<Rightarrow> stream" where
  "sample_stream i r =
     \<lparr>itag = i, is_progressive = True, includes_audio_track = True,
      includes_video_track = True, subtype = ''mp4'', s_resolution = Some r,
      s_abr = Some ''128kbps'', filesize = 1000, filesize_approx = 1000,
      default_filename = ''video.mp4''\<rparr>"

text \<open>A status dictionary with a status and, possibly, a file name.\<close>

definition sample_status :: "string \<Rightarrow> string option \<Rightarrow> status" where
  "sample_status s f =
     \<lparr>st_status = Some s, downloaded_bytes = None, total_bytes = None,
      total_bytes_estimate = None, st_filename = f\<rparr>"

section \<open>Properties of the control object\<close>

lemma cancel_event_apply_write: "cancel_event c \<Longrightarrow> cancel_event (apply_write x c)"
  by (cases x) simp_all

lemma cancel_event_fold_write: "cancel_event c \<Longrightarrow> cancel_event (fold apply_write b c)"
  by (induction b arbitrary: c) (simp_all add: cancel_event_apply_write)

lemma cancel_event_controller_turn:
  "cancel_event (fst k) \<Longrightarrow> cancel_event (fst (controller_turn k))"
  by (cases k; cases "snd k") (auto simp: cancel_event_fold_write)

lemma CancelSet_fold_write: "CancelSet \<in> set b \<Longrightarrow> cancel_event (fold apply_write b c)"
proof (induction b arbitrary: c)
  case Nil
  then show ?case by simp
next
  case (Cons x b)
  show ?case
  proof (cases "x = CancelSet")
    case True
    then show ?thesis by (simp add: cancel_event_fold_write)
  next
    case False
    with Cons.prems have "CancelSet \<in> set b" by simp
    then show ?thesis by (simp add: Cons.IH)
  qed
qed

lemma CancelSet_controller_turn:
  "CancelSet \<in> set (concat (snd k)) \<Longrightarrow>
     cancel_event (fst (controller_turn k)) \<or> CancelSet \<in> set (concat (snd (controller_turn k)))"
  by (cases k; cases "snd k") (auto simp: CancelSet_fold_write)

lemma CancelSet_head_controller_turn:
  "snd k \<noteq> [] \<Longrightarrow> CancelSet \<in> set (hd (snd k)) \<Longrightarrow> cancel_event (fst (controller_turn k))"
  by (cases k; cases "snd k") (auto simp: CancelSet_fold_write)

lemma cancel_event_apply_op: "cancel_event c \<Longrightarrow> cancel_event (apply_op x c)"
  by (cases x) (simp_all add: pause_def resume_def cancel_def)

lemma cancel_event_apply_ops: "cancel_event c \<Longrightarrow> cancel_event (apply_ops ops c)"
  unfolding apply_ops_def
  by (induction ops arbitrary: c) (simp_all add: cancel_event_apply_op)

lemma raise_if_cancelled_w_set:
  "cancel_event (fst k) \<Longrightarrow> raise_if_cancelled_w k = (Err DownloadCancelled, controller_turn k)"
  by (simp add: raise_if_cancelled_w_def Let_def cancel_event_controller_turn)

lemma wait_if_paused_cancelled:
  "cancel_event (fst (controller_turn k)) \<Longrightarrow>
     wait_if_paused k =
       (if resume_event (fst (controller_turn k)) then (Ok (), controller_turn k)
        else (Err DownloadCancelled, controller_turn (controller_turn k)))"
  by (subst wait_if_paused.simps) (simp add: Let_def raise_if_cancelled_w_set)

lemma wait_if_paused_no_hang:
  "CancelSet \<in> set (concat (snd k)) \<Longrightarrow> fst (wait_if_paused k) \<noteq> Hang"
proof (induction k rule: wait_if_paused.induct)
  case (1 k)
  let ?k1 = "controller_turn k"
  let ?k2 = "controller_turn ?k1"
  show ?case
  proof (cases "resume_event (fst ?k1)")
    case True
    then show ?thesis by (subst wait_if_paused.simps) (simp add: Let_def)
  next
    case nres: False
    show ?thesis
    proof (cases "cancel_event (fst ?k2)")
      case True
      with nres show ?thesis
        by (subst wait_if_paused.simps) (simp add: Let_def raise_if_cancelled_w_def)
    next
      case ncan: False
      have ne: "snd k \<noteq> []" using "1.prems" by auto
      from ncan have "\<not> cancel_event (fst ?k1)"
        using cancel_event_controller_turn by blast
      with CancelSet_controller_turn[OF "1.prems"]
      have "CancelSet \<in> set (concat (snd ?k1))" by simp
      with CancelSet_controller_turn[of ?k1] ncan
      have in2: "CancelSet \<in> set (concat (snd ?k2))" by simp
      have rc: "raise_if_cancelled_w ?k1 = (Ok (), ?k2)"
        using ncan by (simp add: raise_if_cancelled_w_def Let_def)
      have "fst (wait_if_paused ?k2) \<noteq> Hang"
        using "1.IH"[OF refl nres rc[symmetric] refl ne in2] .
      with nres rc ne show ?thesis
        by (subst wait_if_paused.simps) (simp add: Let_def)
    qed
  qed
qed

text \<open>
  C4.  The cancelled flag is monotonic.  A new control is neither cancelled nor paused;
  no sequence of \<^verbatim>\<open>pause\<close>, \<^verbatim>\<open>resume\<close>, \<^verbatim>\<open>cancel\<close> calls resets a set flag; the three calls are
  idempotent; \<^verbatim>\<open>cancel\<close> sets the flag and clears the paused state; after \<^verbatim>\<open>cancel\<close>, and
  whatever calls follow, \<^verbatim>\<open>raise_if_cancelled\<close> raises \<^verbatim>\<open>DownloadCancelled\<close>, also when the
  worker thread calls it while the controller keeps writing the events.
\<close>

theorem cancelled_flag_monotonic:
  "\<not> cancel_event WorkerControl_init \<and> \<not> is_paused WorkerControl_init
   \<and> (cancel_event c \<longrightarrow> cancel_event (apply_ops ops c))
   \<and> pause (pause c) = pause c \<and> resume (resume c) = resume c \<and> cancel (cancel c) = cancel c
   \<and> cancel_event (cancel c) \<and> \<not> is_paused (cancel c)
   \<and> raise_if_cancelled (apply_ops ops (cancel c)) = Inl DownloadCancelled
   \<and> (cancel_event (fst k) \<longrightarrow> fst (raise_if_cancelled_w k) = Err DownloadCancelled)"
proof -
  have "cancel_event (cancel c)" by (simp add: cancel_def)
  then have "cancel_event (apply_ops ops (cancel c))" by (rule cancel_event_apply_ops)
  then show ?thesis
    by (simp add: WorkerControl_init_def is_paused_def pause_def resume_def cancel_def
        raise_if_cancelled_def cancel_event_apply_ops raise_if_cancelled_w_set)
qed

theorem cancelled_flag_monotonic_witness:
  "cancel_event (cancel WorkerControl_init)
   \<and> cancel_event (apply_ops [Pause, Resume, Pause] (cancel WorkerControl_init))
   \<and> is_paused (apply_ops [Pause, Resume, Pause] (cancel WorkerControl_init))
   \<and> raise_if_cancelled (apply_ops [Pause, Resume, Pause] (cancel WorkerControl_init))
       = Inl DownloadCancelled
   \<and> cancel_event (fst (cancel WorkerControl_init, [[ResumeClear]]))
   \<and> fst (raise_if_cancelled_w (cancel WorkerControl_init, [[ResumeClear]]))
       = Err DownloadCancelled"
  using cancelled_flag_monotonic [of "cancel WorkerControl_init" "[Pause, Resume, Pause]"
      "(cancel WorkerControl_init, [[ResumeClear]])"]
  by (simp add: apply_ops_def cancel_def pause_def resume_def is_paused_def
      WorkerControl_init_def)

text \<open>
  C5.  \<^verbatim>\<open>wait_if_paused\<close> does not hang after a cancellation.  When the cancel flag is set
  as the call starts an iteration, or is set by the controller's writes that the
  iteration's first read sees (a \<^verbatim>\<open>cancel()\<close> during the sleep before it), the call ends
  in that iteration without sleeping again: it returns when \<open>resume_event\<close> is set at the
  loop test (\<^verbatim>\<open>cancel()\<close> sets it), and raises \<^verbatim>\<open>DownloadCancelled\<close> otherwise.  And whenever
  the controller sets the cancel flag at some time during the call, the call does not
  hang.  One polling interval is read as one sleep of the loop.
\<close>

theorem wait_if_paused_unblocks_on_cancel:
  "((cancel_event (fst k) \<or> (snd k \<noteq> [] \<and> CancelSet \<in> set (hd (snd k)))) \<longrightarrow>
      wait_if_paused k =
        (if resume_event (fst (controller_turn k)) then (Ok (), controller_turn k)
         else (Err DownloadCancelled, controller_turn (controller_turn k))))
   \<and> (CancelSet \<in> set (concat (snd k)) \<longrightarrow> fst (wait_if_paused k) \<noteq> Hang)"
  using wait_if_paused_cancelled [of k] cancel_event_controller_turn [of k]
    CancelSet_head_controller_turn [of k] wait_if_paused_no_hang [of k]
  by blast

theorem wait_if_paused_unblocks_on_cancel_witness:
  "CancelSet \<in> set (hd (snd (\<lparr>resume_event = False, cancel_event = False\<rparr>, [[CancelSet], [ResumeSet]])))
   \<and> wait_if_paused (\<lparr>resume_event = False, cancel_event = False\<rparr>, [[CancelSet], [ResumeSet]])
       = (Err DownloadCancelled, \<lparr>resume_event = True, cancel_event = True\<rparr>, [])
   \<and> CancelSet \<in> set (concat (snd (\<lparr>resume_event = False, cancel_event = False\<rparr>,
                                     [[], [], [CancelSet, ResumeSet]])))
   \<and> fst (wait_if_paused (\<lparr>resume_event = False, cancel_event = False\<rparr>,
                           [[], [], [CancelSet, ResumeSet]])) \<noteq> Hang
   \<and> wait_if_paused (\<lparr>resume_event = False, cancel_event = False\<rparr>, [])
       = (Hang, \<lparr>resume_event = False, cancel_event = False\<rparr>, [])"
  using wait_if_paused_unblocks_on_cancel
      [of "(\<lparr>resume_event = False, cancel_event = False\<rparr>, [[CancelSet], [ResumeSet]])"]
    wait_if_paused_unblocks_on_cancel
      [of "(\<lparr>resume_event = False, cancel_event = False\<rparr>, [[], [], [CancelSet, ResumeSet]])"]
  by (simp add: wait_if_paused.simps [of "(\<lparr>resume_event = False, cancel_event = False\<rparr>, [])"]
      raise_if_cancelled_w_def)

section \<open>Properties of the orchestrator\<close>

text \<open>
  C1.  When the request is audio-only or carries cookies, \<^verbatim>\<open>download_video\<close> calls the
  yt-dlp adapter and no other: the list of adapters called is \<open>[Ytdlp]\<close> and the world it
  leaves is the one the yt-dlp call left.  When that call fails with anything but
  \<^verbatim>\<open>DownloadCancelled\<close>, \<^verbatim>\<open>download_video\<close> raises \<^verbatim>\<open>DownloadError\<close> with the message of the
  failure.
\<close>

theorem audio_or_cookies_ytdlp_only:
  assumes "audio_only \<or> truthy cookies"
  shows "snd (snd (download_video env url output_dir filename audio_only resolution
                     progress_callback control cookies w)) = [Ytdlp]
     \<and> fst (snd (download_video env url output_dir filename audio_only resolution
                     progress_callback control cookies w))
         = snd (download_with_ytdlp env url output_dir filename audio_only resolution
                  progress_callback control cookies w)
     \<and> (fst (download_with_ytdlp env url output_dir filename audio_only resolution
                progress_callback control cookies w) = Err exc \<and> exc \<noteq> DownloadCancelled
         \<longrightarrow> fst (download_video env url output_dir filename audio_only resolution
                    progress_callback control cookies w)
             = Err (DownloadError (str_exn exc)))"
proof (cases "download_with_ytdlp env url output_dir filename audio_only resolution
                progress_callback control cookies w")
  case (Pair r w')
  with assms show ?thesis
    by (cases r) (simp_all add: download_video_def)
qed

theorem audio_or_cookies_ytdlp_only_witness:
  "(True \<or> truthy None)
   \<and> fst (download_with_ytdlp (sample_env\<lparr>ydl_error := Some ''HTTP Error 403''\<rparr>)
            ''u'' ''out'' None True None True False None sample_world)
       = Err (LibraryError ''HTTP Error 403'')
   \<and> LibraryError ''HTTP Error 403'' \<noteq> DownloadCancelled
   \<and> fst (download_video (sample_env\<lparr>ydl_error := Some ''HTTP Error 403''\<rparr>)
            ''u'' ''out'' None True None True False None sample_world)
       = Err (DownloadError ''HTTP Error 403'')
   \<and> snd (snd (download_video (sample_env\<lparr>ydl_error := Some ''HTTP Error 403''\<rparr>)
            ''u'' ''out'' None True None True False None sample_world)) = [Ytdlp]"
proof -
  have pref: "True \<or> truthy None" by simp
  have run: "fst (download_with_ytdlp (sample_env\<lparr>ydl_error := Some ''HTTP Error 403''\<rparr>)
            ''u'' ''out'' None True None True False None sample_world)
       = Err (LibraryError ''HTTP Error 403'')"
    by code_simp
  from audio_or_cookies_ytdlp_only [OF pref,
      of "sample_env\<lparr>ydl_error := Some ''HTTP Error 403''\<rparr>"
      "''u''" "''out''" None None True False sample_world "LibraryError ''HTTP Error 403''"] run
  show ?thesis by simp
qed

text \<open>
  C2.  When the request is for video and carries no cookies, the pytube adapter is called
  first.  When it fails with anything but \<^verbatim>\<open>DownloadCancelled\<close>, the yt-dlp adapter is called
  next (after the notice on the console); when that fails too with anything but
  \<^verbatim>\<open>DownloadCancelled\<close>, \<^verbatim>\<open>download_video\<close> raises \<^verbatim>\<open>DownloadError\<close> with the message of the
  yt-dlp failure, not of the pytube failure.
\<close>

theorem video_pytube_then_ytdlp:
  assumes "\<not> audio_only" and "\<not> truthy cookies"
  shows "take 1 (snd (snd (download_video env url output_dir filename audio_only resolution
                     progress_callback control cookies w))) = [Pytube]
     \<and> (download_with_pytube env url output_dir filename audio_only resolution
           progress_callback control w = (Err e1, w1) \<and> e1 \<noteq> DownloadCancelled
         \<longrightarrow> snd (snd (download_video env url output_dir filename audio_only resolution
                     progress_callback control cookies w)) = [Pytube, Ytdlp]
           \<and> (download_with_ytdlp env url output_dir filename audio_only resolution
                progress_callback control cookies
                (w1\<lparr>console := console w1 @ [PytubeFailed (str_exn e1)]\<rparr>) = (Err e2, w2)
              \<and> e2 \<noteq> DownloadCancelled
              \<longrightarrow> download_video env url output_dir filename audio_only resolution
                     progress_callback control cookies w
                  = (Err (DownloadError (str_exn e2)), w2, [Pytube, Ytdlp])))"
proof (cases "download_with_pytube env url output_dir filename audio_only resolution
           progress_callback control w")
  case p: (Pair r w')
  show ?thesis
  proof (cases r)
    case (Ok x)
    with p assms show ?thesis by (simp add: download_video_def pytube_then_ytdlp_def)
  next
    case Hang
    with p assms show ?thesis by (simp add: download_video_def pytube_then_ytdlp_def)
  next
    case (Err x)
    show ?thesis
    proof (cases "download_with_ytdlp env url output_dir filename audio_only resolution
                progress_callback control cookies
                (w'\<lparr>console := console w' @ [PytubeFailed (str_exn x)]\<rparr>)")
      case q: (Pair r2 w'')
      with p Err assms show ?thesis
        by (cases r2) (auto simp: download_video_def pytube_then_ytdlp_def)
    qed
  qed
qed

theorem video_pytube_then_ytdlp_witness:
  "\<not> False \<and> \<not> truthy None
   \<and> fst (download_with_pytube (sample_env\<lparr>ydl_error := Some ''HTTP Error 403''\<rparr>)
            ''u'' ''out'' None False None True False sample_world)
       = Err (ValueError ''No progressive MP4 streams available for this video.'')
   \<and> fst (download_with_ytdlp (sample_env\<lparr>ydl_error := Some ''HTTP Error 403''\<rparr>)
            ''u'' ''out'' None False None True False None
            ((snd (download_with_pytube (sample_env\<lparr>ydl_error := Some ''HTTP Error 403''\<rparr>)
                     ''u'' ''out'' None False None True False sample_world))
             \<lparr>console := [PytubeFailed ''No progressive MP4 streams available for this video.'']\<rparr>))
       = Err (LibraryError ''HTTP Error 403'')
   \<and> fst (download_video (sample_env\<lparr>ydl_error := Some ''HTTP Error 403''\<rparr>)
            ''u'' ''out'' None False None True False None sample_world)
       = Err (DownloadError ''HTTP Error 403'')
   \<and> snd (snd (download_video (sample_env\<lparr>ydl_error := Some ''HTTP Error 403''\<rparr>)
            ''u'' ''out'' None False None True False None sample_world)) = [Pytube, Ytdlp]"
proof -
  let ?env = "sample_env\<lparr>ydl_error := Some ''HTTP Error 403''\<rparr>"
  let ?P = "download_with_pytube ?env ''u'' ''out'' None False None True False sample_world"
  let ?e1 = "ValueError ''No progressive MP4 streams available for this video.''"
  let ?w1 = "(snd ?P)\<lparr>console := console (snd ?P) @ [PytubeFailed (str_exn ?e1)]\<rparr>"
  let ?Y = "download_with_ytdlp ?env ''u'' ''out'' None False None True False None ?w1"
  have h1: "\<not> False" and h2: "\<not> truthy None" by (simp_all add: truthy_def)
  have p: "fst ?P = Err ?e1" by code_simp
  have c: "console (snd ?P) = []" by code_simp
  have y: "fst ?Y = Err (LibraryError ''HTTP Error 403'')" by code_simp
  have P: "?P = (Err ?e1, snd ?P)" using p by (metis prod.collapse)
  have Y: "?Y = (Err (LibraryError ''HTTP Error 403''), snd ?Y)" using y by (metis prod.collapse)
  from video_pytube_then_ytdlp [OF h1 h2, of ?env "''u''" "''out''" None None True False
      sample_world ?e1 "snd ?P" "LibraryError ''HTTP Error 403''" "snd ?Y"] P Y p y c h2
  show ?thesis by simp
qed

section \<open>Properties of the file name template\<close>

lemma rfind_append_last: "c \<notin> set ys \<Longrightarrow> rfind c (xs @ c # ys) = Some (length xs)"
proof (induction xs)
  case Nil
  have "rfind c ys = None" using Nil by (induction ys) auto
  then show ?case by simp
next
  case (Cons x xs)
  then show ?case by simp
qed

lemma rfind_Some_less: "rfind c n = Some i \<Longrightarrow> i < length n"
  by (induction n arbitrary: i) (auto split: option.splits if_splits)

lemma suffix_of_name: "suffix_of p \<noteq> [] \<Longrightarrow> name p \<noteq> []"
  by (auto simp: suffix_of_def Let_def split: option.splits)

lemma suffix_of_stem:
  assumes "suffix_of p \<noteq> []"
  shows "take (length (name p) - length (suffix_of p)) (name p) \<noteq> []"
proof -
  from assms obtain i where i: "rfind CHR ''.'' (name p) = Some i" "0 < i" "i + 1 < length (name p)"
    and s: "suffix_of p = drop i (name p)"
    by (auto simp: suffix_of_def Let_def split: option.splits if_splits)
  then show ?thesis by auto
qed

lemma suffix_of_mp3:
  assumes "stem \<noteq> []"
  shows "suffix_of (PurePath r (ps @ [stem @ ''.mp3''])) = ''.mp3''"
proof -
  have "rfind CHR ''.'' (stem @ CHR ''.'' # ''mp3'') = Some (length stem)"
    by (rule rfind_append_last) simp
  then show ?thesis using assms by (simp add: suffix_of_def name_def)
qed

lemma join_slash_snoc:
  "join_slash (xs @ [y]) = (if xs = [] then y else join_slash xs @ ''/'' @ y)"
  by (induction xs rule: join_slash.induct) auto

lemma str_path_mp3: "Sublist.suffix ''.mp3'' (str_path (PurePath r (ps @ [stem @ ''.mp3''])))"
  by (auto simp: str_path_def join_slash_snoc Sublist.suffix_def)

lemma with_suffix_mp3:
  assumes "suffix_of p \<noteq> []"
  shows "\<exists>stem. stem \<noteq> [] \<and>
           with_suffix p ''.mp3'' = Inr (PurePath (path_root p) (butlast (path_parts p) @ [stem @ ''.mp3'']))"
  using assms suffix_of_name[OF assms] suffix_of_stem[OF assms]
  by (auto simp: with_suffix_def Let_def)

text \<open>
  C8.  The file name template of the yt-dlp adapter.  A custom file name with an extension,
  in audio mode, gives the name with its extension replaced by \<^verbatim>\<open>.mp3\<close>, whatever was typed,
  and the final extension \<^verbatim>\<open>mp3\<close>.  A custom file name without an extension gives its last
  component followed by \<^verbatim>\<open>.%(ext)s\<close>, the place of yt-dlp's own extension.  Without a
  custom file name the template is the title template \<^verbatim>\<open>%(title)s.%(ext)s\<close>.
\<close>

theorem determine_template_extension:
  "(suffix_of (Path f) \<noteq> [] \<longrightarrow>
      (\<exists>q. with_suffix (Path f) ''.mp3'' = Inr q \<and> suffix_of q = ''.mp3''
            \<and> determine_template (Some f) True = Inr (str_path q, Some ''mp3'')
            \<and> Sublist.suffix ''.mp3'' (str_path q)))
   \<and> (f \<noteq> [] \<and> suffix_of (Path f) = [] \<longrightarrow>
        determine_template (Some f) audio_only
          = Inr (name (Path f) @ ''.%(ext)s'', if audio_only then Some ''mp3'' else None))
   \<and> (\<not> truthy filename \<longrightarrow>
        determine_template filename audio_only
          = Inr (''%(title)s.%(ext)s'', if audio_only then Some ''mp3'' else None))"
proof -
  have a: "\<exists>q. with_suffix (Path f) ''.mp3'' = Inr q \<and> suffix_of q = ''.mp3''
            \<and> determine_template (Some f) True = Inr (str_path q, Some ''mp3'')
            \<and> Sublist.suffix ''.mp3'' (str_path q)" if s: "suffix_of (Path f) \<noteq> []"
  proof -
    from with_suffix_mp3[OF s] obtain stem where st: "stem \<noteq> []"
      and ws: "with_suffix (Path f) ''.mp3'' =
                 Inr (PurePath (path_root (Path f)) (butlast (path_parts (Path f)) @ [stem @ ''.mp3'']))"
      by blast
    have fne: "f \<noteq> []"
    proof
      assume "f = []"
      then have "suffix_of (Path f) = []" by (simp add: Path_def suffix_of_def name_def)
      with s show False by simp
    qed
    have d: "determine_template (Some f) True =
               Inr (str_path (PurePath (path_root (Path f)) (butlast (path_parts (Path f)) @ [stem @ ''.mp3''])), Some ''mp3'')"
      using s ws fne by (simp add: determine_template_def truthy_def Let_def)
    show ?thesis using ws d suffix_of_mp3[OF st] str_path_mp3
      by simp
  qed
  have b: "determine_template (Some f) audio_only
          = Inr (name (Path f) @ ''.%(ext)s'', if audio_only then Some ''mp3'' else None)"
    if "f \<noteq> []" "suffix_of (Path f) = []"
    using that by (simp add: determine_template_def truthy_def Let_def)
  have c: "determine_template filename audio_only
          = Inr (''%(title)s.%(ext)s'', if audio_only then Some ''mp3'' else None)"
    if "\<not> truthy filename"
    using that by (simp add: determine_template_def Let_def)
  from a b c show ?thesis by blast
qed

theorem determine_template_extension_witness:
  "suffix_of (Path ''clip.mkv'') \<noteq> []
   \<and> determine_template (Some ''clip.mkv'') True = Inr (''clip.mp3'', Some ''mp3'')
   \<and> ''clip'' \<noteq> [] \<and> suffix_of (Path ''clip'') = []
   \<and> determine_template (Some ''clip'') False = Inr (''clip.%(ext)s'', None)
   \<and> determine_template (Some ''clip'') True = Inr (''clip.%(ext)s'', Some ''mp3'')
   \<and> \<not> truthy None
   \<and> determine_template None True = Inr (''%(title)s.%(ext)s'', Some ''mp3'')"
proof -
  have s1: "suffix_of (Path ''clip.mkv'') \<noteq> []" by code_simp
  have w1: "with_suffix (Path ''clip.mkv'') ''.mp3'' = Inr (PurePath [] [''clip.mp3''])"
    by code_simp
  have p1: "str_path (PurePath [] [''clip.mp3'']) = ''clip.mp3''" by code_simp
  have s2: "suffix_of (Path ''clip'') = []" by code_simp
  have n2: "name (Path ''clip'') = ''clip''" by code_simp
  have t: "\<not> truthy None" by (simp add: truthy_def)
  from determine_template_extension [of "''clip.mkv''" True None] s1 w1 p1
  have a: "determine_template (Some ''clip.mkv'') True = Inr (''clip.mp3'', Some ''mp3'')"
    by auto
  from determine_template_extension [of "''clip''" False None] s2 n2
  have b: "determine_template (Some ''clip'') False = Inr (''clip.%(ext)s'', None)"
    by simp
  from determine_template_extension [of "''clip''" True None] s2 n2
  have c: "determine_template (Some ''clip'') True = Inr (''clip.%(ext)s'', Some ''mp3'')"
    by simp
  from determine_template_extension [of "''clip''" True None] t
  have d: "determine_template None True = Inr (''%(title)s.%(ext)s'', Some ''mp3'')"
    by simp
  from a b c d s1 s2 t show ?thesis by simp
qed

section \<open>Properties of the primary adapter\<close>

lemma first_Some: "first ss = Some s \<Longrightarrow> ss \<noteq> [] \<and> s = hd ss"
  by (cases ss) (simp_all add: first_def)

lemma first_in: "first ss = Some s \<Longrightarrow> s \<in> set ss"
  by (cases ss) (auto simp: first_def)

lemma first_None: "first ss = None \<longleftrightarrow> ss = []"
  by (cases ss) (simp_all add: first_def)

lemma sorted_last_max:
  "sorted (map f xs) \<Longrightarrow> x \<in> set xs \<Longrightarrow> f x \<le> f (last xs)"
proof (induction xs)
  case Nil
  then show ?case by simp
next
  case (Cons a xs)
  then show ?case by (cases "xs = []") auto
qed

lemma order_by_subset: "set (order_by attr ss) = {s \<in> set ss. attr s \<noteq> None}"
  by (auto simp: order_by_def Let_def)

lemma order_by_numeric:
  assumes "\<forall>s \<in> set ss. attr s \<noteq> None \<longrightarrow> digits_key attr s \<noteq> None"
  shows "order_by attr ss =
           sort_key (\<lambda>s. case digits_key attr s of Some n \<Rightarrow> n | None \<Rightarrow> 0)
             (filter (\<lambda>s. attr s \<noteq> None) ss)"
  using assms by (auto simp: order_by_def Let_def list_all_iff)

lemma highest_first:
  assumes num: "\<forall>s \<in> set ss. attr s \<noteq> None \<longrightarrow> digits_key attr s \<noteq> None"
    and sel: "first (desc (order_by attr ss)) = Some s"
    and t: "t \<in> set ss" "digits_key attr t = Some n"
  shows "\<exists>m. digits_key attr s = Some m \<and> n \<le> m"
proof -
  let ?key = "\<lambda>s. case digits_key attr s of Some n \<Rightarrow> n | None \<Rightarrow> 0"
  let ?xs = "sort_key ?key (filter (\<lambda>s. attr s \<noteq> None) ss)"
  have ob: "order_by attr ss = ?xs" by (rule order_by_numeric[OF num])
  from first_Some[OF sel] have ne: "?xs \<noteq> []" and s0: "s = hd (rev ?xs)"
    by (simp_all add: desc_def ob)
  have s: "s = last ?xs" using s0 ne by (simp add: hd_rev)
  have srt: "sorted (map ?key ?xs)" by simp
  have tattr: "attr t \<noteq> None" using t(2) by (auto simp: digits_key_def split: option.splits)
  then have tin: "t \<in> set ?xs" using t(1) by simp
  have "?key t \<le> ?key (last ?xs)" by (rule sorted_last_max[OF srt tin])
  moreover have "last ?xs \<in> set ?xs" using ne by (rule last_in_set)
  then have "s \<in> set ?xs" by (simp only: s)
  then have "s \<in> set ss" "attr s \<noteq> None" by simp_all
  with num obtain m where "digits_key attr s = Some m" by auto
  ultimately show ?thesis using t(2) s by auto
qed

lemma select_stream_given:
  "r \<noteq> [] \<Longrightarrow>
     select_stream streams False (Some r) =
       (case first (filter_res r (filter_progressive_mp4 streams)) of
          None \<Rightarrow> Inl (ValueError (''Resolution '' @ r
                     @ '' not available. Use --resolution to pick another.''))
        | Some s \<Rightarrow> Inr s)"
  by (simp add: select_stream_def truthy_def)

lemma select_stream_auto:
  "\<not> truthy resolution \<Longrightarrow>
     select_stream streams False resolution =
       (case first (desc (order_by s_resolution (filter_progressive_mp4 streams))) of
          None \<Rightarrow> Inl (ValueError ''No progressive MP4 streams available for this video.'')
        | Some s \<Rightarrow> Inr s)"
  by (simp add: select_stream_def)

lemma set_filter_progressive_mp4:
  "set (filter_progressive_mp4 streams) = {t \<in> set streams. is_progressive t \<and> subtype t = ''mp4''}"
  by (auto simp: filter_progressive_mp4_def)

lemma select_stream_progressive:
  assumes "select_stream streams False resolution = Inr s"
  shows "s \<in> set (filter_progressive_mp4 streams)"
proof (cases "truthy resolution")
  case True
  then obtain r where r: "resolution = Some r" "r \<noteq> []"
    by (auto simp: truthy_def split: option.splits)
  with assms have "first (filter_res r (filter_progressive_mp4 streams)) = Some s"
    by (simp add: select_stream_given split: option.splits)
  then have "s \<in> set (filter_res r (filter_progressive_mp4 streams))" by (rule first_in)
  then show ?thesis by (simp add: filter_res_def)
next
  case False
  with assms have "first (desc (order_by s_resolution (filter_progressive_mp4 streams))) = Some s"
    by (simp add: select_stream_auto split: option.splits)
  then have "s \<in> set (desc (order_by s_resolution (filter_progressive_mp4 streams)))"
    by (rule first_in)
  then show ?thesis by (simp add: desc_def order_by_subset)
qed

section \<open>Properties of the fallback adapter\<close>

lemma raise_if_cancelled_c_frame:
  "snd (raise_if_cancelled_c w) = w\<lparr>ctl := ctl (snd (raise_if_cancelled_c w))\<rparr>"
  by (simp add: raise_if_cancelled_c_def split: prod.splits)

lemma raise_if_cancelled_c_res:
  "fst (raise_if_cancelled_c w) = Ok () \<or> fst (raise_if_cancelled_c w) = Err DownloadCancelled"
  by (auto simp: raise_if_cancelled_c_def raise_if_cancelled_w_def Let_def split: prod.splits)

lemma wait_if_paused_res:
  "fst (wait_if_paused k) = Ok () \<or> fst (wait_if_paused k) = Err DownloadCancelled
     \<or> fst (wait_if_paused k) = Hang"
proof (induction k rule: wait_if_paused.induct)
  case (1 k)
  show ?case
  proof (cases "resume_event (fst (controller_turn k))")
    case True
    then show ?thesis by (subst wait_if_paused.simps) (simp add: Let_def)
  next
    case nres: False
    show ?thesis
    proof (cases "cancel_event (fst (controller_turn (controller_turn k)))")
      case True
      with nres show ?thesis
        by (subst wait_if_paused.simps) (simp add: Let_def raise_if_cancelled_w_def)
    next
      case ncan: False
      have rc: "raise_if_cancelled_w (controller_turn k)
                  = (Ok (), controller_turn (controller_turn k))"
        using ncan by (simp add: raise_if_cancelled_w_def Let_def)
      show ?thesis
      proof (cases "snd k = []")
        case True
        with nres rc show ?thesis
          by (subst wait_if_paused.simps) (simp add: Let_def)
      next
        case False
        have eq: "wait_if_paused k = wait_if_paused (controller_turn (controller_turn k))"
          using nres rc False by (subst wait_if_paused.simps) (simp add: Let_def)
        from "1.IH"[OF refl nres rc[symmetric] refl False] show ?thesis
          by (simp only: eq)
      qed
    qed
  qed
qed

lemma checkpoint_frame:
  "snd (checkpoint control w) = w\<lparr>ctl := ctl (snd (checkpoint control w))\<rparr>"
proof (cases control)
  case False
  then show ?thesis by (simp add: checkpoint_def)
next
  case True
  obtain r w1 where rc: "raise_if_cancelled_c w = (r, w1)" by (cases "raise_if_cancelled_c w")
  from raise_if_cancelled_c_frame[of w] rc have w1: "w1 = w\<lparr>ctl := ctl w1\<rparr>" by simp
  obtain r2 k2 where wp: "wait_if_paused (ctl w1) = (r2, k2)" by (cases "wait_if_paused (ctl w1)")
  have "w1\<lparr>ctl := k2\<rparr> = w\<lparr>ctl := k2\<rparr>" by (subst w1) simp
  then show ?thesis using True rc w1 wp
    by (cases r) (simp_all add: checkpoint_def)
qed

lemma checkpoint_res:
  "fst (checkpoint control w) = Ok () \<or> fst (checkpoint control w) = Err DownloadCancelled
     \<or> fst (checkpoint control w) = Hang"
proof (cases control)
  case False
  then show ?thesis by (simp add: checkpoint_def)
next
  case True
  obtain r w1 where rc: "raise_if_cancelled_c w = (r, w1)" by (cases "raise_if_cancelled_c w")
  obtain r2 k2 where wp: "wait_if_paused (ctl w1) = (r2, k2)" by (cases "wait_if_paused (ctl w1)")
  from raise_if_cancelled_c_res[of w] rc have r: "r = Ok () \<or> r = Err DownloadCancelled" by simp
  from wait_if_paused_res[of "ctl w1"] wp
  have r2: "r2 = Ok () \<or> r2 = Err DownloadCancelled \<or> r2 = Hang" by simp
  show ?thesis using True rc wp r r2 by (auto simp: checkpoint_def)
qed

text \<open>What one call of the hook does, given the outcome of its checkpoint.\<close>

lemma hook_not_Ok:
  "checkpoint control w = (r1, w1) \<Longrightarrow> r1 \<noteq> Ok () \<Longrightarrow>
     hook env progress_callback control st (info, w) = (r1, info, w1)"
  by (cases r1) (simp_all add: hook_def)

lemma hook_Ok_downloading:
  "checkpoint control w = (Ok (), w1) \<Longrightarrow> st_status st = Some ''downloading'' \<Longrightarrow>
     progress_callback \<Longrightarrow>
     \<exists>percent. hook env progress_callback control st (info, w)
                 = (Ok (), info, emit percent [] w1)"
  by (simp add: hook_def Let_def) blast

lemma hook_Ok_postprocessing:
  "checkpoint control w = (Ok (), w1) \<Longrightarrow> st_status st = Some ''postprocessing'' \<Longrightarrow>
     progress_callback \<Longrightarrow>
     hook env progress_callback control st (info, w) = (Ok (), info, emit None [] w1)"
  by (simp add: hook_def Let_def)

lemma hook_Ok_finished:
  "checkpoint control w = (Ok (), w1) \<Longrightarrow> st_status st = Some ''finished'' \<Longrightarrow>
     hook env progress_callback control st (info, w)
       = (Ok (),
          (case st_filename st of
             None \<Rightarrow> info
           | Some f \<Rightarrow> if f \<noteq> [] then Some (resolve env (Path f)) else info),
          (if progress_callback then emit (Some 100) [] w1
           else w1\<lparr>console := console w1 @
                  [DownloadComplete (case st_filename st of None \<Rightarrow> [] | Some f \<Rightarrow> f)]\<rparr>))"
  by (simp add: hook_def Let_def)

lemma hook_Ok_other:
  "checkpoint control w = (Ok (), w1) \<Longrightarrow>
     \<not> (st_status st = Some ''downloading'' \<and> progress_callback) \<Longrightarrow>
     \<not> (st_status st = Some ''postprocessing'' \<and> progress_callback) \<Longrightarrow>
     st_status st \<noteq> Some ''finished'' \<Longrightarrow>
     hook env progress_callback control st (info, w) = (Ok (), info, w1)"
  by (auto simp: hook_def Let_def)

lemma hook_facts:
  assumes "hook env progress_callback control st (info, w) = (r, info', w')"
  shows "files w' = files w \<and> written w' = written w \<and> ydl_log w' = ydl_log w
    \<and> (r = Ok () \<or> r = Err DownloadCancelled \<or> r = Hang)
    \<and> (info' = info \<or> (\<exists>f. st_status st = Some ''finished'' \<and> st_filename st = Some f
                             \<and> f \<noteq> [] \<and> info' = Some (resolve env (Path f))))
    \<and> (\<exists>evs. sink w' = sink w @ evs
            \<and> (progress_callback \<longrightarrow> info' \<noteq> info \<longrightarrow> (Some 100, []) \<in> set evs)
            \<and> (progress_callback \<longrightarrow> r = Ok () \<longrightarrow> st_status st = Some ''finished''
                 \<longrightarrow> evs = [(Some 100, [])]))"
proof -
  obtain r1 w1 where cp: "checkpoint control w = (r1, w1)" by (cases "checkpoint control w")
  from checkpoint_frame[of control w] cp have "w1 = w\<lparr>ctl := ctl w1\<rparr>" by simp
  then obtain k where w1: "w1 = w\<lparr>ctl := k\<rparr>" ..
  from checkpoint_res[of control w] cp
  have r1: "r1 = Ok () \<or> r1 = Err DownloadCancelled \<or> r1 = Hang" by simp
  show ?thesis
  proof (cases "r1 = Ok ()")
    case False
    from hook_not_Ok[OF cp False, of env progress_callback st info] assms r1 False w1
    show ?thesis by auto
  next
    case ok: True
    note cp' = cp[unfolded ok]
    consider (dl) "st_status st = Some ''downloading''" "progress_callback"
      | (pp) "st_status st = Some ''postprocessing''" "progress_callback"
      | (fin) "st_status st = Some ''finished''"
      | (other) "\<not> (st_status st = Some ''downloading'' \<and> progress_callback)"
          "\<not> (st_status st = Some ''postprocessing'' \<and> progress_callback)"
          "st_status st \<noteq> Some ''finished''"
      by blast
    then show ?thesis
    proof cases
      case dl
      from hook_Ok_downloading[OF cp' dl, of env info] assms w1 dl
      show ?thesis by (auto simp: emit_def)
    next
      case pp
      from hook_Ok_postprocessing[OF cp' pp, of env info] assms w1 pp
      show ?thesis by (auto simp: emit_def)
    next
      case fin
      from hook_Ok_finished[OF cp' fin, of env progress_callback info] assms w1 fin
      show ?thesis by (auto simp: emit_def split: option.splits if_splits)
    next
      case other
      from hook_Ok_other[OF cp' other, of env info] assms w1 other
      show ?thesis by auto
    qed
  qed
qed

lemma run_hooks_Cons_Ok:
  "hook env progress_callback control st s = (Ok (), s1) \<Longrightarrow>
     run_hooks env progress_callback control (st # sts) s
       = run_hooks env progress_callback control sts s1"
  by simp

lemma run_hooks_Cons_not_Ok:
  "hook env progress_callback control st s = (r1, s1) \<Longrightarrow> r1 \<noteq> Ok () \<Longrightarrow>
     run_hooks env progress_callback control (st # sts) s = (r1, s1)"
  by (cases r1) simp_all

lemma run_hooks_frame:
  "run_hooks env progress_callback control sts (info, w) = (r, info', w') \<Longrightarrow>
     files w' = files w \<and> written w' = written w \<and> ydl_log w' = ydl_log w
     \<and> (r = Ok () \<or> r = Err DownloadCancelled \<or> r = Hang)"
proof (induction sts arbitrary: info w)
  case Nil
  then show ?case by simp
next
  case (Cons st sts)
  obtain r1 info1 w1 where h: "hook env progress_callback control st (info, w) = (r1, info1, w1)"
    by (cases "hook env progress_callback control st (info, w)") auto
  note hf = hook_facts[OF h]
  show ?case
  proof (cases "r1 = Ok ()")
    case True
    from run_hooks_Cons_Ok[OF h[unfolded True], of sts] Cons.prems
    have "run_hooks env progress_callback control sts (info1, w1) = (r, info', w')" by simp
    from Cons.IH[OF this] hf show ?thesis by simp
  next
    case False
    from run_hooks_Cons_not_Ok[OF h False, of sts] Cons.prems hf show ?thesis by auto
  qed
qed

lemma run_hooks_info:
  "run_hooks env progress_callback control sts (info, w) = (r, info', w') \<Longrightarrow>
     info' = info \<or> (\<exists>st \<in> set sts. \<exists>f. st_status st = Some ''finished'' \<and> st_filename st = Some f
                             \<and> f \<noteq> [] \<and> info' = Some (resolve env (Path f)))"
proof (induction sts arbitrary: info w)
  case Nil
  then show ?case by simp
next
  case (Cons st sts)
  obtain r1 info1 w1 where h: "hook env progress_callback control st (info, w) = (r1, info1, w1)"
    by (cases "hook env progress_callback control st (info, w)") auto
  from hook_facts[OF h]
  have hf: "info1 = info \<or> (\<exists>f. st_status st = Some ''finished'' \<and> st_filename st = Some f
                             \<and> f \<noteq> [] \<and> info1 = Some (resolve env (Path f)))" by blast
  show ?case
  proof (cases "r1 = Ok ()")
    case True
    from run_hooks_Cons_Ok[OF h[unfolded True], of sts] Cons.prems
    have "run_hooks env progress_callback control sts (info1, w1) = (r, info', w')" by simp
    from Cons.IH[OF this] hf show ?thesis by auto
  next
    case False
    from run_hooks_Cons_not_Ok[OF h False, of sts] Cons.prems hf show ?thesis by auto
  qed
qed

lemma run_hooks_sink:
  "run_hooks env progress_callback control sts (info, w) = (r, info', w') \<Longrightarrow>
     \<exists>evs. sink w' = sink w @ evs
        \<and> (progress_callback \<longrightarrow> info' \<noteq> info \<longrightarrow> (Some 100, []) \<in> set evs)
        \<and> (progress_callback \<longrightarrow> r = Ok () \<longrightarrow> sts \<noteq> [] \<longrightarrow>
             st_status (last sts) = Some ''finished'' \<longrightarrow> evs \<noteq> [] \<and> last evs = (Some 100, []))"
proof (induction sts arbitrary: info w)
  case Nil
  then show ?case by simp
next
  case (Cons st sts)
  obtain r1 info1 w1 where h: "hook env progress_callback control st (info, w) = (r1, info1, w1)"
    by (cases "hook env progress_callback control st (info, w)") auto
  from hook_facts[OF h] obtain e1 where e1: "sink w1 = sink w @ e1"
    "progress_callback \<longrightarrow> info1 \<noteq> info \<longrightarrow> (Some 100, []) \<in> set e1"
    "progress_callback \<longrightarrow> r1 = Ok () \<longrightarrow> st_status st = Some ''finished'' \<longrightarrow> e1 = [(Some 100, [])]"
    by blast
  show ?case
  proof (cases "r1 = Ok ()")
    case True
    from run_hooks_Cons_Ok[OF h[unfolded True], of sts] Cons.prems
    have "run_hooks env progress_callback control sts (info1, w1) = (r, info', w')" by simp
    from Cons.IH[OF this] obtain e2 where e2: "sink w' = sink w1 @ e2"
      "progress_callback \<longrightarrow> info' \<noteq> info1 \<longrightarrow> (Some 100, []) \<in> set e2"
      "progress_callback \<longrightarrow> r = Ok () \<longrightarrow> sts \<noteq> [] \<longrightarrow>
         st_status (last sts) = Some ''finished'' \<longrightarrow> e2 \<noteq> [] \<and> last e2 = (Some 100, [])"
      by blast
    have a: "sink w' = sink w @ (e1 @ e2)" using e1(1) e2(1) by simp
    have b: "progress_callback \<longrightarrow> info' \<noteq> info \<longrightarrow> (Some 100, []) \<in> set (e1 @ e2)"
      using e1(2) e2(2) by auto
    have c: "progress_callback \<longrightarrow> r = Ok () \<longrightarrow> st # sts \<noteq> [] \<longrightarrow>
             st_status (last (st # sts)) = Some ''finished'' \<longrightarrow>
             e1 @ e2 \<noteq> [] \<and> last (e1 @ e2) = (Some 100, [])"
    proof (cases "sts = []")
      case True
      with \<open>run_hooks env progress_callback control sts (info1, w1) = (r, info', w')\<close>
      have "w' = w1" by simp
      with e2(1) have "e2 = []" by simp
      with e1(3) \<open>r1 = Ok ()\<close> True show ?thesis by simp
    next
      case False
      with e2(3) show ?thesis by auto
    qed
    from a b c show ?thesis by blast
  next
    case False
    from run_hooks_Cons_not_Ok[OF h False, of sts] Cons.prems
    have eq: "r = r1" "info' = info1" "w' = w1" by simp_all
    with e1 False show ?thesis by auto
  qed
qed

lemma checkpoint_no_control: "checkpoint False w = (Ok (), w)"
  by (simp add: checkpoint_def)

lemma hook_no_control: "fst (hook env progress_callback False st s) = Ok ()"
  by (cases s) (simp add: hook_def checkpoint_no_control Let_def)

lemma run_hooks_no_control: "fst (run_hooks env progress_callback False sts s) = Ok ()"
proof (induction sts arbitrary: s)
  case Nil
  then show ?case by simp
next
  case (Cons st sts)
  obtain r1 s1 where h: "hook env progress_callback False st s = (r1, s1)"
    by (cases "hook env progress_callback False st s")
  with hook_no_control[of env progress_callback st s] have "r1 = Ok ()" by simp
  with h Cons.IH[of s1] show ?case by simp
qed

text \<open>The download call of the library.\<close>

lemma ydl_download_facts:
  assumes "ydl_download env progress_callback control (None, w) = (r, info', w')"
  shows "written w' = written w \<and> ydl_log w' = ydl_log w"
    and "info' \<noteq> None \<longrightarrow>
           (\<exists>st \<in> set (ydl_statuses env). \<exists>f. st_status st = Some ''finished''
               \<and> st_filename st = Some f \<and> f \<noteq> [] \<and> info' = Some (resolve env (Path f)))"
    and "\<exists>evs. sink w' = sink w @ evs
        \<and> (progress_callback \<longrightarrow> info' \<noteq> None \<longrightarrow> (Some 100, []) \<in> set evs)
        \<and> (progress_callback \<longrightarrow> r = Ok () \<longrightarrow> ydl_statuses env \<noteq> [] \<longrightarrow>
             st_status (last (ydl_statuses env)) = Some ''finished'' \<longrightarrow>
             evs \<noteq> [] \<and> last evs = (Some 100, []))"
    and "ydl_error env = None \<longrightarrow> r = Ok () \<or> r = Err DownloadCancelled \<or> r = Hang"
    and "ydl_error env = None \<longrightarrow> \<not> control \<longrightarrow> r = Ok ()"
proof -
  let ?w0 = "w\<lparr>files := files w \<union> set (ydl_files env)\<rparr>"
  obtain r1 i1 w1 where rh:
    "run_hooks env progress_callback control (ydl_statuses env) (None, ?w0) = (r1, i1, w1)"
    by (cases "run_hooks env progress_callback control (ydl_statuses env) (None, ?w0)") auto
  have yd: "ydl_download env progress_callback control (None, w)
              = ((if r1 = Ok () then (case ydl_error env of Some m \<Rightarrow> Err (LibraryError m)
                                       | None \<Rightarrow> Ok ()) else r1), i1, w1)"
    using rh by (cases r1) (simp_all add: ydl_download_def split: option.splits)
  from assms[unfolded yd] have eq: "info' = i1" "w' = w1"
    and r: "r = (if r1 = Ok () then (case ydl_error env of Some m \<Rightarrow> Err (LibraryError m)
                                       | None \<Rightarrow> Ok ()) else r1)"
    by simp_all
  note fr = run_hooks_frame[OF rh] and inf = run_hooks_info[OF rh] and snk = run_hooks_sink[OF rh]
  show "written w' = written w \<and> ydl_log w' = ydl_log w" using fr eq by simp
  show "info' \<noteq> None \<longrightarrow>
           (\<exists>st \<in> set (ydl_statuses env). \<exists>f. st_status st = Some ''finished''
               \<and> st_filename st = Some f \<and> f \<noteq> [] \<and> info' = Some (resolve env (Path f)))"
    using inf eq by auto
  from snk obtain evs where evs: "sink w1 = sink ?w0 @ evs"
    "progress_callback \<longrightarrow> i1 \<noteq> None \<longrightarrow> (Some 100, []) \<in> set evs"
    "progress_callback \<longrightarrow> r1 = Ok () \<longrightarrow> ydl_statuses env \<noteq> [] \<longrightarrow>
             st_status (last (ydl_statuses env)) = Some ''finished'' \<longrightarrow>
             evs \<noteq> [] \<and> last evs = (Some 100, [])"
    by blast
  have rr: "r = Ok () \<longrightarrow> r1 = Ok ()" using r by (auto split: if_splits)
  show "\<exists>evs. sink w' = sink w @ evs
        \<and> (progress_callback \<longrightarrow> info' \<noteq> None \<longrightarrow> (Some 100, []) \<in> set evs)
        \<and> (progress_callback \<longrightarrow> r = Ok () \<longrightarrow> ydl_statuses env \<noteq> [] \<longrightarrow>
             st_status (last (ydl_statuses env)) = Some ''finished'' \<longrightarrow>
             evs \<noteq> [] \<and> last evs = (Some 100, []))"
    using evs eq rr by (intro exI[of _ evs]) simp
  show "ydl_error env = None \<longrightarrow> r = Ok () \<or> r = Err DownloadCancelled \<or> r = Hang"
    using fr r by auto
  show "ydl_error env = None \<longrightarrow> \<not> control \<longrightarrow> r = Ok ()"
  proof (intro impI)
    assume ye: "ydl_error env = None" and nc: "\<not> control"
    from run_hooks_no_control[of env progress_callback "ydl_statuses env" "(None, ?w0)"] rh nc
    have "r1 = Ok ()" by simp
    with r ye show "r = Ok ()" by simp
  qed
qed

text \<open>The body of the temporary-directory block.\<close>

lemma install_cookies_facts:
  assumes "install_cookies env temp_dir cookies opts w = (ri, wi)"
  shows "sink wi = sink w \<and> ydl_log wi = ydl_log w \<and> ctl wi = ctl w \<and> ri \<noteq> Hang"
    and "write_error env = None \<longrightarrow> (\<exists>opts1. ri = Ok opts1)"
    and "\<not> truthy cookies \<longrightarrow> ri = Ok opts \<and> wi = w"
    and "cookies = Some raw \<longrightarrow> raw \<noteq> [] \<longrightarrow>
           CHR 0x0A \<in> set (strip raw) \<or> CHR 0x09 \<in> set (strip raw) \<longrightarrow>
           write_error env = None \<longrightarrow>
           ri = Ok (opts\<lparr>cookiefile :=
                       Some (str_path (joinpath (Path temp_dir) ''cookies.txt''))\<rparr>)
           \<and> written wi = written w @ [(joinpath (Path temp_dir) ''cookies.txt'', strip raw)]"
    and "cookies = Some raw \<longrightarrow> raw \<noteq> [] \<longrightarrow>
           \<not> (CHR 0x0A \<in> set (strip raw) \<or> CHR 0x09 \<in> set (strip raw)) \<longrightarrow>
           ri = Ok (opts\<lparr>http_headers := Some [(''Cookie'', strip raw)]\<rparr>) \<and> wi = w"
  using assms
  by (auto simp: install_cookies_def Let_def truthy_def split: option.splits if_splits)

lemma guarded_raise_facts:
  assumes "(if control then raise_if_cancelled_c w else (Ok (), w)) = (r, w')"
  shows "w' = w\<lparr>ctl := ctl w'\<rparr>" and "r = Ok () \<or> r = Err DownloadCancelled"
    and "\<not> control \<longrightarrow> r = Ok ()"
proof -
  show "w' = w\<lparr>ctl := ctl w'\<rparr>"
    using assms raise_if_cancelled_c_frame[of w] by (cases control) auto
  show "r = Ok () \<or> r = Err DownloadCancelled"
    using assms raise_if_cancelled_c_res[of w] by (cases control) auto
  show "\<not> control \<longrightarrow> r = Ok ()" using assms by auto
qed

lemma ytdlp_session_unfold:
  assumes "install_cookies env temp_dir cookies (opts\<lparr>paths := Some (output_dir, temp_dir)\<rparr>) w
             = (ri, wi)"
  shows "ytdlp_session env output_dir temp_dir progress_callback control cookies opts w =
     (case ri of
        Err e \<Rightarrow> (Err e, None, wi)
      | Hang \<Rightarrow> (Hang, None, wi)
      | Ok opts1 \<Rightarrow>
         (case ydl_init_error env of
            Some m \<Rightarrow> (Err (LibraryError m), None, wi)
          | None \<Rightarrow>
             (case (if control then raise_if_cancelled_c (wi\<lparr>ydl_log := ydl_log wi @ [opts1]\<rparr>)
                    else (Ok (), wi\<lparr>ydl_log := ydl_log wi @ [opts1]\<rparr>)) of
                (Err e, w3) \<Rightarrow> (Err e, None, w3)
              | (Hang, w3) \<Rightarrow> (Hang, None, w3)
              | (Ok u, w3) \<Rightarrow> ydl_download env progress_callback control (None, w3))))"
  using assms by (simp add: ytdlp_session_def Let_def split: res.splits option.splits)

lemma ytdlp_session_shape:
  assumes run: "ytdlp_session env output_dir temp_dir progress_callback control cookies opts w
                  = (r, info', w')"
    and ic: "install_cookies env temp_dir cookies (opts\<lparr>paths := Some (output_dir, temp_dir)\<rparr>) w
               = (ri, wi)"
  shows "(r \<noteq> Ok () \<and> info' = None \<and> sink w' = sink wi \<and> written w' = written wi \<and>
           ((\<exists>e. ri = Err e \<and> r = Err e \<and> w' = wi)
            \<or> (\<exists>opts1 m. ri = Ok opts1 \<and> ydl_init_error env = Some m
                  \<and> r = Err (LibraryError m) \<and> w' = wi)
            \<or> (\<exists>opts1. ri = Ok opts1 \<and> ydl_init_error env = None \<and> control
                  \<and> r = Err DownloadCancelled \<and> ydl_log w' = ydl_log wi @ [opts1])))
        \<or> (\<exists>opts1 w3. ri = Ok opts1 \<and> ydl_init_error env = None
              \<and> ydl_log w3 = ydl_log wi @ [opts1] \<and> sink w3 = sink wi
              \<and> written w3 = written wi
              \<and> ydl_download env progress_callback control (None, w3) = (r, info', w'))"
proof -
  note u = run[unfolded ytdlp_session_unfold[OF ic]]
  from install_cookies_facts(1)[OF ic] have nh: "ri \<noteq> Hang" by simp
  show ?thesis
  proof (cases ri)
    case (Err e)
    with u show ?thesis by auto
  next
    case Hang
    with nh show ?thesis by simp
  next
    case (Ok opts1)
    show ?thesis
    proof (cases "ydl_init_error env")
      case (Some m)
      with u Ok show ?thesis by auto
    next
      case None
      let ?w2 = "wi\<lparr>ydl_log := ydl_log wi @ [opts1]\<rparr>"
      obtain r3 w3 where g: "(if control then raise_if_cancelled_c ?w2 else (Ok (), ?w2)) = (r3, w3)"
        by (cases "if control then raise_if_cancelled_c ?w2 else (Ok (), ?w2)")
      note gf = guarded_raise_facts[OF g]
      from gf(1) have w3: "ydl_log w3 = ydl_log wi @ [opts1]" "sink w3 = sink wi"
        "written w3 = written wi"
        by (metis world.select_convs world.surjective world.update_convs)+
      show ?thesis
      proof (cases "r3 = Ok ()")
        case True
        with u Ok None g have "ydl_download env progress_callback control (None, w3) = (r, info', w')"
          by simp
        with Ok None w3 show ?thesis by blast
      next
        case False
        with gf(2) have r3: "r3 = Err DownloadCancelled" by simp
        from gf(3) False have c: control by blast
        from u Ok None g r3 have "r = Err DownloadCancelled" "info' = None" "w' = w3" by simp_all
        with Ok None w3 c show ?thesis by auto
      qed
    qed
  qed
qed

text \<open>The end of the adapter.\<close>

lemma with_suffix_shape:
  "with_suffix p suf = Inr q \<Longrightarrow>
     \<exists>z. q = PurePath (path_root p) (butlast (path_parts p) @ [z @ suf])"
  by (auto simp: with_suffix_def Let_def split: if_splits)

lemma mp3_not_cookies: "z @ ''.mp3'' \<noteq> ''cookies.txt''"
proof
  assume "z @ ''.mp3'' = ''cookies.txt''"
  then have "last (z @ ''.mp3'') = last ''cookies.txt''" by simp
  then show False by simp
qed

lemma with_suffix_mp3_not_cookies:
  "with_suffix p ''.mp3'' = Inr q \<Longrightarrow> q \<noteq> PurePath r0 (ps0 @ [''cookies.txt''])"
  using with_suffix_shape[of p "''.mp3''" q] mp3_not_cookies by auto

lemma finalize_frame:
  "snd (finalize env audio_only final_extension download_info w)
     = w\<lparr>files := files (snd (finalize env audio_only final_extension download_info w))\<rparr>"
  by (simp add: finalize_def Let_def split: option.splits sum.splits)

lemma finalize_None:
  "finalize env audio_only final_extension None w
     = (Err (RuntimeError ''yt-dlp completed without reporting a destination file.''), w)"
  by (simp add: finalize_def)

lemma finalize_Ok:
  "finalize env audio_only final_extension download_info w = (Ok p, w') \<Longrightarrow>
     \<exists>final_path. download_info = Some final_path
        \<and> (p = final_path
           \<or> (audio_only \<and> (\<exists>x. final_extension = Some x
                                \<and> with_suffix final_path (''.'' @ x) = Inr p)))"
  by (auto simp: finalize_def Let_def split: option.splits sum.splits if_splits)

lemma finalize_not_Hang:
  "fst (finalize env audio_only final_extension download_info w) \<noteq> Hang"
  by (simp add: finalize_def Let_def split: option.splits sum.splits)

lemma finalize_files:
  assumes "PurePath r0 (ps0 @ [''cookies.txt'']) \<notin> files w"
    and "audio_only \<longrightarrow> final_extension = Some ''mp3''"
  shows "PurePath r0 (ps0 @ [''cookies.txt''])
           \<notin> files (snd (finalize env audio_only final_extension download_info w))"
proof (cases "audio_only \<and> truthy final_extension")
  case False
  then show ?thesis using assms(1)
    by (auto simp: finalize_def split: option.splits)
next
  case True
  with assms(2) have fe: "final_extension = Some ''mp3''" by simp
  show ?thesis
  proof (cases download_info)
    case None
    then show ?thesis using assms(1) by (simp add: finalize_def)
  next
    case (Some final_path)
    show ?thesis
    proof (cases "with_suffix final_path ''.mp3''")
      case (Inl e)
      with Some fe True assms(1) show ?thesis
        by (simp add: finalize_def truthy_def)
    next
      case (Inr target)
      from with_suffix_mp3_not_cookies[OF Inr]
      have "target \<noteq> PurePath r0 (ps0 @ [''cookies.txt''])" .
      with Some fe True assms(1) Inr show ?thesis
        by (auto simp: finalize_def truthy_def Let_def)
    qed
  qed
qed

lemma cleanup_frame:
  "sink (cleanup temp_dir w) = sink w \<and> written (cleanup temp_dir w) = written w
   \<and> ydl_log (cleanup temp_dir w) = ydl_log w"
  by (simp add: cleanup_def)

lemma Path_cookies: "Path ''cookies.txt'' = PurePath [] [''cookies.txt'']"
  by (simp add: Path_def)

lemma cookie_path_shape:
  "joinpath (Path temp_dir) ''cookies.txt''
     = PurePath (path_root (Path temp_dir)) (path_parts (Path temp_dir) @ [''cookies.txt''])"
  by (simp add: joinpath_def Path_cookies)

lemma cleanup_removes_cookie:
  "joinpath (Path temp_dir) ''cookies.txt'' \<notin> files (cleanup temp_dir w)"
  by (simp add: cleanup_def cookie_path_shape under_def)

lemma determine_template_total:
  "\<exists>template_name final_extension.
      determine_template filename audio_only = Inr (template_name, final_extension)
      \<and> (audio_only \<longrightarrow> final_extension = Some ''mp3'')"
proof (cases "truthy filename")
  case False
  then show ?thesis by (simp add: determine_template_def)
next
  case True
  then obtain f where f: "filename = Some f" "f \<noteq> []"
    by (auto simp: truthy_def split: option.splits)
  show ?thesis
  proof (cases "suffix_of (Path f) = []")
    case True
    with f show ?thesis by (simp add: determine_template_def truthy_def)
  next
    case False
    from with_suffix_mp3[OF False] obtain q where "with_suffix (Path f) ''.mp3'' = Inr q"
      by blast
    with f False show ?thesis by (simp add: determine_template_def truthy_def Let_def)
  qed
qed

lemma download_with_ytdlp_mkdir_error:
  "mkdir_error env = Some m \<Longrightarrow>
     download_with_ytdlp env url output_dir filename audio_only resolution
       progress_callback control cookies w = (Err (OSError m), w)"
  by (simp add: download_with_ytdlp_def mkdir_def)

lemma download_with_ytdlp_unfold:
  assumes "mkdir_error env = None"
    and "determine_template filename audio_only = Inr (template_name, final_extension)"
    and "ytdlp_session env output_dir (mkdtemp env) progress_callback control cookies
           (initial_ydl_opts env template_name final_extension audio_only resolution)
           (w\<lparr>files := insert (Path (mkdtemp env)) (insert (Path output_dir) (files w))\<rparr>)
         = (r, download_info, w2)"
  shows "download_with_ytdlp env url output_dir filename audio_only resolution
           progress_callback control cookies w =
         (case r of
            Err e \<Rightarrow> (Err e, cleanup (mkdtemp env) w2)
          | Hang \<Rightarrow> (Hang, w2)
          | Ok u \<Rightarrow> finalize env audio_only final_extension download_info
                      (cleanup (mkdtemp env) w2))"
  using assms by (simp add: download_with_ytdlp_def mkdir_def Let_def split: res.splits)

lemma ytdlp_run:
  assumes "mkdir_error env = None"
  obtains template_name final_extension r download_info w2 ri wi where
    "determine_template filename audio_only = Inr (template_name, final_extension)"
    "audio_only \<longrightarrow> final_extension = Some ''mp3''"
    "install_cookies env (mkdtemp env) cookies
       ((initial_ydl_opts env template_name final_extension audio_only resolution)
          \<lparr>paths := Some (output_dir, mkdtemp env)\<rparr>)
       (w\<lparr>files := insert (Path (mkdtemp env)) (insert (Path output_dir) (files w))\<rparr>)
       = (ri, wi)"
    "ytdlp_session env output_dir (mkdtemp env) progress_callback control cookies
           (initial_ydl_opts env template_name final_extension audio_only resolution)
           (w\<lparr>files := insert (Path (mkdtemp env)) (insert (Path output_dir) (files w))\<rparr>)
         = (r, download_info, w2)"
    "download_with_ytdlp env url output_dir filename audio_only resolution
           progress_callback control cookies w =
         (case r of
            Err e \<Rightarrow> (Err e, cleanup (mkdtemp env) w2)
          | Hang \<Rightarrow> (Hang, w2)
          | Ok u \<Rightarrow> finalize env audio_only final_extension download_info
                      (cleanup (mkdtemp env) w2))"
proof -
  from determine_template_total[of filename audio_only]
  obtain t fe where dt: "determine_template filename audio_only = Inr (t, fe)"
    "audio_only \<longrightarrow> fe = Some ''mp3''" by blast
  let ?w1 = "w\<lparr>files := insert (Path (mkdtemp env)) (insert (Path output_dir) (files w))\<rparr>"
  let ?opts = "initial_ydl_opts env t fe audio_only resolution"
  obtain ri wi where ic: "install_cookies env (mkdtemp env) cookies
       (?opts\<lparr>paths := Some (output_dir, mkdtemp env)\<rparr>) ?w1 = (ri, wi)"
    by (cases "install_cookies env (mkdtemp env) cookies
       (?opts\<lparr>paths := Some (output_dir, mkdtemp env)\<rparr>) ?w1")
  obtain r i w2 where ss: "ytdlp_session env output_dir (mkdtemp env) progress_callback control
       cookies ?opts ?w1 = (r, i, w2)"
    by (cases "ytdlp_session env output_dir (mkdtemp env) progress_callback control
       cookies ?opts ?w1") auto
  from that[OF dt ic ss download_with_ytdlp_unfold[OF assms dt(1) ss]] show ?thesis .
qed

lemma ytdlp_result_frame:
  assumes "D = (case r of
              Err e \<Rightarrow> (Err e, cleanup temp_dir w2)
            | Hang \<Rightarrow> (Hang, w2)
            | Ok u \<Rightarrow> finalize env audio_only fe i (cleanup temp_dir w2))"
  shows "written (snd D) = written w2 \<and> ydl_log (snd D) = ydl_log w2 \<and> sink (snd D) = sink w2"
proof (cases r)
  case (Ok u)
  let ?F = "finalize env audio_only fe i (cleanup temp_dir w2)"
  have "snd ?F = (cleanup temp_dir w2)\<lparr>files := files (snd ?F)\<rparr>" by (rule finalize_frame)
  then have "written (snd ?F) = written (cleanup temp_dir w2)
     \<and> ydl_log (snd ?F) = ydl_log (cleanup temp_dir w2)
     \<and> sink (snd ?F) = sink (cleanup temp_dir w2)"
    by (metis world.select_convs world.surjective world.update_convs)
  with Ok assms show ?thesis by (simp add: cleanup_frame)
next
  case (Err e)
  with assms show ?thesis by (simp add: cleanup_frame)
next
  case Hang
  with assms show ?thesis by simp
qed

lemma pytube_Ok_sink:
  "download_with_pytube env url output_dir filename audio_only resolution True control w
     = (Ok p, w') \<Longrightarrow> sink w' \<noteq> [] \<and> last (sink w') = (Some 100, [])"
  by (auto simp: download_with_pytube_def emit_def Let_def
      split: prod.splits res.splits option.splits sum.splits if_splits)

text \<open>
  C10.  The yt-dlp adapter returns only a path it observed: a returned path is the resolved
  file name of a \<^verbatim>\<open>finished\<close> status with a non-empty file name, or, in audio mode, that
  path with the suffix \<^verbatim>\<open>.mp3\<close>.  When no status is a \<^verbatim>\<open>finished\<close> one with a file
  name and nothing else fails, the adapter raises \<^verbatim>\<open>RuntimeError\<close> (\<^verbatim>\<open>yt-dlp completed
  without reporting a destination file.\<close>), unless it was cancelled or hangs in a pause;
  without a control it always raises that error.
\<close>

theorem ytdlp_returns_observed_path:
  "(download_with_ytdlp env url output_dir filename audio_only resolution
      progress_callback control cookies w = (Ok p, w') \<longrightarrow>
      (\<exists>st \<in> set (ydl_statuses env). \<exists>f.
          st_status st = Some ''finished'' \<and> st_filename st = Some f \<and> f \<noteq> []
          \<and> (p = resolve env (Path f)
              \<or> (audio_only \<and> with_suffix (resolve env (Path f)) ''.mp3'' = Inr p))))
   \<and> ((\<forall>st \<in> set (ydl_statuses env).
          \<not> (st_status st = Some ''finished'' \<and> truthy (st_filename st))) \<longrightarrow>
       mkdir_error env = None \<longrightarrow> write_error env = None \<longrightarrow>
       ydl_init_error env = None \<longrightarrow> ydl_error env = None \<longrightarrow>
       (fst (download_with_ytdlp env url output_dir filename audio_only resolution
               progress_callback control cookies w)
          = Err (RuntimeError ''yt-dlp completed without reporting a destination file.'')
        \<or> fst (download_with_ytdlp env url output_dir filename audio_only resolution
               progress_callback control cookies w) = Err DownloadCancelled
        \<or> fst (download_with_ytdlp env url output_dir filename audio_only resolution
               progress_callback control cookies w) = Hang)
       \<and> (\<not> control \<longrightarrow>
            fst (download_with_ytdlp env url output_dir filename audio_only resolution
                   progress_callback control cookies w)
              = Err (RuntimeError ''yt-dlp completed without reporting a destination file.'')))"
proof -
  let ?D = "download_with_ytdlp env url output_dir filename audio_only resolution
      progress_callback control cookies w"
  let ?msg = "''yt-dlp completed without reporting a destination file.''"
  let ?w1 = "w\<lparr>files := insert (Path (mkdtemp env)) (insert (Path output_dir) (files w))\<rparr>"
  have a: "\<exists>st \<in> set (ydl_statuses env). \<exists>f.
          st_status st = Some ''finished'' \<and> st_filename st = Some f \<and> f \<noteq> []
          \<and> (p = resolve env (Path f)
              \<or> (audio_only \<and> with_suffix (resolve env (Path f)) ''.mp3'' = Inr p))"
    if run: "?D = (Ok p, w')"
  proof -
    have mk: "mkdir_error env = None"
    proof (cases "mkdir_error env")
      case (Some m)
      from download_with_ytdlp_mkdir_error[OF Some, of url output_dir filename audio_only
          resolution progress_callback control cookies w] run
      show ?thesis by simp
    qed simp
    show ?thesis
    proof (rule ytdlp_run[where env = env and filename = filename and audio_only = audio_only
        and cookies = cookies and resolution = resolution and output_dir = output_dir
        and w = w and progress_callback = progress_callback and control = control
        and url = url, OF mk])
      fix t fe r i w2 ri wi
      assume dt: "determine_template filename audio_only = Inr (t, fe)"
        and fe: "audio_only \<longrightarrow> fe = Some ''mp3''"
        and ic: "install_cookies env (mkdtemp env) cookies
           ((initial_ydl_opts env t fe audio_only resolution)
              \<lparr>paths := Some (output_dir, mkdtemp env)\<rparr>) ?w1 = (ri, wi)"
        and ss: "ytdlp_session env output_dir (mkdtemp env) progress_callback control cookies
             (initial_ydl_opts env t fe audio_only resolution) ?w1 = (r, i, w2)"
        and D: "?D = (case r of
              Err e \<Rightarrow> (Err e, cleanup (mkdtemp env) w2)
            | Hang \<Rightarrow> (Hang, w2)
            | Ok u \<Rightarrow> finalize env audio_only fe i (cleanup (mkdtemp env) w2))"
      from run[unfolded D] have r: "r = Ok ()" by (cases r) simp_all
      from run[unfolded D] r
      have fin: "finalize env audio_only fe i (cleanup (mkdtemp env) w2) = (Ok p, w')" by simp
      from finalize_Ok[OF fin] obtain fp where fp: "i = Some fp"
        "p = fp \<or> (audio_only \<and> (\<exists>x. fe = Some x \<and> with_suffix fp (''.'' @ x) = Inr p))"
        by blast
      from fp(2) fe have p: "p = fp \<or> (audio_only \<and> with_suffix fp ''.mp3'' = Inr p)" by auto
      from ytdlp_session_shape[OF ss ic] r obtain w3 where
        "ydl_download env progress_callback control (None, w3) = (r, i, w2)" by auto
      from ydl_download_facts(2)[OF this] fp(1)
      obtain st f where "st \<in> set (ydl_statuses env)" "st_status st = Some ''finished''"
        "st_filename st = Some f" "f \<noteq> []" "fp = resolve env (Path f)" by auto
      with p show ?thesis by blast
    qed
  qed
  have b: "(fst ?D = Err (RuntimeError ?msg) \<or> fst ?D = Err DownloadCancelled \<or> fst ?D = Hang)
       \<and> (\<not> control \<longrightarrow> fst ?D = Err (RuntimeError ?msg))"
    if nofin: "\<forall>st \<in> set (ydl_statuses env).
          \<not> (st_status st = Some ''finished'' \<and> truthy (st_filename st))"
      and mk: "mkdir_error env = None" and we: "write_error env = None"
      and ie: "ydl_init_error env = None" and ye: "ydl_error env = None"
  proof (rule ytdlp_run[where env = env and filename = filename and audio_only = audio_only
        and cookies = cookies and resolution = resolution and output_dir = output_dir
        and w = w and progress_callback = progress_callback and control = control
        and url = url, OF mk])
    fix t fe r i w2 ri wi
    assume dt: "determine_template filename audio_only = Inr (t, fe)"
      and fe: "audio_only \<longrightarrow> fe = Some ''mp3''"
      and ic: "install_cookies env (mkdtemp env) cookies
         ((initial_ydl_opts env t fe audio_only resolution)
            \<lparr>paths := Some (output_dir, mkdtemp env)\<rparr>) ?w1 = (ri, wi)"
      and ss: "ytdlp_session env output_dir (mkdtemp env) progress_callback control cookies
           (initial_ydl_opts env t fe audio_only resolution) ?w1 = (r, i, w2)"
      and D: "?D = (case r of
            Err e \<Rightarrow> (Err e, cleanup (mkdtemp env) w2)
          | Hang \<Rightarrow> (Hang, w2)
          | Ok u \<Rightarrow> finalize env audio_only fe i (cleanup (mkdtemp env) w2))"
    from install_cookies_facts(2)[OF ic] we obtain o1 where ri: "ri = Ok o1" by blast
    have key: "i = None \<and> (r = Ok () \<or> r = Err DownloadCancelled \<or> r = Hang)
                 \<and> (\<not> control \<longrightarrow> r = Ok ())"
      using ytdlp_session_shape[OF ss ic]
    proof (elim disjE conjE exE)
      fix w3 opts1
      assume yd: "ydl_download env progress_callback control (None, w3) = (r, i, w2)"
      from ydl_download_facts(2)[OF yd] nofin have "i = None"
        by (auto simp: truthy_def)
      with ydl_download_facts(4,5)[OF yd] ye show ?thesis by simp
    qed (use ri ie in auto)
    then show ?thesis unfolding D by (auto simp: finalize_None)
  qed
  from a b show ?thesis by blast
qed

theorem ytdlp_returns_observed_path_witness:
  "fst (download_with_ytdlp
          (sample_env\<lparr>ydl_statuses := [sample_status ''downloading'' None,
                                        sample_status ''finished'' (Some ''out/a.webm'')],
                      ydl_files := [Path ''out/a.webm'']\<rparr>)
          ''u'' ''out'' None True None False False None sample_world) = Ok (Path ''out/a.mp3'')
   \<and> with_suffix (Path ''out/a.webm'') ''.mp3'' = Inr (Path ''out/a.mp3'')
   \<and> ydl_statuses sample_env = []
   \<and> mkdir_error sample_env = None \<and> write_error sample_env = None
   \<and> ydl_init_error sample_env = None \<and> ydl_error sample_env = None
   \<and> fst (download_with_ytdlp sample_env ''u'' ''out'' None True None False False None
            sample_world)
       = Err (RuntimeError ''yt-dlp completed without reporting a destination file.'')"
proof -
  let ?e = "sample_env\<lparr>ydl_statuses := [sample_status ''downloading'' None,
                                        sample_status ''finished'' (Some ''out/a.webm'')],
                      ydl_files := [Path ''out/a.webm'']\<rparr>"
  let ?D = "download_with_ytdlp ?e ''u'' ''out'' None True None False False None sample_world"
  have d: "fst ?D = Ok (Path ''out/a.mp3'')" by code_simp
  have D: "?D = (Ok (Path ''out/a.mp3''), snd ?D)" using d by (metis prod.collapse)
  have st: "ydl_statuses ?e = [sample_status ''downloading'' None,
                              sample_status ''finished'' (Some ''out/a.webm'')]"
    and rs: "resolve sample_env = (\<lambda>p. p)"
    by (simp_all add: sample_env_def)
  have ne: "Path ''out/a.mp3'' \<noteq> Path ''out/a.webm''" by code_simp
  from ytdlp_returns_observed_path [THEN conjunct1, rule_format, OF D]
  have a: "with_suffix (Path ''out/a.webm'') ''.mp3'' = Inr (Path ''out/a.mp3'')"
    using ne by (auto simp: st rs sample_status_def)
  have env: "ydl_statuses sample_env = []" "mkdir_error sample_env = None"
    "write_error sample_env = None" "ydl_init_error sample_env = None"
    "ydl_error sample_env = None"
    by (simp_all add: sample_env_def)
  have nofin: "\<forall>st \<in> set (ydl_statuses sample_env).
          \<not> (st_status st = Some ''finished'' \<and> truthy (st_filename st))"
    by (simp add: env)
  have nc: "\<not> False" by simp
  from ytdlp_returns_observed_path [where control = False and env = sample_env and url = "''u''"
      and output_dir = "''out''" and filename = None and audio_only = True
      and resolution = None and progress_callback = False and cookies = None
      and w = sample_world, THEN conjunct2] nofin env
  have b: "fst (download_with_ytdlp sample_env ''u'' ''out'' None True None False False None
            sample_world)
       = Err (RuntimeError ''yt-dlp completed without reporting a destination file.'')"
    by blast
  from d a b env show ?thesis by simp
qed

text \<open>
  C6 as stated fails.  A successful pytube download of a 1000-byte stream whose last
  chunk leaves 0 bytes delivers \<open>(100, "")\<close> twice at the end: once from the handler, once
  from the adapter.  A successful yt-dlp download whose hook sees a \<^verbatim>\<open>finished\<close> status and
  then a \<^verbatim>\<open>postprocessing\<close> status ends with the indeterminate event, not with \<open>(100, "")\<close>.
\<close>

theorem exactly_one_final_event_counterexample:
  "fst (download_with_pytube
          (sample_env\<lparr>yt_streams := [sample_stream 22 ''720p''], dl_chunks := [500, 0]\<rparr>)
          ''u'' ''out'' None False None True False sample_world) = Ok (Path ''out/video.mp4'')
   \<and> sink (snd (download_with_pytube
          (sample_env\<lparr>yt_streams := [sample_stream 22 ''720p''], dl_chunks := [500, 0]\<rparr>)
          ''u'' ''out'' None False None True False sample_world))
       = [(Some 50, []), (Some 100, []), (Some 100, [])]
   \<and> fst (download_with_ytdlp
          (sample_env\<lparr>ydl_statuses := [sample_status ''finished'' (Some ''out/a.mp3''),
                                        sample_status ''postprocessing'' None]\<rparr>)
          ''u'' ''out'' None True None True False None sample_world) = Ok (Path ''out/a.mp3'')
   \<and> sink (snd (download_with_ytdlp
          (sample_env\<lparr>ydl_statuses := [sample_status ''finished'' (Some ''out/a.mp3''),
                                        sample_status ''postprocessing'' None]\<rparr>)
          ''u'' ''out'' None True None True False None sample_world))
       = [(Some 100, []), (None, [])]"
  by code_simp

text \<open>
  C6, amended.  With a progress callback, a successful pytube download ends with the event
  \<open>(100, "")\<close> (other events equal to it may precede it).  A successful yt-dlp download
  delivers \<open>(100, "")\<close> at least once, at a \<^verbatim>\<open>finished\<close> status, and ends with it when the
  last status the library reports is \<^verbatim>\<open>finished\<close>.  A failed and a cancelled download may
  deliver no event at all: the two runs of the last four conjuncts leave the sink empty.
\<close>

theorem success_ends_with_final_event:
  "(download_with_pytube env url output_dir filename audio_only resolution True control w
      = (Ok p, w') \<longrightarrow> sink w' \<noteq> [] \<and> last (sink w') = (Some 100, []))
   \<and> (download_with_ytdlp env url output_dir filename audio_only resolution True control
        cookies w = (Ok p, w') \<longrightarrow>
        (\<exists>evs. sink w' = sink w @ evs \<and> (Some 100, []) \<in> set evs
           \<and> (ydl_statuses env \<noteq> [] \<and> st_status (last (ydl_statuses env)) = Some ''finished''
                \<longrightarrow> last evs = (Some 100, []))))
   \<and> fst (download_with_pytube sample_env ''u'' ''out'' None False None True False sample_world)
       = Err (ValueError ''No progressive MP4 streams available for this video.'')
   \<and> sink (snd (download_with_pytube sample_env ''u'' ''out'' None False None True False
                   sample_world)) = []
   \<and> fst (download_with_ytdlp sample_env ''u'' ''out'' None True None True True None
            (sample_world\<lparr>ctl := (cancel WorkerControl_init, [])\<rparr>)) = Err DownloadCancelled
   \<and> sink (snd (download_with_ytdlp sample_env ''u'' ''out'' None True None True True None
            (sample_world\<lparr>ctl := (cancel WorkerControl_init, [])\<rparr>))) = []"
proof -
  let ?D = "download_with_ytdlp env url output_dir filename audio_only resolution True control
        cookies w"
  let ?w1 = "w\<lparr>files := insert (Path (mkdtemp env)) (insert (Path output_dir) (files w))\<rparr>"
  have a: "sink w' \<noteq> [] \<and> last (sink w') = (Some 100, [])"
    if "download_with_pytube env url output_dir filename audio_only resolution True control w
      = (Ok p, w')"
    using that by (rule pytube_Ok_sink)
  have b: "\<exists>evs. sink w' = sink w @ evs \<and> (Some 100, []) \<in> set evs
           \<and> (ydl_statuses env \<noteq> [] \<and> st_status (last (ydl_statuses env)) = Some ''finished''
                \<longrightarrow> last evs = (Some 100, []))"
    if run: "?D = (Ok p, w')"
  proof -
    have mk: "mkdir_error env = None"
    proof (cases "mkdir_error env")
      case (Some m)
      from download_with_ytdlp_mkdir_error[OF Some, of url output_dir filename audio_only
          resolution True control cookies w] run
      show ?thesis by simp
    qed simp
    show ?thesis
    proof (rule ytdlp_run[where env = env and filename = filename and audio_only = audio_only
        and cookies = cookies and resolution = resolution and output_dir = output_dir
        and w = w and progress_callback = True and control = control
        and url = url, OF mk])
      fix t fe r i w2 ri wi
      assume dt: "determine_template filename audio_only = Inr (t, fe)"
        and fe: "audio_only \<longrightarrow> fe = Some ''mp3''"
        and ic: "install_cookies env (mkdtemp env) cookies
           ((initial_ydl_opts env t fe audio_only resolution)
              \<lparr>paths := Some (output_dir, mkdtemp env)\<rparr>) ?w1 = (ri, wi)"
        and ss: "ytdlp_session env output_dir (mkdtemp env) True control cookies
             (initial_ydl_opts env t fe audio_only resolution) ?w1 = (r, i, w2)"
        and D: "?D = (case r of
              Err e \<Rightarrow> (Err e, cleanup (mkdtemp env) w2)
            | Hang \<Rightarrow> (Hang, w2)
            | Ok u \<Rightarrow> finalize env audio_only fe i (cleanup (mkdtemp env) w2))"
      from run[unfolded D] have r: "r = Ok ()" by (cases r) simp_all
      from run[unfolded D] r
      have fin: "finalize env audio_only fe i (cleanup (mkdtemp env) w2) = (Ok p, w')" by simp
      from finalize_Ok[OF fin] have i: "i \<noteq> None" by blast
      from ytdlp_session_shape[OF ss ic] r obtain w3 where w3: "sink w3 = sink wi"
        and yd: "ydl_download env True control (None, w3) = (r, i, w2)" by auto
      from install_cookies_facts(1)[OF ic] have wi: "sink wi = sink w" by simp
      from ydl_download_facts(3)[OF yd] i r obtain evs where evs: "sink w2 = sink w3 @ evs"
        "(Some 100, []) \<in> set evs"
        "ydl_statuses env \<noteq> [] \<longrightarrow> st_status (last (ydl_statuses env)) = Some ''finished''
           \<longrightarrow> last evs = (Some 100, [])"
        by auto
      from ytdlp_result_frame[OF D] run have "sink w' = sink w2" by simp
      with evs w3 wi show ?thesis by auto
    qed
  qed
  have c: "fst (download_with_pytube sample_env ''u'' ''out'' None False None True False
                  sample_world)
       = Err (ValueError ''No progressive MP4 streams available for this video.'')"
    "sink (snd (download_with_pytube sample_env ''u'' ''out'' None False None True False
                   sample_world)) = []"
    "fst (download_with_ytdlp sample_env ''u'' ''out'' None True None True True None
            (sample_world\<lparr>ctl := (cancel WorkerControl_init, [])\<rparr>)) = Err DownloadCancelled"
    "sink (snd (download_with_ytdlp sample_env ''u'' ''out'' None True None True True None
            (sample_world\<lparr>ctl := (cancel WorkerControl_init, [])\<rparr>))) = []"
    by code_simp+
  from a b c show ?thesis by blast
qed

theorem success_ends_with_final_event_witness:
  "fst (download_with_pytube
          (sample_env\<lparr>yt_streams := [sample_stream 22 ''720p''], dl_chunks := [500, 0]\<rparr>)
          ''u'' ''out'' None False None True False sample_world) = Ok (Path ''out/video.mp4'')
   \<and> last (sink (snd (download_with_pytube
          (sample_env\<lparr>yt_streams := [sample_stream 22 ''720p''], dl_chunks := [500, 0]\<rparr>)
          ''u'' ''out'' None False None True False sample_world))) = (Some 100, [])
   \<and> fst (download_with_ytdlp
          (sample_env\<lparr>ydl_statuses := [sample_status ''downloading'' None,
                                        sample_status ''finished'' (Some ''out/a.mp3'')]\<rparr>)
          ''u'' ''out'' None True None True False None sample_world) = Ok (Path ''out/a.mp3'')
   \<and> last (sink (snd (download_with_ytdlp
          (sample_env\<lparr>ydl_statuses := [sample_status ''downloading'' None,
                                        sample_status ''finished'' (Some ''out/a.mp3'')]\<rparr>)
          ''u'' ''out'' None True None True False None sample_world))) = (Some 100, [])"
proof -
  let ?ep = "sample_env\<lparr>yt_streams := [sample_stream 22 ''720p''], dl_chunks := [500, 0]\<rparr>"
  let ?P = "download_with_pytube ?ep ''u'' ''out'' None False None True False sample_world"
  let ?ey = "sample_env\<lparr>ydl_statuses := [sample_status ''downloading'' None,
                                        sample_status ''finished'' (Some ''out/a.mp3'')]\<rparr>"
  let ?Y = "download_with_ytdlp ?ey ''u'' ''out'' None True None True False None sample_world"
  have p: "fst ?P = Ok (Path ''out/video.mp4'')" by code_simp
  have y: "fst ?Y = Ok (Path ''out/a.mp3'')" by code_simp
  have P: "?P = (Ok (Path ''out/video.mp4''), snd ?P)" using p by (metis prod.collapse)
  have Y: "?Y = (Ok (Path ''out/a.mp3''), snd ?Y)" using y by (metis prod.collapse)
  have st: "ydl_statuses ?ey \<noteq> [] \<and> st_status (last (ydl_statuses ?ey)) = Some ''finished''"
    by (simp add: sample_env_def sample_status_def)
  have s0: "sink sample_world = []" by (simp add: sample_world_def)
  have a: "last (sink (snd ?P)) = (Some 100, [])"
    using success_ends_with_final_event [THEN conjunct1, rule_format, OF P] by simp
  from success_ends_with_final_event [THEN conjunct2, THEN conjunct1, rule_format, OF Y] st
  obtain evs where "sink (snd ?Y) = sink sample_world @ evs" "(Some 100, []) \<in> set evs"
    "last evs = (Some 100, [])" by blast
  then have b: "last (sink (snd ?Y)) = (Some 100, [])" using s0 by simp
  from p y a b show ?thesis by simp
qed

text \<open>
  C9 as stated fails.  The cookie value \<^verbatim>\<open>a=b\<close> followed by a newline contains a newline,
  but \<^verbatim>\<open>cookies.strip()\<close> comes before the test: no file is written and the value goes
  into the \<^verbatim>\<open>Cookie\<close> header.
\<close>

theorem cookie_newline_counterexample:
  "CHR 0x0A \<in> set (''a=b'' @ [CHR 0x0A])
   \<and> written (snd (download_with_ytdlp sample_env ''u'' ''out'' None False None False False
                     (Some (''a=b'' @ [CHR 0x0A])) sample_world)) = []
   \<and> map cookiefile (ydl_log (snd (download_with_ytdlp sample_env ''u'' ''out'' None False None
                     False False (Some (''a=b'' @ [CHR 0x0A])) sample_world))) = [None]
   \<and> map http_headers (ydl_log (snd (download_with_ytdlp sample_env ''u'' ''out'' None False None
                     False False (Some (''a=b'' @ [CHR 0x0A])) sample_world)))
       = [Some [(''Cookie'', ''a=b'')]]"
  by code_simp

text \<open>
  C9, amended.  For a non-empty cookie value, the test is made on the stripped value.
  When the stripped value contains a newline or a tab (and the directory, the write and
  the \<^verbatim>\<open>YoutubeDL\<close> constructor succeed), the stripped value is written to
  \<^verbatim>\<open>cookies.txt\<close> in the temporary directory and the options name that file, with no
  \<^verbatim>\<open>Cookie\<close> header.  Otherwise nothing is written, and the options carry the stripped
  value as the \<^verbatim>\<open>Cookie\<close> header and no cookie file.  Whenever the adapter returns or
  raises, the cookie file does not exist afterwards (it did not exist before: the
  temporary directory is new).
\<close>

theorem cookie_file_scoped:
  "(cookies = Some raw \<longrightarrow> raw \<noteq> [] \<longrightarrow>
      CHR 0x0A \<in> set (strip raw) \<or> CHR 0x09 \<in> set (strip raw) \<longrightarrow>
      mkdir_error env = None \<longrightarrow> write_error env = None \<longrightarrow> ydl_init_error env = None \<longrightarrow>
      written (snd (download_with_ytdlp env url output_dir filename audio_only resolution
                      progress_callback control cookies w))
        = written w @ [(joinpath (Path (mkdtemp env)) ''cookies.txt'', strip raw)]
      \<and> (\<exists>opts. ydl_log (snd (download_with_ytdlp env url output_dir filename audio_only
                      resolution progress_callback control cookies w)) = ydl_log w @ [opts]
             \<and> cookiefile opts = Some (str_path (joinpath (Path (mkdtemp env)) ''cookies.txt''))
             \<and> http_headers opts = None))
   \<and> (cookies = Some raw \<longrightarrow> raw \<noteq> [] \<longrightarrow>
      \<not> (CHR 0x0A \<in> set (strip raw) \<or> CHR 0x09 \<in> set (strip raw)) \<longrightarrow>
      mkdir_error env = None \<longrightarrow> ydl_init_error env = None \<longrightarrow>
      written (snd (download_with_ytdlp env url output_dir filename audio_only resolution
                      progress_callback control cookies w)) = written w
      \<and> (\<exists>opts. ydl_log (snd (download_with_ytdlp env url output_dir filename audio_only
                      resolution progress_callback control cookies w)) = ydl_log w @ [opts]
             \<and> cookiefile opts = None
             \<and> http_headers opts = Some [(''Cookie'', strip raw)]))
   \<and> (joinpath (Path (mkdtemp env)) ''cookies.txt'' \<notin> files w \<longrightarrow>
      fst (download_with_ytdlp env url output_dir filename audio_only resolution
             progress_callback control cookies w) \<noteq> Hang \<longrightarrow>
      joinpath (Path (mkdtemp env)) ''cookies.txt''
        \<notin> files (snd (download_with_ytdlp env url output_dir filename audio_only resolution
                         progress_callback control cookies w)))"
proof -
  let ?D = "download_with_ytdlp env url output_dir filename audio_only resolution
                      progress_callback control cookies w"
  let ?cp = "joinpath (Path (mkdtemp env)) ''cookies.txt''"
  let ?w1 = "w\<lparr>files := insert (Path (mkdtemp env)) (insert (Path output_dir) (files w))\<rparr>"
  have log: "written (snd ?D) = written wi \<and> ydl_log (snd ?D) = ydl_log w @ [opts1]"
    if mk: "mkdir_error env = None" and ie: "ydl_init_error env = None"
      and ic: "install_cookies env (mkdtemp env) cookies
           ((initial_ydl_opts env t fe audio_only resolution)
              \<lparr>paths := Some (output_dir, mkdtemp env)\<rparr>) ?w1 = (Ok opts1, wi)"
      and ss: "ytdlp_session env output_dir (mkdtemp env) progress_callback control cookies
             (initial_ydl_opts env t fe audio_only resolution) ?w1 = (r, i, w2)"
      and D: "?D = (case r of
              Err e \<Rightarrow> (Err e, cleanup (mkdtemp env) w2)
            | Hang \<Rightarrow> (Hang, w2)
            | Ok u \<Rightarrow> finalize env audio_only fe i (cleanup (mkdtemp env) w2))"
    for t fe opts1 wi r i w2
  proof -
    from install_cookies_facts(1)[OF ic] have wi: "ydl_log wi = ydl_log w" by simp
    have w2: "written w2 = written wi \<and> ydl_log w2 = ydl_log wi @ [opts1]"
      using ytdlp_session_shape[OF ss ic]
    proof (elim disjE conjE exE)
      fix o1 w3
      assume o: "Ok opts1 = Ok o1" and l: "ydl_log w3 = ydl_log wi @ [o1]"
        and wr: "written w3 = written wi"
        and yd: "ydl_download env progress_callback control (None, w3) = (r, i, w2)"
      from ydl_download_facts(1)[OF yd] o l wr show ?thesis by simp
    qed (use ie in auto)
    from ytdlp_result_frame[OF D] w2 wi show ?thesis by simp
  qed
  have a: "written (snd ?D) = written w @ [(?cp, strip raw)]
      \<and> (\<exists>opts. ydl_log (snd ?D) = ydl_log w @ [opts]
             \<and> cookiefile opts = Some (str_path ?cp) \<and> http_headers opts = None)"
    if c: "cookies = Some raw" "raw \<noteq> []"
      "CHR 0x0A \<in> set (strip raw) \<or> CHR 0x09 \<in> set (strip raw)"
      and mk: "mkdir_error env = None" and we: "write_error env = None"
      and ie: "ydl_init_error env = None"
  proof (rule ytdlp_run[where env = env and filename = filename and audio_only = audio_only
        and cookies = cookies and resolution = resolution and output_dir = output_dir
        and w = w and progress_callback = progress_callback and control = control
        and url = url, OF mk])
    fix t fe r i w2 ri wi
    assume ic: "install_cookies env (mkdtemp env) cookies
           ((initial_ydl_opts env t fe audio_only resolution)
              \<lparr>paths := Some (output_dir, mkdtemp env)\<rparr>) ?w1 = (ri, wi)"
      and ss: "ytdlp_session env output_dir (mkdtemp env) progress_callback control cookies
             (initial_ydl_opts env t fe audio_only resolution) ?w1 = (r, i, w2)"
      and D: "?D = (case r of
              Err e \<Rightarrow> (Err e, cleanup (mkdtemp env) w2)
            | Hang \<Rightarrow> (Hang, w2)
            | Ok u \<Rightarrow> finalize env audio_only fe i (cleanup (mkdtemp env) w2))"
    let ?o = "(initial_ydl_opts env t fe audio_only resolution)
                \<lparr>paths := Some (output_dir, mkdtemp env)\<rparr>"
    from install_cookies_facts(4)[OF ic, of raw] c we
    have ri: "ri = Ok (?o\<lparr>cookiefile := Some (str_path ?cp)\<rparr>)"
      and wr: "written wi = written ?w1 @ [(?cp, strip raw)]" by simp_all
    from log[OF mk ie ic[unfolded ri] ss D] wr
    have "written (snd ?D) = written w @ [(?cp, strip raw)]"
      "ydl_log (snd ?D) = ydl_log w @ [?o\<lparr>cookiefile := Some (str_path ?cp)\<rparr>]" by simp_all
    moreover have "http_headers (?o\<lparr>cookiefile := Some (str_path ?cp)\<rparr>) = None"
      by (simp add: initial_ydl_opts_def)
    ultimately show ?thesis by simp
  qed
  have b: "written (snd ?D) = written w
      \<and> (\<exists>opts. ydl_log (snd ?D) = ydl_log w @ [opts]
             \<and> cookiefile opts = None \<and> http_headers opts = Some [(''Cookie'', strip raw)])"
    if c: "cookies = Some raw" "raw \<noteq> []"
      "\<not> (CHR 0x0A \<in> set (strip raw) \<or> CHR 0x09 \<in> set (strip raw))"
      and mk: "mkdir_error env = None" and ie: "ydl_init_error env = None"
  proof (rule ytdlp_run[where env = env and filename = filename and audio_only = audio_only
        and cookies = cookies and resolution = resolution and output_dir = output_dir
        and w = w and progress_callback = progress_callback and control = control
        and url = url, OF mk])
    fix t fe r i w2 ri wi
    assume ic: "install_cookies env (mkdtemp env) cookies
           ((initial_ydl_opts env t fe audio_only resolution)
              \<lparr>paths := Some (output_dir, mkdtemp env)\<rparr>) ?w1 = (ri, wi)"
      and ss: "ytdlp_session env output_dir (mkdtemp env) progress_callback control cookies
             (initial_ydl_opts env t fe audio_only resolution) ?w1 = (r, i, w2)"
      and D: "?D = (case r of
              Err e \<Rightarrow> (Err e, cleanup (mkdtemp env) w2)
            | Hang \<Rightarrow> (Hang, w2)
            | Ok u \<Rightarrow> finalize env audio_only fe i (cleanup (mkdtemp env) w2))"
    let ?o = "(initial_ydl_opts env t fe audio_only resolution)
                \<lparr>paths := Some (output_dir, mkdtemp env)\<rparr>"
    from install_cookies_facts(5)[OF ic, of raw] c
    have ri: "ri = Ok (?o\<lparr>http_headers := Some [(''Cookie'', strip raw)]\<rparr>)"
      and wr: "wi = ?w1" by simp_all
    from log[OF mk ie ic[unfolded ri] ss D] wr
    have "written (snd ?D) = written w"
      "ydl_log (snd ?D) = ydl_log w @ [?o\<lparr>http_headers := Some [(''Cookie'', strip raw)]\<rparr>]"
      by simp_all
    moreover have "cookiefile (?o\<lparr>http_headers := Some [(''Cookie'', strip raw)]\<rparr>) = None"
      by (simp add: initial_ydl_opts_def)
    ultimately show ?thesis by simp
  qed
  have c: "?cp \<notin> files (snd ?D)"
    if fresh: "?cp \<notin> files w" and nh: "fst ?D \<noteq> Hang"
  proof (cases "mkdir_error env")
    case (Some m)
    from download_with_ytdlp_mkdir_error[OF Some, of url output_dir filename audio_only
        resolution progress_callback control cookies w] fresh
    show ?thesis by simp
  next
    case None
    show ?thesis
    proof (rule ytdlp_run[where env = env and filename = filename and audio_only = audio_only
        and cookies = cookies and resolution = resolution and output_dir = output_dir
        and w = w and progress_callback = progress_callback and control = control
        and url = url, OF None])
      fix t fe r i w2 ri wi
      assume fe: "audio_only \<longrightarrow> fe = Some ''mp3''"
        and D: "?D = (case r of
              Err e \<Rightarrow> (Err e, cleanup (mkdtemp env) w2)
            | Hang \<Rightarrow> (Hang, w2)
            | Ok u \<Rightarrow> finalize env audio_only fe i (cleanup (mkdtemp env) w2))"
      note rm = cleanup_removes_cookie[of "mkdtemp env" w2]
      show ?thesis
      proof (cases r)
        case (Ok u)
        from finalize_files[OF rm[unfolded cookie_path_shape] fe, of env i] Ok D
        show ?thesis by (simp add: cookie_path_shape)
      next
        case (Err e)
        with D rm show ?thesis by simp
      next
        case Hang
        with D nh show ?thesis by simp
      qed
    qed
  qed
  from a b c show ?thesis by blast
qed

theorem cookie_file_scoped_witness:
  "[CHR ''a'', CHR ''='', CHR ''b'', CHR 0x09, CHR ''c''] \<noteq> []
   \<and> CHR 0x09 \<in> set (strip ([CHR ''a'', CHR ''='', CHR ''b'', CHR 0x09, CHR ''c'']))
   \<and> mkdir_error sample_env = None \<and> write_error sample_env = None
   \<and> ydl_init_error sample_env = None
   \<and> written (snd (download_with_ytdlp sample_env ''u'' ''out'' None False None False False
                      (Some ([CHR ''a'', CHR ''='', CHR ''b'', CHR 0x09, CHR ''c''])) sample_world))
       = [(Path ''/tmp/yt-dlp-frag-x/cookies.txt'', [CHR ''a'', CHR ''='', CHR ''b'', CHR 0x09, CHR ''c''])]
   \<and> map cookiefile (ydl_log (snd (download_with_ytdlp sample_env ''u'' ''out'' None False None
                      False False (Some ([CHR ''a'', CHR ''='', CHR ''b'', CHR 0x09, CHR ''c''])) sample_world)))
       = [Some ''/tmp/yt-dlp-frag-x/cookies.txt'']
   \<and> Path ''/tmp/yt-dlp-frag-x/cookies.txt'' \<notin> files sample_world
   \<and> fst (download_with_ytdlp sample_env ''u'' ''out'' None False None False False
                      (Some ([CHR ''a'', CHR ''='', CHR ''b'', CHR 0x09, CHR ''c''])) sample_world) \<noteq> Hang
   \<and> Path ''/tmp/yt-dlp-frag-x/cookies.txt''
       \<notin> files (snd (download_with_ytdlp sample_env ''u'' ''out'' None False None False False
                      (Some ([CHR ''a'', CHR ''='', CHR ''b'', CHR 0x09, CHR ''c''])) sample_world))
   \<and> ''a=b'' \<noteq> [] \<and> CHR 0x0A \<notin> set (strip ''a=b'') \<and> CHR 0x09 \<notin> set (strip ''a=b'')
   \<and> written (snd (download_with_ytdlp sample_env ''u'' ''out'' None False None False False
                      (Some ''a=b'') sample_world)) = []
   \<and> map http_headers (ydl_log (snd (download_with_ytdlp sample_env ''u'' ''out'' None False None
                      False False (Some ''a=b'') sample_world)))
       = [Some [(''Cookie'', ''a=b'')]]"
proof -
  let ?raw = "[CHR ''a'', CHR ''='', CHR ''b'', CHR 0x09, CHR ''c'']"
  let ?D1 = "download_with_ytdlp sample_env ''u'' ''out'' None False None False False
                      (Some ?raw) sample_world"
  let ?D2 = "download_with_ytdlp sample_env ''u'' ''out'' None False None False False
                      (Some ''a=b'') sample_world"
  have env: "mkdir_error sample_env = None" "write_error sample_env = None"
    "ydl_init_error sample_env = None" "mkdtemp sample_env = ''/tmp/yt-dlp-frag-x''"
    by (simp_all add: sample_env_def)
  have w0: "written sample_world = []" "ydl_log sample_world = []" "files sample_world = {}"
    by (simp_all add: sample_world_def)
  have ne1: "?raw \<noteq> []" and ne2: "''a=b'' \<noteq> []" by simp_all
  have s1: "strip ?raw = ?raw" and tab: "CHR 0x09 \<in> set (strip ?raw)" by code_simp+
  have tab': "CHR 0x0A \<in> set (strip ?raw) \<or> CHR 0x09 \<in> set (strip ?raw)" using tab by simp
  have s2: "strip ''a=b'' = ''a=b''" and no: "CHR 0x0A \<notin> set (strip ''a=b'')"
    "CHR 0x09 \<notin> set (strip ''a=b'')" by code_simp+
  have no': "\<not> (CHR 0x0A \<in> set (strip ''a=b'') \<or> CHR 0x09 \<in> set (strip ''a=b''))"
    using no by simp
  have cp: "joinpath (Path ''/tmp/yt-dlp-frag-x'') ''cookies.txt''
              = Path ''/tmp/yt-dlp-frag-x/cookies.txt''"
    "str_path (Path ''/tmp/yt-dlp-frag-x/cookies.txt'') = ''/tmp/yt-dlp-frag-x/cookies.txt''"
    by code_simp+
  have nh: "fst ?D1 \<noteq> Hang" by code_simp
  have fresh: "joinpath (Path (mkdtemp sample_env)) ''cookies.txt'' \<notin> files sample_world"
    by (simp add: w0)
  from cookie_file_scoped [THEN conjunct1, rule_format, OF refl ne1 tab' env(1) env(2) env(3),
      of "''u''" "''out''" None False None False False sample_world]
  have a: "written (snd ?D1) = [(Path ''/tmp/yt-dlp-frag-x/cookies.txt'', ?raw)]"
    "map cookiefile (ydl_log (snd ?D1)) = [Some ''/tmp/yt-dlp-frag-x/cookies.txt'']"
    by (auto simp: env(4) w0 s1 cp)
  from cookie_file_scoped [THEN conjunct2, THEN conjunct1, rule_format, OF refl ne2 no' env(1) env(3),
      of "''u''" "''out''" None False None False False sample_world]
  have b: "written (snd ?D2) = []"
    "map http_headers (ydl_log (snd ?D2)) = [Some [(''Cookie'', ''a=b'')]]"
    by (auto simp: w0 s2)
  from cookie_file_scoped [THEN conjunct2, THEN conjunct2, rule_format, OF fresh,
      of "''u''" "''out''" None False None False False "Some ?raw"] nh
  have c: "Path ''/tmp/yt-dlp-frag-x/cookies.txt'' \<notin> files (snd ?D1)"
    by (simp add: env(4) cp)
  from a b c env ne1 ne2 tab no nh w0 show ?thesis by simp
qed

section \<open>The stream the primary adapter downloads\<close>

text \<open>The stream that is picked is the stream that is downloaded.\<close>

lemma handler_dl_log:
  "make_pytube_progress_handler progress_callback control s b w = (r, w') \<Longrightarrow>
     dl_log w' = dl_log w"
proof (cases progress_callback)
  case False
  assume "make_pytube_progress_handler progress_callback control s b w = (r, w')"
  with False show ?thesis
    by (auto simp: make_pytube_progress_handler_def progress_callback_cli_def Let_def
        split: if_splits)
next
  case True
  assume a: "make_pytube_progress_handler progress_callback control s b w = (r, w')"
  obtain r1 w1 where cp: "checkpoint control w = (r1, w1)" by (cases "checkpoint control w")
  from checkpoint_frame[of control w] cp have "w1 = w\<lparr>ctl := ctl w1\<rparr>" by simp
  then have w1: "dl_log w1 = dl_log w"
    by (metis world.select_convs world.surjective world.update_convs)
  from a True cp w1 show ?thesis
    by (cases r1) (auto simp: make_pytube_progress_handler_def emit_def Let_def)
qed

lemma run_chunks_dl_log:
  "run_chunks (make_pytube_progress_handler progress_callback control s) chunks w = (r, w') \<Longrightarrow>
     dl_log w' = dl_log w"
proof (induction chunks arbitrary: w)
  case Nil
  then show ?case by simp
next
  case (Cons b chunks)
  obtain r1 w1 where h: "make_pytube_progress_handler progress_callback control s b w = (r1, w1)"
    by (cases "make_pytube_progress_handler progress_callback control s b w")
  note f = handler_dl_log[OF h]
  show ?case
  proof (cases r1)
    case (Ok u)
    with Cons.prems h have "run_chunks (make_pytube_progress_handler progress_callback control s)
        chunks w1 = (r, w')" by simp
    from Cons.IH[OF this] f show ?thesis by simp
  next
    case (Err e)
    with Cons.prems h f show ?thesis by simp
  next
    case Hang
    with Cons.prems h f show ?thesis by simp
  qed
qed

lemma stream_download_facts:
  assumes "stream_download env (make_pytube_progress_handler progress_callback control)
             s output_path fname w = (r, w')"
  shows "dl_log w' = dl_log w @ [(s, output_path, fname)]"
    and "\<forall>d. r = Ok d \<longrightarrow> d = dl_destination env output_path fname"
proof -
  let ?w0 = "w\<lparr>dl_log := dl_log w @ [(s, output_path, fname)]\<rparr>"
  let ?H = "make_pytube_progress_handler progress_callback control s"
  obtain r1 w1 where rc: "run_chunks ?H (dl_chunks env) ?w0 = (r1, w1)"
    by (cases "run_chunks ?H (dl_chunks env) ?w0")
  from run_chunks_dl_log[OF rc] have l: "dl_log w1 = dl_log w @ [(s, output_path, fname)]"
    by simp
  have sd: "stream_download env (make_pytube_progress_handler progress_callback control)
             s output_path fname w =
     (case r1 of
        Ok u \<Rightarrow> (case dl_error env of
                   Some m \<Rightarrow> (Err (LibraryError m), w1)
                 | None \<Rightarrow> (Ok (dl_destination env output_path fname),
                            w1\<lparr>files := insert (Path (dl_destination env output_path fname))
                                           (files w1)\<rparr>))
      | Err e \<Rightarrow> (Err e, w1)
      | Hang \<Rightarrow> (Hang, w1))"
    using rc by (cases r1; cases "dl_error env") (simp_all add: stream_download_def Let_def)
  from assms[unfolded sd] l show "dl_log w' = dl_log w @ [(s, output_path, fname)]"
    by (cases r1; cases "dl_error env") auto
  from assms[unfolded sd] show "\<forall>d. r = Ok d \<longrightarrow> d = dl_destination env output_path fname"
    by (cases r1; cases "dl_error env") auto
qed

lemma pytube_mkdir_error:
  "mkdir_error env = Some m \<Longrightarrow>
     download_with_pytube env url output_dir filename audio_only resolution
       progress_callback control w = (Err (OSError m), w)"
  by (simp add: download_with_pytube_def mkdir_def)

lemma pytube_first_check:
  assumes "mkdir_error env = None"
    and "(if control then raise_if_cancelled_c (w\<lparr>files := insert (Path output_dir) (files w)\<rparr>)
          else (Ok (), w\<lparr>files := insert (Path output_dir) (files w)\<rparr>)) = (r1, w1)"
    and "r1 \<noteq> Ok ()"
  shows "download_with_pytube env url output_dir filename audio_only resolution
           progress_callback control w = (case r1 of Err e \<Rightarrow> Err e | _ \<Rightarrow> Hang, w1)"
  using assms by (cases r1) (simp_all add: download_with_pytube_def mkdir_def)

lemma pytube_yt_error:
  assumes "mkdir_error env = None"
    and "(if control then raise_if_cancelled_c (w\<lparr>files := insert (Path output_dir) (files w)\<rparr>)
          else (Ok (), w\<lparr>files := insert (Path output_dir) (files w)\<rparr>)) = (Ok (), w1)"
    and "yt_error env = Some m"
  shows "download_with_pytube env url output_dir filename audio_only resolution
           progress_callback control w = (Err (LibraryError m), w1)"
  using assms by (simp add: download_with_pytube_def mkdir_def)

lemma pytube_select_error:
  assumes "mkdir_error env = None"
    and "(if control then raise_if_cancelled_c (w\<lparr>files := insert (Path output_dir) (files w)\<rparr>)
          else (Ok (), w\<lparr>files := insert (Path output_dir) (files w)\<rparr>)) = (Ok (), w1)"
    and "yt_error env = None"
    and "select_stream (yt_streams env) audio_only resolution = Inl e"
  shows "download_with_pytube env url output_dir filename audio_only resolution
           progress_callback control w = (Err e, w1)"
  using assms by (simp add: download_with_pytube_def mkdir_def)

lemma pytube_second_check:
  assumes "mkdir_error env = None"
    and "(if control then raise_if_cancelled_c (w\<lparr>files := insert (Path output_dir) (files w)\<rparr>)
          else (Ok (), w\<lparr>files := insert (Path output_dir) (files w)\<rparr>)) = (Ok (), w1)"
    and "yt_error env = None"
    and "select_stream (yt_streams env) audio_only resolution = Inr s"
    and "checkpoint control w1 = (r2, w2)"
    and "r2 \<noteq> Ok ()"
  shows "download_with_pytube env url output_dir filename audio_only resolution
           progress_callback control w = (case r2 of Err e \<Rightarrow> Err e | _ \<Rightarrow> Hang, w2)"
  using assms by (cases r2) (simp_all add: download_with_pytube_def mkdir_def)

lemma pytube_download:
  assumes "mkdir_error env = None"
    and "(if control then raise_if_cancelled_c (w\<lparr>files := insert (Path output_dir) (files w)\<rparr>)
          else (Ok (), w\<lparr>files := insert (Path output_dir) (files w)\<rparr>)) = (Ok (), w1)"
    and "yt_error env = None"
    and "select_stream (yt_streams env) audio_only resolution = Inr s"
    and "checkpoint control w1 = (Ok (), w2)"
    and "stream_download env (make_pytube_progress_handler progress_callback control) s
           output_dir
           (case filename of
              None \<Rightarrow> default_filename s
            | Some f \<Rightarrow> if f \<noteq> [] then f else default_filename s) w2 = (r3, w3)"
  shows "download_with_pytube env url output_dir filename audio_only resolution
           progress_callback control w =
     (case r3 of
        Err e \<Rightarrow> (Err e, w3)
      | Hang \<Rightarrow> (Hang, w3)
      | Ok destination \<Rightarrow>
          (Ok (Path destination),
           if progress_callback then emit (Some 100) [] w3
           else w3\<lparr>console := console w3 @ [DownloadComplete destination]\<rparr>))"
  using assms by (cases r3) (simp_all add: download_with_pytube_def mkdir_def Let_def)

lemma select_stream_given_found:
  assumes "r \<noteq> []" and "v \<in> set streams" and "is_progressive v \<and> subtype v = ''mp4''"
    and "s_resolution v = Some r"
  shows "select_stream streams False (Some r)
           = Inr (hd (filter_res r (filter_progressive_mp4 streams)))"
proof -
  from assms(2-4) have "v \<in> set (filter_res r (filter_progressive_mp4 streams))"
    by (simp add: filter_res_def set_filter_progressive_mp4)
  then have "filter_res r (filter_progressive_mp4 streams) \<noteq> []" by auto
  then show ?thesis using assms(1)
    by (cases "filter_res r (filter_progressive_mp4 streams)")
       (simp_all add: select_stream_given first_def)
qed

lemma select_stream_auto_found:
  assumes "\<not> truthy resolution" and "v \<in> set streams"
    and "is_progressive v \<and> subtype v = ''mp4''" and "s_resolution v \<noteq> None"
  shows "select_stream streams False resolution
           = Inr (last (order_by s_resolution (filter_progressive_mp4 streams)))"
proof -
  from assms(2-4) have "v \<in> set (order_by s_resolution (filter_progressive_mp4 streams))"
    by (simp add: order_by_subset set_filter_progressive_mp4)
  then have ne: "order_by s_resolution (filter_progressive_mp4 streams) \<noteq> []" by auto
  have f: "first ys = Some (hd ys)" if "ys \<noteq> []" for ys
    using that by (cases ys) (simp_all add: first_def)
  from ne have "first (desc (order_by s_resolution (filter_progressive_mp4 streams)))
      = Some (last (order_by s_resolution (filter_progressive_mp4 streams)))"
    by (simp add: f desc_def hd_rev)
  then show ?thesis using assms(1) by (simp add: select_stream_auto)
qed

lemma select_stream_auto_none:
  assumes "\<not> truthy resolution"
    and "\<forall>t \<in> set streams. is_progressive t \<and> subtype t = ''mp4'' \<longrightarrow> s_resolution t = None"
  shows "select_stream streams False resolution
           = Inl (ValueError ''No progressive MP4 streams available for this video.'')"
proof -
  from assms(2) have "set (order_by s_resolution (filter_progressive_mp4 streams)) = {}"
    by (auto simp: order_by_subset set_filter_progressive_mp4)
  then have "order_by s_resolution (filter_progressive_mp4 streams) = []" by simp
  then show ?thesis using assms(1) by (simp add: select_stream_auto first_def desc_def)
qed

text \<open>With no pause and no cancellation pending, the checks pass and leave the world.\<close>

lemma raise_if_cancelled_c_quiet:
  "snd (ctl w) = [] \<Longrightarrow> \<not> cancel_event (fst (ctl w)) \<Longrightarrow> raise_if_cancelled_c w = (Ok (), w)"
  by (cases "ctl w") (simp add: raise_if_cancelled_c_def raise_if_cancelled_w_def)

lemma checkpoint_quiet:
  assumes "control \<longrightarrow>
      snd (ctl w) = [] \<and> \<not> cancel_event (fst (ctl w)) \<and> resume_event (fst (ctl w))"
  shows "checkpoint control w = (Ok (), w)"
proof (cases control)
  case False
  then show ?thesis by (simp add: checkpoint_def)
next
  case True
  with assms have q: "snd (ctl w) = []" "\<not> cancel_event (fst (ctl w))" "resume_event (fst (ctl w))"
    by simp_all
  have "wait_if_paused (ctl w) = (Ok (), ctl w)"
    using q by (cases "ctl w") (simp add: wait_if_paused.simps)
  with True raise_if_cancelled_c_quiet[OF q(1,2)] show ?thesis by (simp add: checkpoint_def)
qed

lemma handler_quiet:
  assumes "control \<longrightarrow>
      snd (ctl w) = [] \<and> \<not> cancel_event (fst (ctl w)) \<and> resume_event (fst (ctl w))"
    and "progress_callback \<or> filesize s \<noteq> 0"
  shows "fst (make_pytube_progress_handler progress_callback control s b w) = Ok ()
         \<and> ctl (snd (make_pytube_progress_handler progress_callback control s b w)) = ctl w"
  using assms(2) checkpoint_quiet[OF assms(1)]
  by (auto simp: make_pytube_progress_handler_def progress_callback_cli_def emit_def Let_def)

lemma run_chunks_quiet:
  assumes "progress_callback \<or> filesize s \<noteq> 0"
  shows "(control \<longrightarrow>
      snd (ctl w) = [] \<and> \<not> cancel_event (fst (ctl w)) \<and> resume_event (fst (ctl w))) \<Longrightarrow>
    fst (run_chunks (make_pytube_progress_handler progress_callback control s) chunks w) = Ok ()"
proof (induction chunks arbitrary: w)
  case Nil
  then show ?case by simp
next
  case (Cons b chunks)
  obtain r1 w1 where h: "make_pytube_progress_handler progress_callback control s b w = (r1, w1)"
    by (cases "make_pytube_progress_handler progress_callback control s b w")
  from handler_quiet[OF Cons.prems assms, of b] h have r1: "r1 = Ok ()" and c: "ctl w1 = ctl w"
    by simp_all
  from Cons.prems c have "control \<longrightarrow>
      snd (ctl w1) = [] \<and> \<not> cancel_event (fst (ctl w1)) \<and> resume_event (fst (ctl w1))" by simp
  from Cons.IH[OF this] h r1 show ?case by simp
qed

text \<open>The adapter downloads the stream it picked, and no other.\<close>

lemma guard_dl_log:
  assumes "(if control then raise_if_cancelled_c w0 else (Ok (), w0)) = (r1, w1)"
  shows "dl_log w1 = dl_log w0"
proof (cases control)
  case False
  with assms show ?thesis by simp
next
  case True
  with assms raise_if_cancelled_c_frame[of w0] have "w1 = w0\<lparr>ctl := ctl w1\<rparr>" by simp
  then show ?thesis by (metis world.select_convs world.surjective world.update_convs)
qed

lemma checkpoint_dl_log:
  assumes "checkpoint control w = (r, w')"
  shows "dl_log w' = dl_log w"
proof -
  from checkpoint_frame[of control w] assms have "w' = w\<lparr>ctl := ctl w'\<rparr>" by simp
  then show ?thesis by (metis world.select_convs world.surjective world.update_convs)
qed

lemma pytube_downloads_pick:
  assumes P: "download_with_pytube env url output_dir filename audio_only resolution
                progress_callback control w = (res, w')"
  shows "(dl_log w' = dl_log w \<and> (\<forall>p. res \<noteq> Ok p))
       \<or> (\<exists>s. select_stream (yt_streams env) audio_only resolution = Inr s
            \<and> dl_log w' = dl_log w @ [(s, output_dir,
                 case filename of
                   None \<Rightarrow> default_filename s
                 | Some f \<Rightarrow> if f \<noteq> [] then f else default_filename s)]
            \<and> (\<forall>p. res = Ok p \<longrightarrow>
                 p = Path (dl_destination env output_dir
                      (case filename of
                         None \<Rightarrow> default_filename s
                       | Some f \<Rightarrow> if f \<noteq> [] then f else default_filename s))))"
proof (cases "mkdir_error env")
  case (Some m)
  from pytube_mkdir_error[OF Some] P show ?thesis by auto
next
  case None
  let ?w0 = "w\<lparr>files := insert (Path output_dir) (files w)\<rparr>"
  obtain r1 w1 where g: "(if control then raise_if_cancelled_c ?w0 else (Ok (), ?w0)) = (r1, w1)"
    by (cases "if control then raise_if_cancelled_c ?w0 else (Ok (), ?w0)")
  from guard_dl_log[OF g] have l1: "dl_log w1 = dl_log w" by simp
  show ?thesis
  proof (cases "r1 = Ok ()")
    case False
    from pytube_first_check[OF None g False] P l1 show ?thesis by (cases r1) auto
  next
    case True
    note g1 = g[unfolded True]
    show ?thesis
    proof (cases "yt_error env")
      case (Some m)
      from pytube_yt_error[OF None g1 Some] P l1 show ?thesis by auto
    next
      case yt: None
      show ?thesis
      proof (cases "select_stream (yt_streams env) audio_only resolution")
        case (Inl e)
        from pytube_select_error[OF None g1 yt Inl] P l1 show ?thesis by auto
      next
        case (Inr s)
        obtain r2 w2 where c: "checkpoint control w1 = (r2, w2)"
          by (cases "checkpoint control w1")
        from checkpoint_dl_log[OF c] l1 have l2: "dl_log w2 = dl_log w" by simp
        show ?thesis
        proof (cases "r2 = Ok ()")
          case False
          from pytube_second_check[OF None g1 yt Inr c False] P l2 show ?thesis
            by (cases r2) auto
        next
          case True
          note c1 = c[unfolded True]
          let ?fn = "case filename of
                       None \<Rightarrow> default_filename s
                     | Some f \<Rightarrow> if f \<noteq> [] then f else default_filename s"
          obtain r3 w3 where d: "stream_download env
              (make_pytube_progress_handler progress_callback control) s output_dir ?fn w2
                = (r3, w3)"
            by (cases "stream_download env
              (make_pytube_progress_handler progress_callback control) s output_dir ?fn w2")
          from stream_download_facts(1)[OF d] l2
          have l3: "dl_log w3 = dl_log w @ [(s, output_dir, ?fn)]" by simp
          note dest = stream_download_facts(2)[OF d]
          have fin: "dl_log (if progress_callback then emit (Some 100) [] w3
                             else w3\<lparr>console := console w3 @ [DownloadComplete x]\<rparr>)
                       = dl_log w3" for x
            by (simp add: emit_def)
          from pytube_download[OF None g1 yt Inr c1 d] P l3 dest Inr fin show ?thesis
            by (cases r3) auto
        qed
      qed
    qed
  qed
qed

lemma pytube_succeeds:
  assumes mk: "mkdir_error env = None" and yt: "yt_error env = None"
    and q: "control \<longrightarrow>
      snd (ctl w) = [] \<and> \<not> cancel_event (fst (ctl w)) \<and> resume_event (fst (ctl w))"
    and sel: "select_stream (yt_streams env) audio_only resolution = Inr s"
    and h: "progress_callback \<or> filesize s \<noteq> 0"
    and de: "dl_error env = None"
  shows "fst (download_with_pytube env url output_dir filename audio_only resolution
                progress_callback control w)
           = Ok (Path (dl_destination env output_dir
                   (case filename of
                      None \<Rightarrow> default_filename s
                    | Some f \<Rightarrow> if f \<noteq> [] then f else default_filename s)))"
proof -
  let ?w0 = "w\<lparr>files := insert (Path output_dir) (files w)\<rparr>"
  let ?fn = "case filename of
               None \<Rightarrow> default_filename s
             | Some f \<Rightarrow> if f \<noteq> [] then f else default_filename s"
  let ?w1 = "?w0\<lparr>dl_log := dl_log ?w0 @ [(s, output_dir, ?fn)]\<rparr>"
  from q have q0: "control \<longrightarrow>
      snd (ctl ?w0) = [] \<and> \<not> cancel_event (fst (ctl ?w0)) \<and> resume_event (fst (ctl ?w0))"
    by simp
  then have q1: "control \<longrightarrow>
      snd (ctl ?w1) = [] \<and> \<not> cancel_event (fst (ctl ?w1)) \<and> resume_event (fst (ctl ?w1))"
    by simp
  have g: "(if control then raise_if_cancelled_c ?w0 else (Ok (), ?w0)) = (Ok (), ?w0)"
    using q0 by (auto simp: raise_if_cancelled_c_quiet)
  note c = checkpoint_quiet[OF q0]
  obtain r3 w3 where d: "stream_download env
      (make_pytube_progress_handler progress_callback control) s output_dir ?fn ?w0 = (r3, w3)"
    by (cases "stream_download env
      (make_pytube_progress_handler progress_callback control) s output_dir ?fn ?w0")
  obtain rc wc where rc: "run_chunks (make_pytube_progress_handler progress_callback control s)
      (dl_chunks env) ?w1 = (rc, wc)"
    by (cases "run_chunks (make_pytube_progress_handler progress_callback control s)
      (dl_chunks env) ?w1")
  from run_chunks_quiet[OF h q1, of "dl_chunks env"] rc have "rc = Ok ()" by simp
  with rc d de have "r3 = Ok (dl_destination env output_dir ?fn)"
    by (simp add: stream_download_def Let_def)
  with pytube_download[OF mk g yt sel c d] show ?thesis by simp
qed

text \<open>
  C7.  The stream the pytube adapter picks in video mode, and downloads.  The pick is one
  of the video's streams, progressive and MP4.  With a (non-empty) resolution it is the
  first such stream whose resolution is that string: when some progressive MP4 stream has
  that resolution a stream is picked, and it is that stream when no other has the
  resolution; when no progressive MP4 stream has that resolution the pick fails with a
  \<^verbatim>\<open>ValueError\<close> whose message contains the string.  Without a resolution a stream is picked
  as soon as some progressive MP4 stream has a resolution, and the pick fails with
  \<^verbatim>\<open>No progressive MP4 streams available for this video.\<close> otherwise; resolutions being
  strings whose digits \<^verbatim>\<open>int\<close> reads (as \<^verbatim>\<open>720p\<close>), no progressive MP4 stream has a
  resolution number above the pick's, and a stream whose number is above all others' is the
  pick.  A failed pick is the adapter's failure when the directory can be made, pytube's
  lookup works and the control is not cancelled.  The adapter calls \<^verbatim>\<open>download\<close> at most
  once, on the pick, with the output directory and the file name (or the stream's default
  name), and a path it returns is the one that call returned.  With the directory made,
  pytube's lookup and download working, a handler that does not divide by zero, and a
  control (if any) neither paused nor cancelled nor about to be, the adapter returns.
\<close>

theorem select_stream_video:
  "(select_stream streams False resolution = Inr s \<longrightarrow>
      s \<in> set streams \<and> is_progressive s \<and> subtype s = ''mp4'')
   \<and> (r \<noteq> [] \<longrightarrow> select_stream streams False (Some r) = Inr s \<longrightarrow>
        s_resolution s = Some r \<and> s = hd (filter_res r (filter_progressive_mp4 streams)))
   \<and> (r \<noteq> [] \<longrightarrow>
        (\<forall>t \<in> set streams. is_progressive t \<and> subtype t = ''mp4'' \<longrightarrow> s_resolution t \<noteq> Some r) \<longrightarrow>
        select_stream streams False (Some r)
          = Inl (ValueError (''Resolution '' @ r
                   @ '' not available. Use --resolution to pick another.'')))
   \<and> (\<not> truthy resolution \<longrightarrow>
        (\<forall>t \<in> set streams. is_progressive t \<and> subtype t = ''mp4'' \<and> s_resolution t \<noteq> None
           \<longrightarrow> digits_key s_resolution t \<noteq> None) \<longrightarrow>
        select_stream streams False resolution = Inr s \<longrightarrow>
        (\<forall>t \<in> set streams. is_progressive t \<and> subtype t = ''mp4'' \<longrightarrow>
           (\<forall>n. digits_key s_resolution t = Some n \<longrightarrow>
              (\<exists>m. digits_key s_resolution s = Some m \<and> n \<le> m))))
   \<and> (mkdir_error env = None \<longrightarrow> yt_error env = None \<longrightarrow>
        (control \<longrightarrow> \<not> cancel_event (fst (controller_turn (ctl w)))) \<longrightarrow>
        select_stream (yt_streams env) False resolution = Inl e \<longrightarrow>
        fst (download_with_pytube env url output_dir filename False resolution
               progress_callback control w) = Err e)
   \<and> (r \<noteq> [] \<longrightarrow> v \<in> set streams \<longrightarrow> is_progressive v \<and> subtype v = ''mp4'' \<longrightarrow>
        s_resolution v = Some r \<longrightarrow>
        select_stream streams False (Some r)
          = Inr (hd (filter_res r (filter_progressive_mp4 streams)))
        \<and> ((\<forall>u \<in> set streams. is_progressive u \<and> subtype u = ''mp4'' \<and> s_resolution u = Some r
              \<longrightarrow> u = v) \<longrightarrow>
           select_stream streams False (Some r) = Inr v))
   \<and> (\<not> truthy resolution \<longrightarrow> v \<in> set streams \<longrightarrow> is_progressive v \<and> subtype v = ''mp4'' \<longrightarrow>
        s_resolution v \<noteq> None \<longrightarrow>
        (\<exists>s'. select_stream streams False resolution = Inr s'))
   \<and> (\<not> truthy resolution \<longrightarrow>
        (\<forall>t \<in> set streams. is_progressive t \<and> subtype t = ''mp4'' \<longrightarrow> s_resolution t = None) \<longrightarrow>
        select_stream streams False resolution
          = Inl (ValueError ''No progressive MP4 streams available for this video.''))
   \<and> (\<not> truthy resolution \<longrightarrow> v \<in> set streams \<longrightarrow> is_progressive v \<and> subtype v = ''mp4'' \<longrightarrow>
        digits_key s_resolution v = Some k \<longrightarrow>
        (\<forall>u \<in> set streams. is_progressive u \<and> subtype u = ''mp4'' \<and> s_resolution u \<noteq> None
              \<and> u \<noteq> v \<longrightarrow>
           (\<exists>n. digits_key s_resolution u = Some n \<and> n < k)) \<longrightarrow>
        select_stream streams False resolution = Inr v)
   \<and> (download_with_pytube env url output_dir filename False resolution
         progress_callback control w = (Ok p, w') \<longrightarrow>
        (\<exists>s'. select_stream (yt_streams env) False resolution = Inr s'
           \<and> dl_log w' = dl_log w @ [(s', output_dir,
                case filename of
                  None \<Rightarrow> default_filename s'
                | Some f \<Rightarrow> if f \<noteq> [] then f else default_filename s')]
           \<and> p = Path (dl_destination env output_dir
                (case filename of
                   None \<Rightarrow> default_filename s'
                 | Some f \<Rightarrow> if f \<noteq> [] then f else default_filename s'))))
   \<and> (download_with_pytube env url output_dir filename False resolution
         progress_callback control w = (res, w') \<longrightarrow>
        dl_log w' = dl_log w
        \<or> (\<exists>s'. select_stream (yt_streams env) False resolution = Inr s'
             \<and> dl_log w' = dl_log w @ [(s', output_dir,
                  case filename of
                    None \<Rightarrow> default_filename s'
                  | Some f \<Rightarrow> if f \<noteq> [] then f else default_filename s')]))
   \<and> (mkdir_error env = None \<longrightarrow> yt_error env = None \<longrightarrow> dl_error env = None \<longrightarrow>
        (control \<longrightarrow> snd (ctl w) = [] \<and> \<not> cancel_event (fst (ctl w))
                      \<and> resume_event (fst (ctl w))) \<longrightarrow>
        select_stream (yt_streams env) False resolution = Inr s \<longrightarrow>
        progress_callback \<or> filesize s \<noteq> 0 \<longrightarrow>
        fst (download_with_pytube env url output_dir filename False resolution
               progress_callback control w)
          = Ok (Path (dl_destination env output_dir
                  (case filename of
                     None \<Rightarrow> default_filename s
                   | Some f \<Rightarrow> if f \<noteq> [] then f else default_filename s))))"
proof -
  let ?F = "filter_progressive_mp4 streams"
  let ?P = "download_with_pytube env url output_dir filename False resolution
              progress_callback control w"
  note F = set_filter_progressive_mp4
  have e: "fst ?P = Err e"
    if "mkdir_error env = None" "yt_error env = None"
      "control \<longrightarrow> \<not> cancel_event (fst (controller_turn (ctl w)))"
      "select_stream (yt_streams env) False resolution = Inl e"
    using that
    by (simp add: download_with_pytube_def mkdir_def raise_if_cancelled_c_def
        raise_if_cancelled_w_def Let_def)
  have a: "s \<in> set streams \<and> is_progressive s \<and> subtype s = ''mp4''"
    if "select_stream streams False resolution = Inr s" for s resolution
    using select_stream_progressive[OF that] by (simp add: F)
  have b: "s_resolution s = Some r \<and> s = hd (filter_res r ?F)"
    if "r \<noteq> []" "select_stream streams False (Some r) = Inr s" for s
  proof -
    from that have f: "first (filter_res r ?F) = Some s"
      by (simp add: select_stream_given split: option.splits)
    from first_in[OF f] first_Some[OF f] show ?thesis by (simp add: filter_res_def)
  qed
  have c: "select_stream streams False (Some r)
          = Inl (ValueError (''Resolution '' @ r
                   @ '' not available. Use --resolution to pick another.''))"
    if "r \<noteq> []"
      "\<forall>t \<in> set streams. is_progressive t \<and> subtype t = ''mp4'' \<longrightarrow> s_resolution t \<noteq> Some r"
  proof -
    from that(2) have "filter_res r ?F = []"
      by (auto simp: filter_res_def filter_empty_conv F)
    then show ?thesis using that(1) by (simp add: select_stream_given first_def)
  qed
  have d: "\<exists>m. digits_key s_resolution s = Some m \<and> n \<le> m"
    if nt: "\<not> truthy resolution"
      and num: "\<forall>t \<in> set streams. is_progressive t \<and> subtype t = ''mp4'' \<and> s_resolution t \<noteq> None
           \<longrightarrow> digits_key s_resolution t \<noteq> None"
      and sel: "select_stream streams False resolution = Inr s"
      and t: "t \<in> set streams" "is_progressive t \<and> subtype t = ''mp4''"
        "digits_key s_resolution t = Some n" for t n s
  proof -
    from nt sel have f: "first (desc (order_by s_resolution ?F)) = Some s"
      by (simp add: select_stream_auto split: option.splits)
    have num': "\<forall>s \<in> set ?F. s_resolution s \<noteq> None \<longrightarrow> digits_key s_resolution s \<noteq> None"
      using num by (simp add: F)
    have tin: "t \<in> set ?F" using t by (simp add: F)
    show ?thesis by (rule highest_first[OF num' f tin t(3)])
  qed
  have f1: "select_stream streams False (Some r) = Inr (hd (filter_res r ?F))"
    if "r \<noteq> []" "v \<in> set streams" "is_progressive v \<and> subtype v = ''mp4''"
      "s_resolution v = Some r"
    using that by (rule select_stream_given_found)
  have f2: "select_stream streams False (Some r) = Inr v"
    if h: "r \<noteq> []" "v \<in> set streams" "is_progressive v \<and> subtype v = ''mp4''"
      "s_resolution v = Some r"
      and u: "\<forall>u \<in> set streams. is_progressive u \<and> subtype u = ''mp4'' \<and> s_resolution u = Some r
              \<longrightarrow> u = v"
  proof -
    note sel = f1[OF h]
    from b[OF h(1) sel] a[OF sel] u have "hd (filter_res r ?F) = v" by blast
    with sel show ?thesis by simp
  qed
  have g: "\<exists>s'. select_stream streams False resolution = Inr s'"
    if "\<not> truthy resolution" "v \<in> set streams" "is_progressive v \<and> subtype v = ''mp4''"
      "s_resolution v \<noteq> None"
    using select_stream_auto_found[OF that] by blast
  have g2: "select_stream streams False resolution
          = Inl (ValueError ''No progressive MP4 streams available for this video.'')"
    if "\<not> truthy resolution"
      "\<forall>t \<in> set streams. is_progressive t \<and> subtype t = ''mp4'' \<longrightarrow> s_resolution t = None"
    using that by (rule select_stream_auto_none)
  have g3: "select_stream streams False resolution = Inr v"
    if nt: "\<not> truthy resolution" and v: "v \<in> set streams" "is_progressive v \<and> subtype v = ''mp4''"
      and k: "digits_key s_resolution v = Some k"
      and u: "\<forall>u \<in> set streams. is_progressive u \<and> subtype u = ''mp4'' \<and> s_resolution u \<noteq> None
              \<and> u \<noteq> v \<longrightarrow>
           (\<exists>n. digits_key s_resolution u = Some n \<and> n < k)"
  proof -
    from k have rv: "s_resolution v \<noteq> None" by (auto simp: digits_key_def split: option.splits)
    from g[OF nt v rv] obtain s' where sel: "select_stream streams False resolution = Inr s'"
      by blast
    from nt sel have "first (desc (order_by s_resolution ?F)) = Some s'"
      by (simp add: select_stream_auto split: option.splits)
    from first_in[OF this] have rs: "s_resolution s' \<noteq> None"
      by (simp add: desc_def order_by_subset)
    note as = a[OF sel]
    have num: "\<forall>t \<in> set streams. is_progressive t \<and> subtype t = ''mp4'' \<and> s_resolution t \<noteq> None
           \<longrightarrow> digits_key s_resolution t \<noteq> None"
      using u k by fastforce
    from d[OF nt num sel v k] obtain m where m: "digits_key s_resolution s' = Some m" "k \<le> m"
      by blast
    have "s' = v"
    proof (rule ccontr)
      assume "s' \<noteq> v"
      with u as rs obtain n where "digits_key s_resolution s' = Some n" "n < k" by blast
      with m show False by simp
    qed
    with sel show ?thesis by simp
  qed
  have h1: "\<exists>s'. select_stream (yt_streams env) False resolution = Inr s'
           \<and> dl_log w' = dl_log w @ [(s', output_dir,
                case filename of
                  None \<Rightarrow> default_filename s'
                | Some f \<Rightarrow> if f \<noteq> [] then f else default_filename s')]
           \<and> p = Path (dl_destination env output_dir
                (case filename of
                   None \<Rightarrow> default_filename s'
                 | Some f \<Rightarrow> if f \<noteq> [] then f else default_filename s'))"
    if "?P = (Ok p, w')"
    using pytube_downloads_pick[OF that] by auto
  have h2: "dl_log w' = dl_log w
        \<or> (\<exists>s'. select_stream (yt_streams env) False resolution = Inr s'
             \<and> dl_log w' = dl_log w @ [(s', output_dir,
                  case filename of
                    None \<Rightarrow> default_filename s'
                  | Some f \<Rightarrow> if f \<noteq> [] then f else default_filename s')])"
    if "?P = (res, w')"
    using pytube_downloads_pick[OF that] by auto
  have j: "fst ?P = Ok (Path (dl_destination env output_dir
                  (case filename of
                     None \<Rightarrow> default_filename s
                   | Some f \<Rightarrow> if f \<noteq> [] then f else default_filename s)))"
    if "mkdir_error env = None" "yt_error env = None" "dl_error env = None"
      "control \<longrightarrow> snd (ctl w) = [] \<and> \<not> cancel_event (fst (ctl w)) \<and> resume_event (fst (ctl w))"
      "select_stream (yt_streams env) False resolution = Inr s"
      "progress_callback \<or> filesize s \<noteq> 0"
    using that(1,2,4,5,6,3) by (rule pytube_succeeds)
  show ?thesis
    apply (intro conjI impI)
    subgoal by (rule a[THEN conjunct1])
    subgoal by (rule a[THEN conjunct2, THEN conjunct1])
    subgoal by (rule a[THEN conjunct2, THEN conjunct2])
    subgoal by (rule b[THEN conjunct1])
    subgoal by (rule b[THEN conjunct2])
    subgoal by (rule c)
    subgoal using d by blast
    subgoal by (rule e)
    subgoal by (rule f1)
    subgoal by (rule f2)
    subgoal by (rule g)
    subgoal by (rule g2)
    subgoal by (rule g3)
    subgoal by (rule h1)
    subgoal by (rule h2)
    subgoal by (rule j)
    done
qed

theorem select_stream_video_witness:
  "select_stream [sample_stream 18 ''360p'', sample_stream 22 ''720p'', sample_stream 37 ''1080p'']
       False (Some ''720p'') = Inr (sample_stream 22 ''720p'')
   \<and> is_progressive (sample_stream 22 ''720p'') \<and> subtype (sample_stream 22 ''720p'') = ''mp4''
   \<and> ''4320p'' \<noteq> []
   \<and> s_resolution (sample_stream 18 ''360p'') \<noteq> Some ''4320p''
   \<and> s_resolution (sample_stream 22 ''720p'') \<noteq> Some ''4320p''
   \<and> s_resolution (sample_stream 37 ''1080p'') \<noteq> Some ''4320p''
   \<and> select_stream [sample_stream 18 ''360p'', sample_stream 22 ''720p'', sample_stream 37 ''1080p'']
       False (Some ''4320p'')
       = Inl (ValueError ''Resolution 4320p not available. Use --resolution to pick another.'')
   \<and> fst (download_with_pytube
        (sample_env\<lparr>yt_streams :=
           [sample_stream 18 ''360p'', sample_stream 22 ''720p'', sample_stream 37 ''1080p'']\<rparr>)
        ''u'' ''out'' None False (Some ''4320p'') True True sample_world)
       = Err (ValueError ''Resolution 4320p not available. Use --resolution to pick another.'')
   \<and> \<not> truthy None
   \<and> select_stream [sample_stream 18 ''360p'', sample_stream 37 ''1080p'', sample_stream 22 ''720p'']
       False None = Inr (sample_stream 37 ''1080p'')
   \<and> digits_key s_resolution (sample_stream 22 ''720p'') = Some 720
   \<and> digits_key s_resolution (sample_stream 37 ''1080p'') = Some 1080
   \<and> (\<exists>m. digits_key s_resolution (sample_stream 37 ''1080p'') = Some m \<and> 720 \<le> m)
   \<and> select_stream [sample_stream 18 ''360p'', sample_stream 22 ''720p'', sample_stream 37 ''1080p'']
       False (Some ''360p'') = Inr (sample_stream 18 ''360p'')
   \<and> (\<exists>s'. select_stream
          [sample_stream 18 ''360p'', sample_stream 37 ''1080p'', sample_stream 22 ''720p'']
          False (Some []) = Inr s')
   \<and> select_stream [(sample_stream 37 ''1080p'')\<lparr>is_progressive := False\<rparr>] False None
       = Inl (ValueError ''No progressive MP4 streams available for this video.'')
   \<and> select_stream [sample_stream 37 ''1080p'', sample_stream 18 ''360p'', sample_stream 22 ''720p'']
       False None = Inr (sample_stream 37 ''1080p'')
   \<and> fst (download_with_pytube
        (sample_env\<lparr>yt_streams :=
           [sample_stream 18 ''360p'', sample_stream 22 ''720p'', sample_stream 37 ''1080p''],
           dl_chunks := [500, 0]\<rparr>)
        ''u'' ''out'' None False (Some ''720p'') True True sample_world)
       = Ok (Path ''out/video.mp4'')
   \<and> dl_log (snd (download_with_pytube
        (sample_env\<lparr>yt_streams :=
           [sample_stream 18 ''360p'', sample_stream 22 ''720p'', sample_stream 37 ''1080p''],
           dl_chunks := [500, 0]\<rparr>)
        ''u'' ''out'' None False (Some ''720p'') True True sample_world))
       = [(sample_stream 22 ''720p'', ''out'', ''video.mp4'')]
   \<and> dl_log (snd (download_with_pytube
        (sample_env\<lparr>yt_streams :=
           [sample_stream 18 ''360p'', sample_stream 22 ''720p'', sample_stream 37 ''1080p'']\<rparr>)
        ''u'' ''out'' None False (Some ''4320p'') True True sample_world)) = []
   \<and> s_resolution (sample_stream 22 ''720p'') = Some ''720p''
   \<and> sample_stream 22 ''720p''
       = hd (filter_res ''720p'' (filter_progressive_mp4
           [sample_stream 18 ''360p'', sample_stream 22 ''720p'', sample_stream 37 ''1080p'']))"
proof -
  let ?ss = "[sample_stream 18 ''360p'', sample_stream 22 ''720p'', sample_stream 37 ''1080p'']"
  let ?tt = "[sample_stream 18 ''360p'', sample_stream 37 ''1080p'', sample_stream 22 ''720p'']"
  let ?uu = "[sample_stream 37 ''1080p'', sample_stream 18 ''360p'', sample_stream 22 ''720p'']"
  let ?np = "[(sample_stream 37 ''1080p'')\<lparr>is_progressive := False\<rparr>]"
  let ?env = "sample_env\<lparr>yt_streams := ?ss\<rparr>"
  let ?env2 = "sample_env\<lparr>yt_streams := ?ss, dl_chunks := [500, 0]\<rparr>"
  let ?msg = "''Resolution 4320p not available. Use --resolution to pick another.''"
  let ?P = "download_with_pytube ?env2 ''u'' ''out'' None False (Some ''720p'') True True
              sample_world"
  let ?Q = "download_with_pytube ?env ''u'' ''out'' None False (Some ''4320p'') True True
              sample_world"
  have s1: "select_stream ?ss False (Some ''720p'') = Inr (sample_stream 22 ''720p'')"
    by code_simp
  have no: "\<forall>t \<in> set ?ss. is_progressive t \<and> subtype t = ''mp4'' \<longrightarrow> s_resolution t \<noteq> Some ''4320p''"
    by (simp add: sample_stream_def)
  have s3: "select_stream ?tt False None = Inr (sample_stream 37 ''1080p'')" by code_simp
  have k: "digits_key s_resolution (sample_stream 22 ''720p'') = Some 720"
    "digits_key s_resolution (sample_stream 37 ''1080p'') = Some 1080"
    "digits_key s_resolution (sample_stream 18 ''360p'') = Some 360"
    by code_simp+
  have t: "\<not> truthy None" by (simp add: truthy_def)
  have t': "\<not> truthy (Some [])" by (simp add: truthy_def)
  have env: "mkdir_error ?env = None" "yt_error ?env = None" "yt_streams ?env = ?ss"
    by (simp_all add: sample_env_def)
  have env2: "mkdir_error ?env2 = None" "yt_error ?env2 = None" "yt_streams ?env2 = ?ss"
    "dl_error ?env2 = None" "dl_destination ?env2 = (\<lambda>d f. d @ ''/'' @ f)"
    by (simp_all add: sample_env_def)
  have ctl: "\<not> cancel_event (fst (controller_turn (ctl sample_world)))"
    by (simp add: sample_world_def WorkerControl_init_def)
  have quiet: "snd (ctl sample_world) = [] \<and> \<not> cancel_event (fst (ctl sample_world))
                 \<and> resume_event (fst (ctl sample_world))"
    by (simp add: sample_world_def WorkerControl_init_def)
  have ne: "''4320p'' \<noteq> []" by simp
  have a: "is_progressive (sample_stream 22 ''720p'') \<and> subtype (sample_stream 22 ''720p'') = ''mp4''"
    using select_stream_video [THEN conjunct1, rule_format, OF s1] by simp
  have c: "select_stream ?ss False (Some ''4320p'') = Inl (ValueError ?msg)"
    using select_stream_video [THEN conjunct2, THEN conjunct2, THEN conjunct1, rule_format, OF ne, of ?ss] no
    by simp
  have c': "select_stream (yt_streams ?env) False (Some ''4320p'') = Inl (ValueError ?msg)"
    using c env(3) by simp
  have e: "fst ?Q = Err (ValueError ?msg)"
    by (rule select_stream_video [THEN conjunct2, THEN conjunct2, THEN conjunct2, THEN conjunct2,
          THEN conjunct1, rule_format, OF env(1) env(2) ctl c'])
  have num: "\<forall>t \<in> set ?tt. is_progressive t \<and> subtype t = ''mp4'' \<and> s_resolution t \<noteq> None
           \<longrightarrow> digits_key s_resolution t \<noteq> None"
    by (simp add: k)
  have tin: "sample_stream 22 ''720p'' \<in> set ?tt" by simp
  have d: "\<exists>m. digits_key s_resolution (sample_stream 37 ''1080p'') = Some m \<and> 720 \<le> m"
    using select_stream_video [where resolution = None and streams = ?tt and s = "sample_stream 37 ''1080p''",
        THEN conjunct2, THEN conjunct2, THEN conjunct2, THEN conjunct1]
      t num s3 tin a k(1)
    by blast
  have r3: "s_resolution (sample_stream 18 ''360p'') \<noteq> Some ''4320p''"
    "s_resolution (sample_stream 22 ''720p'') \<noteq> Some ''4320p''"
    "s_resolution (sample_stream 37 ''1080p'') \<noteq> Some ''4320p''"
    by (simp_all add: sample_stream_def)
  have p360: "is_progressive (sample_stream 18 ''360p'') \<and> subtype (sample_stream 18 ''360p'') = ''mp4''"
    "s_resolution (sample_stream 18 ''360p'') = Some ''360p''"
    "sample_stream 18 ''360p'' \<in> set ?ss" "''360p'' \<noteq> []"
    by (simp_all add: sample_stream_def)
  have u360: "\<forall>u \<in> set ?ss. is_progressive u \<and> subtype u = ''mp4'' \<and> s_resolution u = Some ''360p''
                \<longrightarrow> u = sample_stream 18 ''360p''"
    by (simp add: sample_stream_def)
  have f: "select_stream ?ss False (Some ''360p'') = Inr (sample_stream 18 ''360p'')"
    using select_stream_video [where r = "''360p''" and streams = ?ss
        and v = "sample_stream 18 ''360p''",
        THEN conjunct2, THEN conjunct2, THEN conjunct2, THEN conjunct2, THEN conjunct2,
        THEN conjunct1] p360 u360
    by blast
  have p1080: "is_progressive (sample_stream 37 ''1080p'') \<and> subtype (sample_stream 37 ''1080p'') = ''mp4''"
    "s_resolution (sample_stream 37 ''1080p'') \<noteq> None"
    "sample_stream 37 ''1080p'' \<in> set ?tt" "sample_stream 37 ''1080p'' \<in> set ?uu"
    by (simp_all add: sample_stream_def)
  have g: "\<exists>s'. select_stream ?tt False (Some []) = Inr s'"
    using select_stream_video [where resolution = "Some []" and streams = ?tt
        and v = "sample_stream 37 ''1080p''",
        THEN conjunct2, THEN conjunct2, THEN conjunct2, THEN conjunct2, THEN conjunct2,
        THEN conjunct2, THEN conjunct1] t' p1080
    by blast
  have nonp: "\<forall>t \<in> set ?np. is_progressive t \<and> subtype t = ''mp4'' \<longrightarrow> s_resolution t = None"
    by simp
  have g2: "select_stream ?np False None
       = Inl (ValueError ''No progressive MP4 streams available for this video.'')"
    using select_stream_video [where resolution = None and streams = ?np,
        THEN conjunct2, THEN conjunct2, THEN conjunct2, THEN conjunct2, THEN conjunct2,
        THEN conjunct2, THEN conjunct2, THEN conjunct1] t nonp
    by blast
  have below: "\<forall>u \<in> set ?uu. is_progressive u \<and> subtype u = ''mp4'' \<and> s_resolution u \<noteq> None
              \<and> u \<noteq> sample_stream 37 ''1080p'' \<longrightarrow>
           (\<exists>n. digits_key s_resolution u = Some n \<and> n < 1080)"
    by (simp add: k)
  have g3: "select_stream ?uu False None = Inr (sample_stream 37 ''1080p'')"
    using select_stream_video [where resolution = None and streams = ?uu
        and v = "sample_stream 37 ''1080p''" and k = 1080,
        THEN conjunct2, THEN conjunct2, THEN conjunct2, THEN conjunct2, THEN conjunct2,
        THEN conjunct2, THEN conjunct2, THEN conjunct2, THEN conjunct1] t p1080 k(2) below
    by blast
  have s1': "select_stream (yt_streams ?env2) False (Some ''720p'') = Inr (sample_stream 22 ''720p'')"
    using s1 env2(3) by simp
  have fs: "filesize (sample_stream 22 ''720p'') \<noteq> 0" by (simp add: sample_stream_def)
  have j: "fst ?P = Ok (Path ''out/video.mp4'')"
    using select_stream_video [where env = ?env2 and resolution = "Some ''720p''"
        and control = True and w = sample_world and s = "sample_stream 22 ''720p''"
        and progress_callback = True and filename = None and output_dir = "''out''"
        and url = "''u''",
        THEN conjunct2, THEN conjunct2, THEN conjunct2, THEN conjunct2, THEN conjunct2,
        THEN conjunct2, THEN conjunct2, THEN conjunct2, THEN conjunct2, THEN conjunct2,
        THEN conjunct2] env2 quiet s1'
    by (simp add: sample_stream_def)
  have P: "?P = (Ok (Path ''out/video.mp4''), snd ?P)" using j by (metis prod.collapse)
  have h1: "dl_log (snd ?P) = [(sample_stream 22 ''720p'', ''out'', ''video.mp4'')]"
    using select_stream_video [where env = ?env2 and resolution = "Some ''720p''"
        and control = True and w = sample_world
        and progress_callback = True and filename = None and output_dir = "''out''"
        and url = "''u''" and p = "Path ''out/video.mp4''" and w' = "snd ?P",
        THEN conjunct2, THEN conjunct2, THEN conjunct2, THEN conjunct2, THEN conjunct2,
        THEN conjunct2, THEN conjunct2, THEN conjunct2, THEN conjunct2, THEN conjunct1] P s1'
    by (auto simp: sample_world_def sample_stream_def)
  have Q: "?Q = (Err (ValueError ?msg), snd ?Q)" using e by (metis prod.collapse)
  have h2: "dl_log (snd ?Q) = []"
    using select_stream_video [where env = ?env and resolution = "Some ''4320p''"
        and control = True and w = sample_world
        and progress_callback = True and filename = None and output_dir = "''out''"
        and url = "''u''" and res = "Err (ValueError ?msg)" and w' = "snd ?Q",
        THEN conjunct2, THEN conjunct2, THEN conjunct2, THEN conjunct2, THEN conjunct2,
        THEN conjunct2, THEN conjunct2, THEN conjunct2, THEN conjunct2, THEN conjunct2,
        THEN conjunct1] Q c'
    by (auto simp: sample_world_def)
  have ne7: "''720p'' \<noteq> []" by simp
  have b: "s_resolution (sample_stream 22 ''720p'') = Some ''720p''
           \<and> sample_stream 22 ''720p'' = hd (filter_res ''720p'' (filter_progressive_mp4 ?ss))"
    by (rule select_stream_video [THEN conjunct2, THEN conjunct1, rule_format, OF ne7 s1])
  from a c e s1 s3 k(1,2) t r3 d f g g2 g3 j h1 h2 b show ?thesis by simp
qed

section \<open>Cancellation inside the adapters\<close>

lemma run_chunks_append:
  "run_chunks H (pre @ rest) w =
     (case run_chunks H pre w of
        (Ok u, w1) \<Rightarrow> run_chunks H rest w1
      | (Err e, w1) \<Rightarrow> (Err e, w1)
      | (Hang, w1) \<Rightarrow> (Hang, w1))"
proof (induction pre arbitrary: w)
  case Nil
  then show ?case by simp
next
  case (Cons b pre)
  obtain r1 w1 where h: "H b w = (r1, w1)" by (cases "H b w")
  with Cons.IH[of w1] show ?case by (cases r1) simp_all
qed

lemma run_hooks_append:
  "run_hooks env progress_callback control (pre @ rest) s =
     (case run_hooks env progress_callback control pre s of
        (Ok u, s1) \<Rightarrow> run_hooks env progress_callback control rest s1
      | (Err e, s1) \<Rightarrow> (Err e, s1)
      | (Hang, s1) \<Rightarrow> (Hang, s1))"
proof (induction pre arbitrary: s)
  case Nil
  then show ?case by simp
next
  case (Cons st pre)
  obtain r1 s1 where h: "hook env progress_callback control st s = (r1, s1)"
    by (cases "hook env progress_callback control st s")
  with Cons.IH[of s1] show ?case by (cases r1) simp_all
qed

text \<open>An exception raised at a checkpoint inside a handler or hook leaves the library call.\<close>

lemma handler_raises:
  "checkpoint control w = (Err e, w1) \<Longrightarrow>
     make_pytube_progress_handler True control s b w = (Err e, w1)"
  by (simp add: make_pytube_progress_handler_def)

lemma stream_download_raises:
  assumes "dl_chunks env = pre @ b # post"
    and "run_chunks (make_pytube_progress_handler True control s) pre
           (w\<lparr>dl_log := dl_log w @ [(s, output_path, fname)]\<rparr>) = (Ok (), w3)"
    and "checkpoint control w3 = (Err e, w4)"
  shows "stream_download env (make_pytube_progress_handler True control) s output_path fname w
           = (Err e, w4)"
  using assms handler_raises[OF assms(3), of s b]
  by (simp add: stream_download_def run_chunks_append)

lemma ydl_download_raises:
  assumes "ydl_statuses env = pre @ st # post"
    and "run_hooks env progress_callback control pre
           (download_info, w\<lparr>files := files w \<union> set (ydl_files env)\<rparr>) = (Ok (), i4, w4)"
    and "checkpoint control w4 = (Err e, w5)"
  shows "ydl_download env progress_callback control (download_info, w) = (Err e, i4, w5)"
proof -
  have "Err e \<noteq> Ok ()" by simp
  from hook_not_Ok[OF assms(3) this, of env progress_callback st i4]
  show ?thesis using assms(1,2) by (simp add: ydl_download_def run_hooks_append)
qed

text \<open>Where the adapters check the control, and what they do when a check raises.\<close>

lemma checkpoint_Err:
  assumes "checkpoint control w = (Err e, w1)"
  shows "e = DownloadCancelled" and "control"
proof -
  from checkpoint_res[of control w] assms show "e = DownloadCancelled" by simp
  from assms show "control" by (cases control) (simp_all add: checkpoint_def)
qed

lemma raise_if_cancelled_c_Err:
  "raise_if_cancelled_c w = (Err e, w1) \<Longrightarrow> e = DownloadCancelled"
  using raise_if_cancelled_c_res[of w] by simp

lemma pytube_cancelled_at_entry:
  assumes "mkdir_error env = None"
    and "raise_if_cancelled_c (w\<lparr>files := insert (Path output_dir) (files w)\<rparr>) = (Err e, w1)"
  shows "download_with_pytube env url output_dir filename audio_only resolution
           progress_callback True w = (Err DownloadCancelled, w1)"
proof -
  have ne: "Err e \<noteq> Ok ()" by simp
  have g: "(if True then raise_if_cancelled_c (w\<lparr>files := insert (Path output_dir) (files w)\<rparr>)
          else (Ok (), w\<lparr>files := insert (Path output_dir) (files w)\<rparr>)) = (Err e, w1)"
    using assms(2) by simp
  from pytube_first_check[OF assms(1) g ne] raise_if_cancelled_c_Err[OF assms(2)]
  show ?thesis by simp
qed

lemma pytube_cancelled_before_download:
  assumes "mkdir_error env = None"
    and "raise_if_cancelled_c (w\<lparr>files := insert (Path output_dir) (files w)\<rparr>) = (Ok (), w1)"
    and "yt_error env = None"
    and "select_stream (yt_streams env) audio_only resolution = Inr s"
    and "checkpoint True w1 = (Err e, w2)"
  shows "download_with_pytube env url output_dir filename audio_only resolution
           progress_callback True w = (Err DownloadCancelled, w2)"
proof -
  have ne: "Err e \<noteq> Ok ()" by simp
  have g: "(if True then raise_if_cancelled_c (w\<lparr>files := insert (Path output_dir) (files w)\<rparr>)
          else (Ok (), w\<lparr>files := insert (Path output_dir) (files w)\<rparr>)) = (Ok (), w1)"
    using assms(2) by simp
  from pytube_second_check[OF assms(1) g assms(3,4,5) ne] checkpoint_Err(1)[OF assms(5)]
  show ?thesis by simp
qed

lemma pytube_cancelled_in_download:
  assumes "mkdir_error env = None"
    and "raise_if_cancelled_c (w\<lparr>files := insert (Path output_dir) (files w)\<rparr>) = (Ok (), w1)"
    and "yt_error env = None"
    and "select_stream (yt_streams env) audio_only resolution = Inr s"
    and "checkpoint True w1 = (Ok (), w2)"
    and "dl_chunks env = pre @ b # post"
    and "run_chunks (make_pytube_progress_handler True True s) pre
           (w2\<lparr>dl_log := dl_log w2 @ [(s, output_dir,
               case filename of
                 None \<Rightarrow> default_filename s
               | Some f \<Rightarrow> if f \<noteq> [] then f else default_filename s)]\<rparr>) = (Ok (), w3)"
    and "checkpoint True w3 = (Err e, w4)"
  shows "download_with_pytube env url output_dir filename audio_only resolution
           True True w = (Err DownloadCancelled, w4)"
proof -
  have g: "(if True then raise_if_cancelled_c (w\<lparr>files := insert (Path output_dir) (files w)\<rparr>)
          else (Ok (), w\<lparr>files := insert (Path output_dir) (files w)\<rparr>)) = (Ok (), w1)"
    using assms(2) by simp
  note d = stream_download_raises[OF assms(6,7,8)]
  from pytube_download[OF assms(1) g assms(3,4,5) d] checkpoint_Err(1)[OF assms(8)]
  show ?thesis by simp
qed

lemma ytdlp_cancelled_before_download:
  assumes "mkdir_error env = None"
    and "determine_template filename audio_only = Inr (template_name, final_extension)"
    and "install_cookies env (mkdtemp env) cookies
           ((initial_ydl_opts env template_name final_extension audio_only resolution)
              \<lparr>paths := Some (output_dir, mkdtemp env)\<rparr>)
           (w\<lparr>files := insert (Path (mkdtemp env)) (insert (Path output_dir) (files w))\<rparr>)
           = (Ok opts1, wi)"
    and "ydl_init_error env = None"
    and "raise_if_cancelled_c (wi\<lparr>ydl_log := ydl_log wi @ [opts1]\<rparr>) = (Err e, w3)"
  shows "download_with_ytdlp env url output_dir filename audio_only resolution
           progress_callback True cookies w = (Err DownloadCancelled, cleanup (mkdtemp env) w3)"
proof -
  from ytdlp_session_unfold[where control = True and progress_callback = progress_callback, OF assms(3)] assms(4,5)
  have "ytdlp_session env output_dir (mkdtemp env) progress_callback True cookies
           (initial_ydl_opts env template_name final_extension audio_only resolution)
           (w\<lparr>files := insert (Path (mkdtemp env)) (insert (Path output_dir) (files w))\<rparr>)
         = (Err e, None, w3)" by simp
  from download_with_ytdlp_unfold[OF assms(1,2) this] raise_if_cancelled_c_Err[OF assms(5)]
  show ?thesis by simp
qed

lemma ytdlp_cancelled_in_download:
  assumes "mkdir_error env = None"
    and "determine_template filename audio_only = Inr (template_name, final_extension)"
    and "install_cookies env (mkdtemp env) cookies
           ((initial_ydl_opts env template_name final_extension audio_only resolution)
              \<lparr>paths := Some (output_dir, mkdtemp env)\<rparr>)
           (w\<lparr>files := insert (Path (mkdtemp env)) (insert (Path output_dir) (files w))\<rparr>)
           = (Ok opts1, wi)"
    and "ydl_init_error env = None"
    and "raise_if_cancelled_c (wi\<lparr>ydl_log := ydl_log wi @ [opts1]\<rparr>) = (Ok (), w3)"
    and "ydl_statuses env = pre @ st # post"
    and "run_hooks env progress_callback True pre
           (None, w3\<lparr>files := files w3 \<union> set (ydl_files env)\<rparr>) = (Ok (), info, w4)"
    and "checkpoint True w4 = (Err e, w5)"
  shows "download_with_ytdlp env url output_dir filename audio_only resolution
           progress_callback True cookies w = (Err DownloadCancelled, cleanup (mkdtemp env) w5)"
proof -
  note d = ydl_download_raises[OF assms(6,7,8)]
  from ytdlp_session_unfold[where control = True and progress_callback = progress_callback, OF assms(3)] assms(4,5) d
  have "ytdlp_session env output_dir (mkdtemp env) progress_callback True cookies
           (initial_ydl_opts env template_name final_extension audio_only resolution)
           (w\<lparr>files := insert (Path (mkdtemp env)) (insert (Path output_dir) (files w))\<rparr>)
         = (Err e, info, w5)" by simp
  from download_with_ytdlp_unfold[OF assms(1,2) this] checkpoint_Err(1)[OF assms(8)]
  show ?thesis by simp
qed

text \<open>
  C3.  A cancellation is neither swallowed nor wrapped, by the adapters or by
  \<^verbatim>\<open>download_video\<close>.

  \<^verbatim>\<open>download_video\<close>: when the adapter it calls raises \<^verbatim>\<open>DownloadCancelled\<close> (the yt-dlp adapter
  called first, the pytube adapter called first, or the yt-dlp adapter called after a
  pytube failure), it raises \<^verbatim>\<open>DownloadCancelled\<close>, leaves the world as that adapter left it
  and calls no further adapter.  Every other exception that reaches the caller is a
  \<^verbatim>\<open>DownloadError\<close> with a message.

  The adapters: \<^verbatim>\<open>control.raise_if_cancelled()\<close> and the checkpoint raise nothing but
  \<^verbatim>\<open>DownloadCancelled\<close>, and only when a control is passed.  When the checkpoint raises, the
  pytube progress handler and the yt-dlp hook raise the same, before anything else.  The
  pytube adapter checks the control on entry, before the download, and in the handler at
  every chunk; the yt-dlp adapter before the download and in the hook at every status.
  Whichever of these checks raises, the adapter raises \<^verbatim>\<open>DownloadCancelled\<close> with the world
  as the check left it (the yt-dlp adapter having removed its temporary directory), and
  \<^verbatim>\<open>download_video\<close>, calling that adapter first, raises \<^verbatim>\<open>DownloadCancelled\<close> and calls no
  other adapter.
\<close>

theorem cancelled_propagates_unchanged:
  "(audio_only \<or> truthy cookies \<longrightarrow>
      download_with_ytdlp env url output_dir filename audio_only resolution
        progress_callback control cookies w = (Err DownloadCancelled, w1) \<longrightarrow>
      download_video env url output_dir filename audio_only resolution
        progress_callback control cookies w = (Err DownloadCancelled, w1, [Ytdlp]))
   \<and> (\<not> (audio_only \<or> truthy cookies) \<longrightarrow>
      download_with_pytube env url output_dir filename audio_only resolution
        progress_callback control w = (Err DownloadCancelled, w1) \<longrightarrow>
      download_video env url output_dir filename audio_only resolution
        progress_callback control cookies w = (Err DownloadCancelled, w1, [Pytube]))
   \<and> (\<not> (audio_only \<or> truthy cookies) \<longrightarrow>
      download_with_pytube env url output_dir filename audio_only resolution
        progress_callback control w = (Err e1, w1) \<longrightarrow> e1 \<noteq> DownloadCancelled \<longrightarrow>
      download_with_ytdlp env url output_dir filename audio_only resolution
        progress_callback control cookies
        (w1\<lparr>console := console w1 @ [PytubeFailed (str_exn e1)]\<rparr>) = (Err DownloadCancelled, w2) \<longrightarrow>
      download_video env url output_dir filename audio_only resolution
        progress_callback control cookies w = (Err DownloadCancelled, w2, [Pytube, Ytdlp]))
   \<and> (fst (download_video env url output_dir filename audio_only resolution
        progress_callback control cookies w) = Err e \<longrightarrow>
      e = DownloadCancelled \<or> (\<exists>m. e = DownloadError m))
   \<and> (raise_if_cancelled_c w = (Err e, w1) \<longrightarrow> e = DownloadCancelled)
   \<and> (checkpoint control w = (Err e, w1) \<longrightarrow> e = DownloadCancelled \<and> control)
   \<and> (checkpoint control w = (Err e, w1) \<longrightarrow>
        make_pytube_progress_handler True control s b w = (Err e, w1)
        \<and> hook env progress_callback control st (info, w) = (Err e, info, w1))
   \<and> (mkdir_error env = None \<longrightarrow>
      raise_if_cancelled_c (w\<lparr>files := insert (Path output_dir) (files w)\<rparr>) = (Err e, w1) \<longrightarrow>
      download_with_pytube env url output_dir filename audio_only resolution
        progress_callback True w = (Err DownloadCancelled, w1)
      \<and> (\<not> (audio_only \<or> truthy cookies) \<longrightarrow>
          download_video env url output_dir filename audio_only resolution
            progress_callback True cookies w = (Err DownloadCancelled, w1, [Pytube])))
   \<and> (mkdir_error env = None \<longrightarrow>
      raise_if_cancelled_c (w\<lparr>files := insert (Path output_dir) (files w)\<rparr>) = (Ok (), w1) \<longrightarrow>
      yt_error env = None \<longrightarrow>
      select_stream (yt_streams env) audio_only resolution = Inr s \<longrightarrow>
      checkpoint True w1 = (Err e, w2) \<longrightarrow>
      download_with_pytube env url output_dir filename audio_only resolution
        progress_callback True w = (Err DownloadCancelled, w2)
      \<and> (\<not> (audio_only \<or> truthy cookies) \<longrightarrow>
          download_video env url output_dir filename audio_only resolution
            progress_callback True cookies w = (Err DownloadCancelled, w2, [Pytube])))
   \<and> (mkdir_error env = None \<longrightarrow>
      raise_if_cancelled_c (w\<lparr>files := insert (Path output_dir) (files w)\<rparr>) = (Ok (), w1) \<longrightarrow>
      yt_error env = None \<longrightarrow>
      select_stream (yt_streams env) audio_only resolution = Inr s \<longrightarrow>
      checkpoint True w1 = (Ok (), w2) \<longrightarrow>
      dl_chunks env = pre @ b # post \<longrightarrow>
      run_chunks (make_pytube_progress_handler True True s) pre
        (w2\<lparr>dl_log := dl_log w2 @ [(s, output_dir,
            case filename of
              None \<Rightarrow> default_filename s
            | Some f \<Rightarrow> if f \<noteq> [] then f else default_filename s)]\<rparr>) = (Ok (), w3) \<longrightarrow>
      checkpoint True w3 = (Err e, w4) \<longrightarrow>
      download_with_pytube env url output_dir filename audio_only resolution
        True True w = (Err DownloadCancelled, w4)
      \<and> (\<not> (audio_only \<or> truthy cookies) \<longrightarrow>
          download_video env url output_dir filename audio_only resolution
            True True cookies w = (Err DownloadCancelled, w4, [Pytube])))
   \<and> (mkdir_error env = None \<longrightarrow>
      determine_template filename audio_only = Inr (template_name, final_extension) \<longrightarrow>
      install_cookies env (mkdtemp env) cookies
        ((initial_ydl_opts env template_name final_extension audio_only resolution)
           \<lparr>paths := Some (output_dir, mkdtemp env)\<rparr>)
        (w\<lparr>files := insert (Path (mkdtemp env)) (insert (Path output_dir) (files w))\<rparr>)
        = (Ok opts1, wi) \<longrightarrow>
      ydl_init_error env = None \<longrightarrow>
      raise_if_cancelled_c (wi\<lparr>ydl_log := ydl_log wi @ [opts1]\<rparr>) = (Err e, w3) \<longrightarrow>
      download_with_ytdlp env url output_dir filename audio_only resolution
        progress_callback True cookies w = (Err DownloadCancelled, cleanup (mkdtemp env) w3)
      \<and> (audio_only \<or> truthy cookies \<longrightarrow>
          download_video env url output_dir filename audio_only resolution
            progress_callback True cookies w
            = (Err DownloadCancelled, cleanup (mkdtemp env) w3, [Ytdlp])))
   \<and> (mkdir_error env = None \<longrightarrow>
      determine_template filename audio_only = Inr (template_name, final_extension) \<longrightarrow>
      install_cookies env (mkdtemp env) cookies
        ((initial_ydl_opts env template_name final_extension audio_only resolution)
           \<lparr>paths := Some (output_dir, mkdtemp env)\<rparr>)
        (w\<lparr>files := insert (Path (mkdtemp env)) (insert (Path output_dir) (files w))\<rparr>)
        = (Ok opts1, wi) \<longrightarrow>
      ydl_init_error env = None \<longrightarrow>
      raise_if_cancelled_c (wi\<lparr>ydl_log := ydl_log wi @ [opts1]\<rparr>) = (Ok (), w3) \<longrightarrow>
      ydl_statuses env = before @ st # after \<longrightarrow>
      run_hooks env progress_callback True before
        (None, w3\<lparr>files := files w3 \<union> set (ydl_files env)\<rparr>) = (Ok (), info, w4) \<longrightarrow>
      checkpoint True w4 = (Err e, w5) \<longrightarrow>
      download_with_ytdlp env url output_dir filename audio_only resolution
        progress_callback True cookies w = (Err DownloadCancelled, cleanup (mkdtemp env) w5)
      \<and> (audio_only \<or> truthy cookies \<longrightarrow>
          download_video env url output_dir filename audio_only resolution
            progress_callback True cookies w
            = (Err DownloadCancelled, cleanup (mkdtemp env) w5, [Ytdlp])))"
proof -
  have dv_y: "download_video env url output_dir filename audio_only resolution
        progress_callback control cookies w = (Err DownloadCancelled, w1, [Ytdlp])"
    if "audio_only \<or> truthy cookies"
      "download_with_ytdlp env url output_dir filename audio_only resolution
        progress_callback control cookies w = (Err DownloadCancelled, w1)"
    for control progress_callback w1
    using that by (auto simp: download_video_def)
  have dv_p: "download_video env url output_dir filename audio_only resolution
        progress_callback control cookies w = (Err DownloadCancelled, w1, [Pytube])"
    if "\<not> (audio_only \<or> truthy cookies)"
      "download_with_pytube env url output_dir filename audio_only resolution
        progress_callback control w = (Err DownloadCancelled, w1)"
    for control progress_callback w1
    using that by (simp add: download_video_def pytube_then_ytdlp_def)
  have dv_py: "download_video env url output_dir filename audio_only resolution
        progress_callback control cookies w = (Err DownloadCancelled, w2, [Pytube, Ytdlp])"
    if "\<not> (audio_only \<or> truthy cookies)"
      "download_with_pytube env url output_dir filename audio_only resolution
        progress_callback control w = (Err e1, w1)" "e1 \<noteq> DownloadCancelled"
      "download_with_ytdlp env url output_dir filename audio_only resolution
        progress_callback control cookies
        (w1\<lparr>console := console w1 @ [PytubeFailed (str_exn e1)]\<rparr>) = (Err DownloadCancelled, w2)"
    using that by (simp add: download_video_def pytube_then_ytdlp_def)
  have dv_e: "e = DownloadCancelled \<or> (\<exists>m. e = DownloadError m)"
    if fe: "fst (download_video env url output_dir filename audio_only resolution
        progress_callback control cookies w) = Err e"
  proof (cases "audio_only \<or> truthy cookies")
    case True
    show ?thesis
    proof (cases "download_with_ytdlp env url output_dir filename audio_only resolution
                  progress_callback control cookies w")
      case (Pair r w')
      with True fe show ?thesis
        by (cases r) (auto simp: download_video_def split: if_splits)
    qed
  next
    case False
    show ?thesis
    proof (cases "download_with_pytube env url output_dir filename audio_only resolution
             progress_callback control w")
      case p: (Pair r w')
      show ?thesis
      proof (cases r)
        case (Ok x)
        with p False fe show ?thesis by (simp add: download_video_def pytube_then_ytdlp_def)
      next
        case Hang
        with p False fe show ?thesis by (simp add: download_video_def pytube_then_ytdlp_def)
      next
        case (Err x)
        show ?thesis
        proof (cases "download_with_ytdlp env url output_dir filename audio_only resolution
                  progress_callback control cookies
                  (w'\<lparr>console := console w' @ [PytubeFailed (str_exn x)]\<rparr>)")
          case q: (Pair r2 w'')
          with p Err False fe show ?thesis
            by (cases r2)
               (auto simp: download_video_def pytube_then_ytdlp_def split: if_splits)
        qed
      qed
    qed
  qed
  have rc: "e = DownloadCancelled" if "raise_if_cancelled_c w = (Err e, w1)"
    using that by (rule raise_if_cancelled_c_Err)
  have ck: "e = DownloadCancelled \<and> control" if "checkpoint control w = (Err e, w1)"
    using checkpoint_Err[OF that] by simp
  have hh: "make_pytube_progress_handler True control s b w = (Err e, w1)
        \<and> hook env progress_callback control st (info, w) = (Err e, info, w1)"
    if "checkpoint control w = (Err e, w1)"
  proof -
    have "Err e \<noteq> Ok ()" by simp
    from handler_raises[OF that] hook_not_Ok[OF that this] show ?thesis by simp
  qed
  have p1: "download_with_pytube env url output_dir filename audio_only resolution
        progress_callback True w = (Err DownloadCancelled, w1)
      \<and> (\<not> (audio_only \<or> truthy cookies) \<longrightarrow>
          download_video env url output_dir filename audio_only resolution
            progress_callback True cookies w = (Err DownloadCancelled, w1, [Pytube]))"
    if "mkdir_error env = None"
      "raise_if_cancelled_c (w\<lparr>files := insert (Path output_dir) (files w)\<rparr>) = (Err e, w1)"
    using pytube_cancelled_at_entry[OF that] dv_p by blast
  have p2: "download_with_pytube env url output_dir filename audio_only resolution
        progress_callback True w = (Err DownloadCancelled, w2)
      \<and> (\<not> (audio_only \<or> truthy cookies) \<longrightarrow>
          download_video env url output_dir filename audio_only resolution
            progress_callback True cookies w = (Err DownloadCancelled, w2, [Pytube]))"
    if "mkdir_error env = None"
      "raise_if_cancelled_c (w\<lparr>files := insert (Path output_dir) (files w)\<rparr>) = (Ok (), w1)"
      "yt_error env = None"
      "select_stream (yt_streams env) audio_only resolution = Inr s"
      "checkpoint True w1 = (Err e, w2)"
    using pytube_cancelled_before_download[OF that] dv_p by blast
  have p3: "download_with_pytube env url output_dir filename audio_only resolution
        True True w = (Err DownloadCancelled, w4)
      \<and> (\<not> (audio_only \<or> truthy cookies) \<longrightarrow>
          download_video env url output_dir filename audio_only resolution
            True True cookies w = (Err DownloadCancelled, w4, [Pytube]))"
    if "mkdir_error env = None"
      "raise_if_cancelled_c (w\<lparr>files := insert (Path output_dir) (files w)\<rparr>) = (Ok (), w1)"
      "yt_error env = None"
      "select_stream (yt_streams env) audio_only resolution = Inr s"
      "checkpoint True w1 = (Ok (), w2)"
      "dl_chunks env = pre @ b # post"
      "run_chunks (make_pytube_progress_handler True True s) pre
        (w2\<lparr>dl_log := dl_log w2 @ [(s, output_dir,
            case filename of
              None \<Rightarrow> default_filename s
            | Some f \<Rightarrow> if f \<noteq> [] then f else default_filename s)]\<rparr>) = (Ok (), w3)"
      "checkpoint True w3 = (Err e, w4)"
    using pytube_cancelled_in_download[OF that] dv_p by blast
  have y1: "download_with_ytdlp env url output_dir filename audio_only resolution
        progress_callback True cookies w = (Err DownloadCancelled, cleanup (mkdtemp env) w3)
      \<and> (audio_only \<or> truthy cookies \<longrightarrow>
          download_video env url output_dir filename audio_only resolution
            progress_callback True cookies w
            = (Err DownloadCancelled, cleanup (mkdtemp env) w3, [Ytdlp]))"
    if "mkdir_error env = None"
      "determine_template filename audio_only = Inr (template_name, final_extension)"
      "install_cookies env (mkdtemp env) cookies
        ((initial_ydl_opts env template_name final_extension audio_only resolution)
           \<lparr>paths := Some (output_dir, mkdtemp env)\<rparr>)
        (w\<lparr>files := insert (Path (mkdtemp env)) (insert (Path output_dir) (files w))\<rparr>)
        = (Ok opts1, wi)"
      "ydl_init_error env = None"
      "raise_if_cancelled_c (wi\<lparr>ydl_log := ydl_log wi @ [opts1]\<rparr>) = (Err e, w3)"
    using ytdlp_cancelled_before_download[OF that] dv_y by blast
  have y2: "download_with_ytdlp env url output_dir filename audio_only resolution
        progress_callback True cookies w = (Err DownloadCancelled, cleanup (mkdtemp env) w5)
      \<and> (audio_only \<or> truthy cookies \<longrightarrow>
          download_video env url output_dir filename audio_only resolution
            progress_callback True cookies w
            = (Err DownloadCancelled, cleanup (mkdtemp env) w5, [Ytdlp]))"
    if "mkdir_error env = None"
      "determine_template filename audio_only = Inr (template_name, final_extension)"
      "install_cookies env (mkdtemp env) cookies
        ((initial_ydl_opts env template_name final_extension audio_only resolution)
           \<lparr>paths := Some (output_dir, mkdtemp env)\<rparr>)
        (w\<lparr>files := insert (Path (mkdtemp env)) (insert (Path output_dir) (files w))\<rparr>)
        = (Ok opts1, wi)"
      "ydl_init_error env = None"
      "raise_if_cancelled_c (wi\<lparr>ydl_log := ydl_log wi @ [opts1]\<rparr>) = (Ok (), w3)"
      "ydl_statuses env = before @ st # after"
      "run_hooks env progress_callback True before
        (None, w3\<lparr>files := files w3 \<union> set (ydl_files env)\<rparr>) = (Ok (), info, w4)"
      "checkpoint True w4 = (Err e, w5)"
    using ytdlp_cancelled_in_download[OF that] dv_y by blast
  show ?thesis
    apply (intro conjI)
    subgoal using dv_y by blast
    subgoal using dv_p by blast
    subgoal using dv_py by blast
    subgoal using dv_e by blast
    subgoal using rc by blast
    subgoal using ck by blast
    subgoal using hh by blast
    subgoal using p1 by blast
    subgoal using p2 by blast
    subgoal using p3 by blast
    subgoal using y1 by blast
    subgoal using y2 by blast
    done
qed

theorem cancelled_propagates_unchanged_witness:
  "(True \<or> truthy None)
   \<and> fst (download_with_ytdlp sample_env ''u'' ''out'' None True None True True None
            (sample_world\<lparr>ctl := (cancel WorkerControl_init, [])\<rparr>)) = Err DownloadCancelled
   \<and> fst (download_video sample_env ''u'' ''out'' None True None True True None
            (sample_world\<lparr>ctl := (cancel WorkerControl_init, [])\<rparr>)) = Err DownloadCancelled
   \<and> snd (snd (download_video sample_env ''u'' ''out'' None True None True True None
            (sample_world\<lparr>ctl := (cancel WorkerControl_init, [])\<rparr>))) = [Ytdlp]
   \<and> \<not> (False \<or> truthy None)
   \<and> fst (download_with_pytube sample_env ''u'' ''out'' None False None True True
            (sample_world\<lparr>ctl := (cancel WorkerControl_init, [])\<rparr>)) = Err DownloadCancelled
   \<and> fst (download_video sample_env ''u'' ''out'' None False None True True None
            (sample_world\<lparr>ctl := (cancel WorkerControl_init, [])\<rparr>)) = Err DownloadCancelled
   \<and> snd (snd (download_video sample_env ''u'' ''out'' None False None True True None
            (sample_world\<lparr>ctl := (cancel WorkerControl_init, [])\<rparr>))) = [Pytube]
   \<and> fst (download_with_pytube sample_env ''u'' ''out'' None False None True True
            (sample_world\<lparr>ctl := (WorkerControl_init, [[], [CancelSet, ResumeSet]])\<rparr>))
        = Err (ValueError ''No progressive MP4 streams available for this video.'')
   \<and> fst (download_video sample_env ''u'' ''out'' None False None True True None
            (sample_world\<lparr>ctl := (WorkerControl_init, [[], [CancelSet, ResumeSet]])\<rparr>))
        = Err DownloadCancelled
   \<and> snd (snd (download_video sample_env ''u'' ''out'' None False None True True None
            (sample_world\<lparr>ctl := (WorkerControl_init, [[], [CancelSet, ResumeSet]])\<rparr>)))
        = [Pytube, Ytdlp]
   \<and> dl_chunks (sample_env\<lparr>yt_streams := [sample_stream 22 ''720p''], dl_chunks := [500, 0]\<rparr>)
        = [500] @ 0 # []
   \<and> fst (download_with_pytube
            (sample_env\<lparr>yt_streams := [sample_stream 22 ''720p''], dl_chunks := [500, 0]\<rparr>)
            ''u'' ''out'' None False None True True
            (sample_world\<lparr>ctl := (WorkerControl_init,
               [[], [], [], [], [CancelSet, ResumeSet]])\<rparr>)) = Err DownloadCancelled
   \<and> fst (download_video
            (sample_env\<lparr>yt_streams := [sample_stream 22 ''720p''], dl_chunks := [500, 0]\<rparr>)
            ''u'' ''out'' None False None True True None
            (sample_world\<lparr>ctl := (WorkerControl_init,
               [[], [], [], [], [CancelSet, ResumeSet]])\<rparr>)) = Err DownloadCancelled
   \<and> snd (snd (download_video
            (sample_env\<lparr>yt_streams := [sample_stream 22 ''720p''], dl_chunks := [500, 0]\<rparr>)
            ''u'' ''out'' None False None True True None
            (sample_world\<lparr>ctl := (WorkerControl_init,
               [[], [], [], [], [CancelSet, ResumeSet]])\<rparr>))) = [Pytube]
   \<and> sink (fst (snd (download_video
            (sample_env\<lparr>yt_streams := [sample_stream 22 ''720p''], dl_chunks := [500, 0]\<rparr>)
            ''u'' ''out'' None False None True True None
            (sample_world\<lparr>ctl := (WorkerControl_init,
               [[], [], [], [], [CancelSet, ResumeSet]])\<rparr>)))) = [(Some 50, [])]
   \<and> ydl_statuses
        (sample_env\<lparr>ydl_statuses := [sample_status ''downloading'' None,
            sample_status ''downloading'' None, sample_status ''finished'' (Some ''out/a.mp4'')],
          ydl_files := [Path ''out/a.mp4'']\<rparr>)
        = [sample_status ''downloading'' None] @ sample_status ''downloading'' None
            # [sample_status ''finished'' (Some ''out/a.mp4'')]
   \<and> fst (download_with_ytdlp
            (sample_env\<lparr>ydl_statuses := [sample_status ''downloading'' None,
                sample_status ''downloading'' None,
                sample_status ''finished'' (Some ''out/a.mp4'')],
              ydl_files := [Path ''out/a.mp4'']\<rparr>)
            ''u'' ''out'' None True None True True None
            (sample_world\<lparr>ctl := (WorkerControl_init, [[], [], [], [CancelSet, ResumeSet]])\<rparr>))
        = Err DownloadCancelled
   \<and> fst (download_video
            (sample_env\<lparr>ydl_statuses := [sample_status ''downloading'' None,
                sample_status ''downloading'' None,
                sample_status ''finished'' (Some ''out/a.mp4'')],
              ydl_files := [Path ''out/a.mp4'']\<rparr>)
            ''u'' ''out'' None True None True True None
            (sample_world\<lparr>ctl := (WorkerControl_init, [[], [], [], [CancelSet, ResumeSet]])\<rparr>))
        = Err DownloadCancelled
   \<and> snd (snd (download_video
            (sample_env\<lparr>ydl_statuses := [sample_status ''downloading'' None,
                sample_status ''downloading'' None,
                sample_status ''finished'' (Some ''out/a.mp4'')],
              ydl_files := [Path ''out/a.mp4'']\<rparr>)
            ''u'' ''out'' None True None True True None
            (sample_world\<lparr>ctl := (WorkerControl_init, [[], [], [], [CancelSet, ResumeSet]])\<rparr>)))
        = [Ytdlp]
   \<and> sink (fst (snd (download_video
            (sample_env\<lparr>ydl_statuses := [sample_status ''downloading'' None,
                sample_status ''downloading'' None,
                sample_status ''finished'' (Some ''out/a.mp4'')],
              ydl_files := [Path ''out/a.mp4'']\<rparr>)
            ''u'' ''out'' None True None True True None
            (sample_world\<lparr>ctl := (WorkerControl_init, [[], [], [], [CancelSet, ResumeSet]])\<rparr>))))
        = [(None, [])]
   \<and> download_with_pytube sample_env ''u'' ''out'' None False None True True
        (sample_world\<lparr>ctl := (cancel WorkerControl_init, [])\<rparr>)
        = (Err DownloadCancelled,
           sample_world\<lparr>files := {Path ''out''}, ctl := (cancel WorkerControl_init, [])\<rparr>)
   \<and> download_with_pytube
        (sample_env\<lparr>yt_streams := [sample_stream 22 ''720p''], dl_chunks := [500, 0]\<rparr>)
        ''u'' ''out'' None False None True True
        (sample_world\<lparr>ctl := (WorkerControl_init, [[], [CancelSet, ResumeSet]])\<rparr>)
        = (Err DownloadCancelled,
           sample_world\<lparr>files := {Path ''out''}, ctl := (cancel WorkerControl_init, [])\<rparr>)
   \<and> download_video
        (sample_env\<lparr>yt_streams := [sample_stream 22 ''720p''], dl_chunks := [500, 0]\<rparr>)
        ''u'' ''out'' None False None True True None
        (sample_world\<lparr>ctl := (WorkerControl_init, [[], [CancelSet, ResumeSet]])\<rparr>)
        = (Err DownloadCancelled,
           sample_world\<lparr>files := {Path ''out''}, ctl := (cancel WorkerControl_init, [])\<rparr>,
           [Pytube])
   \<and> files (snd (download_with_ytdlp sample_env ''u'' ''out'' None True None True True None
            (sample_world\<lparr>ctl := (cancel WorkerControl_init, [])\<rparr>))) = {Path ''out''}
   \<and> make_pytube_progress_handler True True (sample_stream 22 ''720p'') 0
        (sample_world\<lparr>ctl := (cancel WorkerControl_init, [])\<rparr>)
        = (Err DownloadCancelled, sample_world\<lparr>ctl := (cancel WorkerControl_init, [])\<rparr>)
   \<and> hook sample_env True True (sample_status ''finished'' (Some ''out/a.mp4''))
        (None, sample_world\<lparr>ctl := (cancel WorkerControl_init, [])\<rparr>)
        = (Err DownloadCancelled, None, sample_world\<lparr>ctl := (cancel WorkerControl_init, [])\<rparr>)"
proof -
  let ?wc = "sample_world\<lparr>ctl := (cancel WorkerControl_init, [])\<rparr>"
  let ?wl = "sample_world\<lparr>ctl := (WorkerControl_init, [[], [CancelSet, ResumeSet]])\<rparr>"
  let ?Y = "download_with_ytdlp sample_env ''u'' ''out'' None True None True True None ?wc"
  let ?P = "download_with_pytube sample_env ''u'' ''out'' None False None True True ?wc"
  let ?Q = "download_with_pytube sample_env ''u'' ''out'' None False None True True ?wl"
  let ?e1 = "ValueError ''No progressive MP4 streams available for this video.''"
  let ?Z = "download_with_ytdlp sample_env ''u'' ''out'' None False None True True None
              ((snd ?Q)\<lparr>console := console (snd ?Q) @ [PytubeFailed (str_exn ?e1)]\<rparr>)"
  have t: "\<not> truthy None" by (simp add: truthy_def)
  have nt: "\<not> (False \<or> truthy None)" by (simp add: truthy_def)
  have y: "fst ?Y = Err DownloadCancelled" by code_simp
  have p: "fst ?P = Err DownloadCancelled" by code_simp
  have q: "fst ?Q = Err ?e1" by code_simp
  have z: "fst ?Z = Err DownloadCancelled" by code_simp
  have Y: "?Y = (Err DownloadCancelled, snd ?Y)" using y by (metis prod.collapse)
  have P: "?P = (Err DownloadCancelled, snd ?P)" using p by (metis prod.collapse)
  have Q: "?Q = (Err ?e1, snd ?Q)" using q by (metis prod.collapse)
  have Z: "?Z = (Err DownloadCancelled, snd ?Z)" using z by (metis prod.collapse)
  have ne: "?e1 \<noteq> DownloadCancelled" by simp
  have a: "download_video sample_env ''u'' ''out'' None True None True True None ?wc
             = (Err DownloadCancelled, snd ?Y, [Ytdlp])"
    by (rule cancelled_propagates_unchanged [where audio_only = True and cookies = None,
          THEN conjunct1, rule_format, OF _ Y]) simp
  have b: "download_video sample_env ''u'' ''out'' None False None True True None ?wc
             = (Err DownloadCancelled, snd ?P, [Pytube])"
    by (rule cancelled_propagates_unchanged [where audio_only = False and cookies = None,
          THEN conjunct2, THEN conjunct1, rule_format, OF nt P])
  have c: "download_video sample_env ''u'' ''out'' None False None True True None ?wl
             = (Err DownloadCancelled, snd ?Z, [Pytube, Ytdlp])"
    by (rule cancelled_propagates_unchanged [where audio_only = False and cookies = None,
          THEN conjunct2, THEN conjunct2, THEN conjunct1, rule_format, OF nt Q ne Z])

  let ?s = "sample_stream 22 ''720p''"
  let ?penv = "sample_env\<lparr>yt_streams := [?s], dl_chunks := [500, 0]\<rparr>"
  let ?wm = "sample_world\<lparr>ctl := (WorkerControl_init,
               [[], [], [], [], [CancelSet, ResumeSet]])\<rparr>"
  let ?W1 = "sample_world\<lparr>files := {Path ''out''},
               ctl := (WorkerControl_init, [[], [], [], [CancelSet, ResumeSet]])\<rparr>"
  let ?W2 = "sample_world\<lparr>files := {Path ''out''},
               ctl := (WorkerControl_init, [[], [CancelSet, ResumeSet]])\<rparr>"
  let ?W3 = "sample_world\<lparr>files := {Path ''out''}, sink := [(Some 50, [])],
               dl_log := [(?s, ''out'', ''video.mp4'')],
               ctl := (cancel WorkerControl_init, [])\<rparr>"
  have penv: "mkdir_error ?penv = None" "yt_error ?penv = None"
    "dl_chunks ?penv = [500] @ 0 # []"
    by (simp_all add: sample_env_def)
  have sel: "select_stream (yt_streams ?penv) False None = Inr ?s" by code_simp
  have R1: "raise_if_cancelled_c (?wm\<lparr>files := insert (Path ''out'') (files ?wm)\<rparr>)
              = (Ok (), ?W1)"
    by code_simp
  have R2: "checkpoint True ?W1 = (Ok (), ?W2)" by code_simp
  have R3: "run_chunks (make_pytube_progress_handler True True ?s) [500]
        (?W2\<lparr>dl_log := dl_log ?W2 @ [(?s, ''out'',
            case None of
              None \<Rightarrow> default_filename ?s
            | Some f \<Rightarrow> if f \<noteq> [] then f else default_filename ?s)]\<rparr>) = (Ok (), ?W3)"
    by code_simp
  have R4: "checkpoint True ?W3 = (Err DownloadCancelled, ?W3)" by code_simp
  note m = cancelled_propagates_unchanged [where env = ?penv and audio_only = False
      and cookies = None and w = ?wm and url = "''u''",
      THEN conjunct2, THEN conjunct2, THEN conjunct2, THEN conjunct2, THEN conjunct2,
      THEN conjunct2, THEN conjunct2, THEN conjunct2, THEN conjunct2, THEN conjunct1,
      rule_format, OF penv(1) R1 penv(2) sel R2 penv(3) R3 R4]
  have m1: "download_with_pytube ?penv ''u'' ''out'' None False None True True ?wm
              = (Err DownloadCancelled, ?W3)"
    by (rule m[THEN conjunct1])
  have m2: "download_video ?penv ''u'' ''out'' None False None True True None ?wm
              = (Err DownloadCancelled, ?W3, [Pytube])"
    by (rule m[THEN conjunct2, rule_format, OF nt])
  have m3: "sink ?W3 = [(Some 50, [])]" by simp
  let ?d = "sample_status ''downloading'' None"
  let ?f = "sample_status ''finished'' (Some ''out/a.mp4'')"
  let ?yenv = "sample_env\<lparr>ydl_statuses := [?d, ?d, ?f], ydl_files := [Path ''out/a.mp4'']\<rparr>"
  let ?wy = "sample_world\<lparr>ctl := (WorkerControl_init, [[], [], [], [CancelSet, ResumeSet]])\<rparr>"
  let ?o = "(initial_ydl_opts ?yenv ''%(title)s.%(ext)s'' (Some ''mp3'') True None)
              \<lparr>paths := Some (''out'', mkdtemp ?yenv)\<rparr>"
  let ?wy1 = "?wy\<lparr>files := insert (Path (mkdtemp ?yenv)) (insert (Path ''out'') (files ?wy))\<rparr>"
  let ?Y3 = "sample_world\<lparr>files := {Path (mkdtemp ?yenv), Path ''out''}, ydl_log := [?o],
               ctl := (WorkerControl_init, [[], [], [CancelSet, ResumeSet]])\<rparr>"
  let ?Y4 = "sample_world\<lparr>files := {Path (mkdtemp ?yenv), Path ''out'', Path ''out/a.mp4''},
               sink := [(None, [])], ydl_log := [?o],
               ctl := (WorkerControl_init, [[CancelSet, ResumeSet]])\<rparr>"
  let ?Y5 = "sample_world\<lparr>files := {Path (mkdtemp ?yenv), Path ''out'', Path ''out/a.mp4''},
               sink := [(None, [])], ydl_log := [?o],
               ctl := (cancel WorkerControl_init, [])\<rparr>"
  have yenv: "mkdir_error ?yenv = None" "ydl_init_error ?yenv = None"
    "ydl_statuses ?yenv = [?d] @ ?d # [?f]"
    by (simp_all add: sample_env_def)
  have dt: "determine_template None True = Inr (''%(title)s.%(ext)s'', Some ''mp3'')"
    by (simp add: determine_template_def truthy_def)
  have ic: "install_cookies ?yenv (mkdtemp ?yenv) None ?o ?wy1 = (Ok ?o, ?wy1)"
    by (simp add: install_cookies_def truthy_def)
  have S1: "raise_if_cancelled_c (?wy1\<lparr>ydl_log := ydl_log ?wy1 @ [?o]\<rparr>) = (Ok (), ?Y3)"
    by code_simp
  have S2: "run_hooks ?yenv True True [?d]
        (None, ?Y3\<lparr>files := files ?Y3 \<union> set (ydl_files ?yenv)\<rparr>) = (Ok (), None, ?Y4)"
    by code_simp
  have S3: "checkpoint True ?Y4 = (Err DownloadCancelled, ?Y5)" by code_simp
  have tt: "True \<or> truthy None" by simp
  note n = cancelled_propagates_unchanged [where env = ?yenv and audio_only = True
      and cookies = None and w = ?wy and url = "''u''" and progress_callback = True,
      THEN conjunct2, THEN conjunct2, THEN conjunct2, THEN conjunct2, THEN conjunct2,
      THEN conjunct2, THEN conjunct2, THEN conjunct2, THEN conjunct2, THEN conjunct2,
      THEN conjunct2,
      rule_format, OF yenv(1) dt ic yenv(2) S1 yenv(3) S2 S3]
  have n1: "download_with_ytdlp ?yenv ''u'' ''out'' None True None True True None ?wy
              = (Err DownloadCancelled, cleanup (mkdtemp ?yenv) ?Y5)"
    by (rule n[THEN conjunct1])
  have n2: "download_video ?yenv ''u'' ''out'' None True None True True None ?wy
              = (Err DownloadCancelled, cleanup (mkdtemp ?yenv) ?Y5, [Ytdlp])"
    by (rule n[THEN conjunct2, rule_format, OF tt])
  have n3: "sink (cleanup (mkdtemp ?yenv) ?Y5) = [(None, [])]" by (simp add: cleanup_def)
  have A: "fst (download_video sample_env ''u'' ''out'' None True None True True None ?wc)
             = Err DownloadCancelled"
    "snd (snd (download_video sample_env ''u'' ''out'' None True None True True None ?wc))
             = [Ytdlp]"
    using a by simp_all
  have B: "fst (download_video sample_env ''u'' ''out'' None False None True True None ?wc)
             = Err DownloadCancelled"
    "snd (snd (download_video sample_env ''u'' ''out'' None False None True True None ?wc))
             = [Pytube]"
    using b by simp_all
  have C: "fst (download_video sample_env ''u'' ''out'' None False None True True None ?wl)
             = Err DownloadCancelled"
    "snd (snd (download_video sample_env ''u'' ''out'' None False None True True None ?wl))
             = [Pytube, Ytdlp]"
    using c by simp_all
  have M: "fst (download_with_pytube ?penv ''u'' ''out'' None False None True True ?wm)
             = Err DownloadCancelled"
    "fst (download_video ?penv ''u'' ''out'' None False None True True None ?wm)
             = Err DownloadCancelled"
    "snd (snd (download_video ?penv ''u'' ''out'' None False None True True None ?wm)) = [Pytube]"
    "sink (fst (snd (download_video ?penv ''u'' ''out'' None False None True True None ?wm)))
             = [(Some 50, [])]"
    using m1 m2 m3 by simp_all
  have N: "fst (download_with_ytdlp ?yenv ''u'' ''out'' None True None True True None ?wy)
             = Err DownloadCancelled"
    "fst (download_video ?yenv ''u'' ''out'' None True None True True None ?wy)
             = Err DownloadCancelled"
    "snd (snd (download_video ?yenv ''u'' ''out'' None True None True True None ?wy)) = [Ytdlp]"
    "sink (fst (snd (download_video ?yenv ''u'' ''out'' None True None True True None ?wy)))
             = [(None, [])]"
    using n1 n2 n3 by simp_all
  let ?X1 = "sample_world\<lparr>files := {Path ''out''}, ctl := (cancel WorkerControl_init, [])\<rparr>"
  let ?L1 = "sample_world\<lparr>files := {Path ''out''},
               ctl := (WorkerControl_init, [[CancelSet, ResumeSet]])\<rparr>"
  have senv: "mkdir_error sample_env = None" "ydl_init_error sample_env = None"
    by (simp_all add: sample_env_def)
  have E1: "raise_if_cancelled_c (?wc\<lparr>files := insert (Path ''out'') (files ?wc)\<rparr>)
              = (Err DownloadCancelled, ?X1)"
    by code_simp
  have P1: "download_with_pytube sample_env ''u'' ''out'' None False None True True ?wc
              = (Err DownloadCancelled, ?X1)"
    by (rule cancelled_propagates_unchanged [where audio_only = False and cookies = None,
          THEN conjunct2, THEN conjunct2, THEN conjunct2, THEN conjunct2, THEN conjunct2,
          THEN conjunct2, THEN conjunct2, THEN conjunct1, rule_format, OF senv(1) E1,
          THEN conjunct1])
  have L1: "raise_if_cancelled_c (?wl\<lparr>files := insert (Path ''out'') (files ?wl)\<rparr>)
              = (Ok (), ?L1)"
    by code_simp
  have L2: "checkpoint True ?L1 = (Err DownloadCancelled, ?X1)" by code_simp
  note l = cancelled_propagates_unchanged [where env = ?penv and audio_only = False
      and cookies = None and w = ?wl and url = "''u''" and filename = None
      and progress_callback = True,
      THEN conjunct2, THEN conjunct2, THEN conjunct2, THEN conjunct2, THEN conjunct2,
      THEN conjunct2, THEN conjunct2, THEN conjunct2, THEN conjunct1,
      rule_format, OF penv(1) L1 penv(2) sel L2]
  have P2: "download_with_pytube ?penv ''u'' ''out'' None False None True True ?wl
              = (Err DownloadCancelled, ?X1)"
    by (rule l[THEN conjunct1])
  have P2': "download_video ?penv ''u'' ''out'' None False None True True None ?wl
              = (Err DownloadCancelled, ?X1, [Pytube])"
    by (rule l[THEN conjunct2, rule_format, OF nt])
  let ?o0 = "(initial_ydl_opts sample_env ''%(title)s.%(ext)s'' (Some ''mp3'') True None)
              \<lparr>paths := Some (''out'', mkdtemp sample_env)\<rparr>"
  let ?wc1 = "?wc\<lparr>files := insert (Path (mkdtemp sample_env))
                (insert (Path ''out'') (files ?wc))\<rparr>"
  let ?Z3 = "sample_world\<lparr>files := {Path (mkdtemp sample_env), Path ''out''}, ydl_log := [?o0],
               ctl := (cancel WorkerControl_init, [])\<rparr>"
  have ic0: "install_cookies sample_env (mkdtemp sample_env) None ?o0 ?wc1 = (Ok ?o0, ?wc1)"
    by (simp add: install_cookies_def truthy_def)
  have Z1: "raise_if_cancelled_c (?wc1\<lparr>ydl_log := ydl_log ?wc1 @ [?o0]\<rparr>)
              = (Err DownloadCancelled, ?Z3)"
    by code_simp
  have Y1: "download_with_ytdlp sample_env ''u'' ''out'' None True None True True None ?wc
              = (Err DownloadCancelled, cleanup (mkdtemp sample_env) ?Z3)"
    by (rule cancelled_propagates_unchanged [where env = sample_env and audio_only = True
          and cookies = None and w = ?wc and url = "''u''" and progress_callback = True,
          THEN conjunct2, THEN conjunct2, THEN conjunct2, THEN conjunct2, THEN conjunct2,
          THEN conjunct2, THEN conjunct2, THEN conjunct2, THEN conjunct2, THEN conjunct2,
          THEN conjunct1, rule_format, OF senv(1) dt ic0 senv(2) Z1, THEN conjunct1])
  have Y1f: "files (cleanup (mkdtemp sample_env) ?Z3) = {Path ''out''}" by code_simp
  have Y1': "files (snd ?Y) = {Path ''out''}" using Y1 Y1f by simp
  have K: "checkpoint True ?wc = (Err DownloadCancelled, ?wc)" by code_simp
  note hk = cancelled_propagates_unchanged [where env = sample_env and control = True
      and w = ?wc and progress_callback = True and s = ?s and b = 0 and st = ?f
      and info = None,
      THEN conjunct2, THEN conjunct2, THEN conjunct2, THEN conjunct2, THEN conjunct2,
      THEN conjunct2, THEN conjunct1, rule_format, OF K]
  have H1: "make_pytube_progress_handler True True ?s 0 ?wc = (Err DownloadCancelled, ?wc)"
    by (rule hk[THEN conjunct1])
  have H2: "hook sample_env True True ?f (None, ?wc) = (Err DownloadCancelled, None, ?wc)"
    by (rule hk[THEN conjunct2])
  show ?thesis
    by (intro conjI) (fact tt y A nt p B q C penv(3) M yenv(3) N P1 P2 P2' Y1' H1 H2)+
qed

end
